theory Spec2Isabelle
  imports
    Main
    "HOL-Library.Word"
    "HOL-Library.Char_ord"
    "HOL-Library.List_Lexorder"
    "HOL-Library.Multiset"
    "HOL-Library.AList"
begin

unbundle bit_operations_syntax

section \<open>Go library functions used by the wrangler\<close>

text \<open>
  Go strings are byte sequences and so are HOL strings. The functions below are the
  parts of Go's \<^verbatim>\<open>strings\<close>, \<^verbatim>\<open>sort\<close>, \<^verbatim>\<open>fmt\<close> and \<^verbatim>\<open>hash/fnv\<close>
  packages that \<^verbatim>\<open>materializer.go\<close> calls. Case folding and space trimming are
  modelled on ASCII.
\<close>

fun strings_HasPrefix :: "string \<Rightarrow> string \<Rightarrow> bool" where
  "strings_HasPrefix s [] = True"
| "strings_HasPrefix [] (p # ps) = False"
| "strings_HasPrefix (c # s) (p # ps) = (c = p \<and> strings_HasPrefix s ps)"

fun strings_Contains :: "string \<Rightarrow> string \<Rightarrow> bool" where
  "strings_Contains [] sub = (sub = [])"
| "strings_Contains (c # s) sub = (strings_HasPrefix (c # s) sub \<or> strings_Contains s sub)"

text \<open>\<^verbatim>\<open>strings.Replace(s, old, new, 1)\<close>: the first occurrence only.\<close>

fun strings_Replace1 :: "string \<Rightarrow> string \<Rightarrow> string \<Rightarrow> string" where
  "strings_Replace1 [] old new = (if old = [] then new else [])"
| "strings_Replace1 (c # s) old new =
     (if strings_HasPrefix (c # s) old then new @ drop (length old) (c # s)
      else c # strings_Replace1 s old new)"

text \<open>\<^verbatim>\<open>strings.Split(s, sep)\<close> for a separator of one byte; the result is never empty.\<close>

fun strings_Split :: "string \<Rightarrow> char \<Rightarrow> string list" where
  "strings_Split [] sep = [[]]"
| "strings_Split (c # s) sep =
     (if c = sep then [] # strings_Split s sep
      else (case strings_Split s sep of
              [] \<Rightarrow> [[c]]
            | p # ps \<Rightarrow> (c # p) # ps))"

fun strings_Join :: "string list \<Rightarrow> string \<Rightarrow> string" where
  "strings_Join [] sep = []"
| "strings_Join [x] sep = x"
| "strings_Join (x # y # ys) sep = x @ sep @ strings_Join (y # ys) sep"

definition isSpace :: "char \<Rightarrow> bool" where
  "isSpace c = (c \<in> set [CHR '' '', CHR 0x09, CHR 0x0A, CHR 0x0B, CHR 0x0C, CHR 0x0D])"

definition strings_TrimSpace :: "string \<Rightarrow> string" where
  "strings_TrimSpace s = rev (dropWhile isSpace (rev (dropWhile isSpace s)))"

definition toLower :: "char \<Rightarrow> char" where
  "toLower c =
     (if (65::int) \<le> of_char c \<and> of_char c \<le> (90::int)
      then char_of (of_char c + (32::int)) else c)"

definition strings_EqualFold :: "string \<Rightarrow> string \<Rightarrow> bool" where
  "strings_EqualFold s t = (map toLower s = map toLower t)"

text \<open>\<^verbatim>\<open>fmt.Sprintf("%d", n)\<close>.\<close>

function int_digits :: "int \<Rightarrow> string" where
  "int_digits n =
     (if n < 10 then [''0123456789'' ! nat n]
      else int_digits (n div 10) @ [''0123456789'' ! nat (n mod 10)])"
  by pat_completeness auto
termination
  by (relation "measure nat") auto

declare int_digits.simps [simp del]

definition sprint_int :: "int \<Rightarrow> string" where
  "sprint_int i = (if i < 0 then CHR ''-'' # int_digits (- i) else int_digits i)"

text \<open>
  \<^verbatim>\<open>hash/fnv\<close>, \<^verbatim>\<open>New64\<close>: the 64-bit FNV-1 hash. \<^verbatim>\<open>Write\<close> multiplies by the
  prime and then xors the byte in, wrapping at 64 bits.
\<close>

definition offset64 :: "64 word" where
  "offset64 = 14695981039346656037"

definition prime64 :: "64 word" where
  "prime64 = 1099511628211"

definition fnv_Write :: "64 word \<Rightarrow> string \<Rightarrow> 64 word" where
  "fnv_Write h bs = foldl (\<lambda>hash c. (hash * prime64) XOR of_char c) h bs"

section \<open>The migration identifier\<close>

text \<open>
  \<^verbatim>\<open>getMigrationID\<close> (materializer.go): \<^verbatim>\<open>sort.Strings\<close> orders the identifiers
  bytewise, the hasher takes the keyspace name and then every identifier, and the top
  bit of the sum is dropped (\<^verbatim>\<open>math.MaxInt64\<close>) so that the \<^verbatim>\<open>int64\<close> is not
  negative. The error result of the source is always \<^verbatim>\<open>nil\<close>.
\<close>

definition getMigrationID :: "string \<Rightarrow> string list \<Rightarrow> 64 word" where
  "getMigrationID targetKeyspace shardTablets =
     (let sorted = sort shardTablets;
          hasher = fnv_Write offset64 targetKeyspace;
          hasher = foldl fnv_Write hasher sorted
      in hasher AND 9223372036854775807)"

section \<open>Errors\<close>

text \<open>
  A Go \<^verbatim>\<open>error\<close> is a message. \<open>Errorf\<close> keeps the format string of the
  \<^verbatim>\<open>fmt.Errorf\<close> call and the arguments that are strings or numbers (an argument
  printed with \<^verbatim>\<open>%v\<close> from a composite value is left out). \<open>TopoError\<close> and
  \<open>RPCError\<close> are failures of the topology store and of a tablet manager call,
  \<open>CapabilityError\<close> is an error returned by the SQL parser or the vindex library,
  \<open>Wrapf\<close> is \<^verbatim>\<open>vterrors.Wrapf\<close>, \<open>Aggregate\<close> is
  \<^verbatim>\<open>AllErrorRecorder.AggrError(vterrors.Aggregate)\<close>, and \<open>Panic\<close> is a run-time
  panic (a nil dereference, an index out of range).
\<close>

datatype error =
    Errorf string "string list"
  | TopoError string
  | RPCError string
  | CapabilityError string
  | Wrapf error string
  | Aggregate "error list"
  | Panic string

definition AggrError :: "error list \<Rightarrow> error option" where
  "AggrError allErrors = (if allErrors = [] then None else Some (Aggregate allErrors))"

section \<open>Data model\<close>

subsection \<open>Topology records\<close>

text \<open>
  A tablet alias is kept in its printed form (\<^verbatim>\<open>AliasString\<close>). A shard's key range
  is \<^verbatim>\<open>nil\<close> for an unsharded keyspace; an empty \<open>kr_End\<close> means no upper bound.
\<close>

type_synonym TabletAlias = string

record KeyRange =
  kr_Start :: string
  kr_End :: string

record ShardInfo =
  si_Keyspace :: string
  si_ShardName :: string
  si_KeyRange :: "KeyRange option"
  si_PrimaryAlias :: "TabletAlias option"

record TabletInfo =
  ti_Alias :: TabletAlias
  ti_DbName :: string

subsection \<open>VSchema messages (\<^verbatim>\<open>vschemapb\<close>)\<close>

text \<open>
  A protobuf map is an association list; a key is looked up with \<open>map_of\<close> and
  stored with \<open>AList.update\<close>, so a key occurs once in a map built by the model.
\<close>

record Vindex =
  vx_Type :: string
  vx_Params :: "(string \<times> string) list"
  vx_Owner :: string

record ColumnVindex =
  cv_Column :: string
  cv_Name :: string
  cv_Columns :: "string list"

record AutoIncrement =
  ai_Column :: string
  ai_Sequence :: string

record Table =
  tb_Type :: string
  tb_ColumnVindexes :: "ColumnVindex list"
  tb_AutoIncrement :: "AutoIncrement option"
  tb_Other :: string

record Keyspace =
  ks_Sharded :: bool
  ks_Vindexes :: "(string \<times> Vindex) list"
  ks_Tables :: "(string \<times> Table) list"

text \<open>\<^verbatim>\<open>m[k]\<close> on a \<^verbatim>\<open>map[string]string\<close>: the empty string when the key is missing.\<close>

definition param :: "(string \<times> string) list \<Rightarrow> string \<Rightarrow> string" where
  "param m k = (case map_of m k of None \<Rightarrow> [] | Some v \<Rightarrow> v)"

text \<open>\<^verbatim>\<open>proto.Equal\<close> on two vindexes: the parameters are compared as maps.\<close>

definition proto_Equal_Vindex :: "Vindex \<Rightarrow> Vindex \<Rightarrow> bool" where
  "proto_Equal_Vindex a b =
     (vx_Type a = vx_Type b \<and> vx_Owner a = vx_Owner b \<and>
      (\<forall>k \<in> set (map fst (vx_Params a) @ map fst (vx_Params b)).
         map_of (vx_Params a) k = map_of (vx_Params b) k))"

definition emptyTable :: Table where
  "emptyTable = \<lparr>tb_Type = [], tb_ColumnVindexes = [], tb_AutoIncrement = None, tb_Other = []\<rparr>"

subsection \<open>Materialization settings (\<^verbatim>\<open>vtctldatapb\<close>)\<close>

datatype MaterializationIntent = CUSTOM | MOVETABLES | CREATELOOKUPINDEX

definition intent_code :: "MaterializationIntent \<Rightarrow> int" where
  "intent_code i = (case i of CUSTOM \<Rightarrow> 0 | MOVETABLES \<Rightarrow> 1 | CREATELOOKUPINDEX \<Rightarrow> 2)"

record TableMaterializeSettings =
  tms_TargetTable :: string
  tms_SourceExpression :: string
  tms_CreateDdl :: string

record MaterializeSettings =
  ms_Workflow :: string
  ms_SourceKeyspace :: string
  ms_TargetKeyspace :: string
  ms_StopAfterCopy :: bool
  ms_TableSettings :: "TableMaterializeSettings list"
  ms_Cell :: string
  ms_TabletTypes :: string
  ms_ExternalCluster :: string
  ms_MaterializationIntent :: MaterializationIntent
  ms_SourceTimeZone :: string
  ms_TargetTimeZone :: string
  ms_SourceShards :: "string list"

definition createDDLAsCopy :: string where
  "createDDLAsCopy = ''copy''"

definition createDDLAsCopyDropConstraint :: string where
  "createDDLAsCopyDropConstraint = ''copy:drop_constraint''"

definition createDDLAsCopyDropForeignKeys :: string where
  "createDDLAsCopyDropForeignKeys = ''copy:drop_foreign_keys''"

subsection \<open>Stream records (\<^verbatim>\<open>_vt.vreplication\<close>)\<close>

record Rule =
  rule_Match :: string
  rule_Filter :: string

record BinlogSource =
  bls_Keyspace :: string
  bls_Shard :: string
  bls_Filter :: "Rule list"
  bls_StopAfterCopy :: bool
  bls_ExternalCluster :: string
  bls_SourceTimeZone :: string
  bls_TargetTimeZone :: string

text \<open>
  The \<^verbatim>\<open>source\<close> column holds the descriptor in protobuf text form. A row written
  by anything else may hold bytes that do not unmarshal: \<open>Garbled\<close>.
\<close>

datatype source_column = Source BinlogSource | Garbled string

definition BlpStopped :: string where
  "BlpStopped = ''Stopped''"

definition BlpRunning :: string where
  "BlpRunning = ''Running''"

datatype WorkflowSubType = SubTypeNone | SubTypePartial

record StreamRecord =
  sr_id :: int
  sr_workflow :: string
  sr_source :: source_column
  sr_cell :: string
  sr_tablet_types :: string
  sr_state :: string
  sr_message :: string
  sr_db_name :: string
  sr_workflow_type :: int
  sr_workflow_sub_type :: WorkflowSubType

subsection \<open>Table schemas (\<^verbatim>\<open>tabletmanagerdatapb\<close>)\<close>

record Field =
  fld_Name :: string
  fld_Type :: string

record TableDefinition =
  td_Name :: string
  td_Schema :: string
  td_Fields :: "Field list"

record SchemaChange =
  sc_SQL :: string
  sc_Force :: bool
  sc_AllowReplication :: bool
  sc_SQLMode :: string

subsection \<open>SQL syntax trees (\<^verbatim>\<open>sqlparser\<close>)\<close>

text \<open>
  The engine looks at a select statement's select expressions and at its where clause
  and at a DDL statement's table constraints; the rest of a statement is kept as text.
  A column name carries its qualifier and its name.
\<close>

datatype Expr =
    ColName string string
  | StrLiteral string
  | FuncExpr string "SelectExpr list"
  | AndExpr Expr Expr
  | OrExpr Expr Expr
  | NotExpr Expr
  | ComparisonExpr string Expr Expr
  | OtherExpr string
and SelectExpr =
    StarExpr
  | AliasedExpr Expr string
  | Nextval

record Select =
  sel_SelectExprs :: "SelectExpr list"
  sel_From :: string
  sel_Where :: "Expr option"
  sel_Rest :: string

datatype Statement = SelectStmt Select | OtherStmt string

datatype ConstraintInfo = ForeignKeyDefinition string | OtherConstraint string

record ConstraintDefinition =
  cd_Name :: string
  cd_Details :: "ConstraintInfo option"

record TableSpec =
  tsp_Constraints :: "ConstraintDefinition list"
  tsp_Other :: string

record DDLStatement =
  ddl_Head :: string
  ddl_TableSpec :: "TableSpec option"

text \<open>\<^verbatim>\<open>IdentifierCI.Equal\<close>: identifiers are compared in lower case.\<close>

definition IdentifierCI_Equal :: "string \<Rightarrow> string \<Rightarrow> bool" where
  "IdentifierCI_Equal a b = (map toLower a = map toLower b)"

subsection \<open>The built target schema (\<^verbatim>\<open>vindexes.KeyspaceSchema\<close>)\<close>

record vindexes_ColumnVindex =
  vcv_Columns :: "string list"
  vcv_Name :: string

record vindexes_Table =
  vt_Type :: string
  vt_ColumnVindexes :: "vindexes_ColumnVindex list"

record KeyspaceSchema =
  kss_Sharded :: bool
  kss_Tables :: "(string \<times> vindexes_Table) list"

definition TypeReference :: string where
  "TypeReference = ''reference''"

section \<open>Collaborators\<close>

subsection \<open>Opaque capabilities\<close>

text \<open>
  The SQL parser and printer, the vindex library and a few helpers of other packages
  are not part of the engine. Every function below takes them as the fields of a
  \<open>Library\<close>, so each theorem holds for any implementation of them.
  \<^item> \<open>lib_Parse\<close>, \<open>lib_String\<close>: \<^verbatim>\<open>sqlparser.Parse\<close> and \<^verbatim>\<open>sqlparser.String\<close>
    of a select statement;
  \<^item> \<open>lib_ParseStrictDDL\<close>, \<open>lib_StringDDL\<close>: the same for a DDL statement;
  \<^item> \<open>lib_TableFromStatement\<close>: the qualifier and the name of the table a statement
    selects from; \<open>lib_ParseTable\<close>: a qualified table name split into keyspace and
    table;
  \<^item> \<open>lib_Ident\<close>: an identifier as \<^verbatim>\<open>Myprintf("%v")\<close> prints it,
    \<open>lib_EscapeID\<close>: \<^verbatim>\<open>sqlescape.EscapeID\<close>;
  \<^item> \<open>lib_CreateVindex\<close>, \<open>lib_ChooseVindexForType\<close>,
    \<open>lib_BuildKeyspaceSchema\<close>: the functions of \<^verbatim>\<open>vindexes\<close> with these
    names;
  \<^item> \<open>lib_IsInternalOperationTableName\<close>: \<^verbatim>\<open>schema.IsInternalOperationTableName\<close>;
  \<^item> \<open>lib_Unmarshal\<close>: \<^verbatim>\<open>json2.Unmarshal\<close> into a \<^verbatim>\<open>vschemapb.Keyspace\<close>;
  \<^item> \<open>lib_KeyRangeString\<close>: \<^verbatim>\<open>key.KeyRangeString\<close>;
  \<^item> \<open>lib_TimeParse\<close>: whether \<^verbatim>\<open>time.Parse\<close> accepts the text for the layout
    \<^verbatim>\<open>2006-01-02 15:04:05\<close>;
  \<^item> \<open>lib_SQLMode\<close>: the constant \<^verbatim>\<open>vreplication.SQLMode\<close>;
  \<^item> \<open>lib_ExecuteDDL\<close>: what a tablet's database does with the SQL of a schema
    change, given its table definitions.
\<close>

record Library =
  lib_Parse :: "string \<Rightarrow> error + Statement"
  lib_String :: "Select \<Rightarrow> string"
  lib_ParseStrictDDL :: "string \<Rightarrow> error + DDLStatement"
  lib_StringDDL :: "DDLStatement \<Rightarrow> string"
  lib_TableFromStatement :: "string \<Rightarrow> error + (string \<times> string)"
  lib_ParseTable :: "string \<Rightarrow> error + (string \<times> string)"
  lib_Ident :: "string \<Rightarrow> string"
  lib_EscapeID :: "string \<Rightarrow> string"
  lib_CreateVindex :: "string \<Rightarrow> string \<Rightarrow> (string \<times> string) list \<Rightarrow> error option"
  lib_ChooseVindexForType :: "string \<Rightarrow> error + string"
  lib_BuildKeyspaceSchema :: "Keyspace \<Rightarrow> string \<Rightarrow> error + KeyspaceSchema"
  lib_IsInternalOperationTableName :: "string \<Rightarrow> bool"
  lib_Unmarshal :: "string \<Rightarrow> error + Keyspace"
  lib_KeyRangeString :: "KeyRange option \<Rightarrow> string"
  lib_TimeParse :: "string \<Rightarrow> bool"
  lib_SQLMode :: string
  lib_ExecuteDDL :: "string \<Rightarrow> TableDefinition list \<Rightarrow> error + TableDefinition list"

text \<open>
  Modelled from the spec: \<^verbatim>\<open>key.KeyRangesIntersect\<close> is not among the sources. A
  shard owns the key range \<open>[low, high)\<close>, an empty bound is open, and a shard with
  no key range holds every key; two ranges intersect when each starts below the other's
  end. Bounds are compared bytewise.
\<close>

definition KeyRangesIntersect :: "KeyRange option \<Rightarrow> KeyRange option \<Rightarrow> bool" where
  "KeyRangesIntersect first second =
     (case first of
        None \<Rightarrow> True
      | Some a \<Rightarrow>
          (case second of
             None \<Rightarrow> True
           | Some b \<Rightarrow>
               (kr_End a = [] \<or> kr_Start b < kr_End a) \<and>
               (kr_End b = [] \<or> kr_Start a < kr_End b)))"

text \<open>
  Modelled from the spec: \<^verbatim>\<open>vindexes.FindBestColVindex\<close> is not among the sources.
  It resolves the primary column vindex of a table, which is the first of the table's
  column vindexes; a table without a column vindex has none.
\<close>

definition FindBestColVindex :: "vindexes_Table \<Rightarrow> error + vindexes_ColumnVindex" where
  "FindBestColVindex table =
     (case vt_ColumnVindexes table of
        [] \<Rightarrow> Inl (Errorf ''could not find a vindex to compute keyspace id for table %v'' [])
      | cv # others \<Rightarrow> Inr cv)"

subsection \<open>The world: topology store and tablets\<close>

text \<open>
  A \<open>Cluster\<close> is what a topology server knows of shards and tablets: the serving
  shards of a keyspace and the database name of a tablet. The engine only reads it. A \<open>TabletState\<close> is what a tablet manager call can see or change on
  one tablet: its table definitions, the rows of \<^verbatim>\<open>_vt.vreplication\<close> with the next
  auto-increment id, the migration ids in \<^verbatim>\<open>_vt.resharding_journal\<close>, the schema
  changes applied through \<^verbatim>\<open>ApplySchema\<close>, and the rows that the time zone probe
  \<^verbatim>\<open>select convert_tz(...)\<close> returns for a source time zone. A tablet whose
  \<open>tab_rpcError\<close> is set fails every call.
\<close>

record Cluster =
  cl_ServingShards :: "string \<rightharpoonup> ShardInfo list"
  cl_Tablets :: "TabletAlias \<rightharpoonup> string"

record TabletState =
  tab_TableDefinitions :: "TableDefinition list"
  tab_vreplication :: "StreamRecord list"
  tab_nextId :: int
  tab_journal :: "64 word list"
  tab_applied :: "SchemaChange list"
  tab_convertTz :: "string \<Rightarrow> string list list"
  tab_rpcError :: "string option"

datatype TopoOp =
    OpGetVSchema string
  | OpSaveVSchema string
  | OpGetRoutingRules
  | OpSaveRoutingRules
  | OpRebuildSrvVSchema

text \<open>
  The \<open>Wrangler\<close> carries the whole world: the topology server \<open>wr_ts\<close> with the
  VSchemas and the routing rules it stores, the topology server of the source
  \<open>wr_sourceTs\<close> (the same cluster unless an external cluster is mounted), the
  mounted external clusters, the tablets, the calls of the topology store that fail,
  and the library.
\<close>

record Wrangler =
  wr_ts :: Cluster
  wr_sourceTs :: Cluster
  wr_externalClusters :: "string \<rightharpoonup> Cluster"
  wr_vschemas :: "string \<rightharpoonup> Keyspace"
  wr_routingRules :: "(string \<times> string list) list"
  wr_tablets :: "TabletAlias \<Rightarrow> TabletState"
  wr_topoFault :: "TopoOp \<Rightarrow> string option"
  wr_lib :: Library

subsection \<open>Topology store calls\<close>

definition GetVSchema :: "Wrangler \<Rightarrow> string \<Rightarrow> error + Keyspace" where
  "GetVSchema wr keyspace =
     (case wr_topoFault wr (OpGetVSchema keyspace) of
        Some m \<Rightarrow> Inl (TopoError m)
      | None \<Rightarrow>
          (case wr_vschemas wr keyspace of
             None \<Rightarrow> Inl (TopoError ''node doesn't exist'')
           | Some v \<Rightarrow> Inr v))"

definition SaveVSchema :: "Wrangler \<Rightarrow> string \<Rightarrow> Keyspace \<Rightarrow> error option \<times> Wrangler" where
  "SaveVSchema wr keyspace v =
     (case wr_topoFault wr (OpSaveVSchema keyspace) of
        Some m \<Rightarrow> (Some (TopoError m), wr)
      | None \<Rightarrow> (None, wr\<lparr>wr_vschemas := (wr_vschemas wr)(keyspace \<mapsto> v)\<rparr>))"

definition RebuildSrvVSchema :: "Wrangler \<Rightarrow> error option" where
  "RebuildSrvVSchema wr = map_option TopoError (wr_topoFault wr OpRebuildSrvVSchema)"

definition GetRoutingRules :: "Wrangler \<Rightarrow> error + (string \<times> string list) list" where
  "GetRoutingRules wr =
     (case wr_topoFault wr OpGetRoutingRules of
        Some m \<Rightarrow> Inl (TopoError m)
      | None \<Rightarrow> Inr (wr_routingRules wr))"

definition SaveRoutingRules :: "Wrangler \<Rightarrow> (string \<times> string list) list \<Rightarrow> error option \<times> Wrangler" where
  "SaveRoutingRules wr rules =
     (case wr_topoFault wr OpSaveRoutingRules of
        Some m \<Rightarrow> (Some (TopoError m), wr)
      | None \<Rightarrow> (None, wr\<lparr>wr_routingRules := rules\<rparr>))"

definition OpenExternalVitessClusterServer :: "Wrangler \<Rightarrow> string \<Rightarrow> error + Cluster" where
  "OpenExternalVitessClusterServer wr clusterName =
     (case wr_externalClusters wr clusterName of
        None \<Rightarrow> Inl (TopoError ''node doesn't exist'')
      | Some c \<Rightarrow> Inr c)"

definition GetServingShards :: "Cluster \<Rightarrow> string \<Rightarrow> error + ShardInfo list" where
  "GetServingShards ts keyspace =
     (case cl_ServingShards ts keyspace of
        None \<Rightarrow> Inl (TopoError ''node doesn't exist'')
      | Some shards \<Rightarrow> Inr shards)"

text \<open>A shard without a primary has no tablet to fetch.\<close>

definition GetTablet :: "Cluster \<Rightarrow> TabletAlias option \<Rightarrow> error + TabletInfo" where
  "GetTablet ts primaryAlias =
     (case primaryAlias of
        None \<Rightarrow> Inl (TopoError ''no primary'')
      | Some a \<Rightarrow>
          (case cl_Tablets ts a of
             None \<Rightarrow> Inl (TopoError ''node doesn't exist'')
           | Some dbName \<Rightarrow> Inr \<lparr>ti_Alias = a, ti_DbName = dbName\<rparr>))"

subsection \<open>Tablet manager calls\<close>

text \<open>
  \<^verbatim>\<open>GetSchema\<close> returns the definitions of the tables the request names; the
  pattern \<^verbatim>\<open>/.*/\<close> names every table.
\<close>

definition tmc_GetSchema :: "Wrangler \<Rightarrow> TabletInfo \<Rightarrow> string list \<Rightarrow> error + TableDefinition list" where
  "tmc_GetSchema wr tablet tables =
     (case tab_rpcError (wr_tablets wr (ti_Alias tablet)) of
        Some m \<Rightarrow> Inl (RPCError m)
      | None \<Rightarrow>
          Inr (filter (\<lambda>td. ''/.*/'' \<in> set tables \<or> td_Name td \<in> set tables)
                 (tab_TableDefinitions (wr_tablets wr (ti_Alias tablet)))))"

text \<open>\<^verbatim>\<open>schematools.GetSchema\<close>: the tablet is looked up first.\<close>

definition schematools_GetSchema ::
  "Wrangler \<Rightarrow> Cluster \<Rightarrow> TabletAlias option \<Rightarrow> string list \<Rightarrow> error + TableDefinition list" where
  "schematools_GetSchema wr ts primaryAlias tables =
     (case GetTablet ts primaryAlias of
        Inl e \<Rightarrow> Inl e
      | Inr ti \<Rightarrow> tmc_GetSchema wr ti tables)"

text \<open>
  \<^verbatim>\<open>ApplySchema\<close> hands the SQL to the tablet's database. When the database
  accepts it, the tablet has the new table definitions and the change is appended to the
  list of applied changes.
\<close>

definition tmc_ApplySchema :: "Wrangler \<Rightarrow> TabletInfo \<Rightarrow> SchemaChange \<Rightarrow> error option \<times> Wrangler" where
  "tmc_ApplySchema wr tablet change =
     (let a = ti_Alias tablet; st = wr_tablets wr a in
      case tab_rpcError st of
        Some m \<Rightarrow> (Some (RPCError m), wr)
      | None \<Rightarrow>
          (case lib_ExecuteDDL (wr_lib wr) (sc_SQL change) (tab_TableDefinitions st) of
             Inl e \<Rightarrow> (Some e, wr)
           | Inr tds \<Rightarrow>
               (None, wr\<lparr>wr_tablets := (wr_tablets wr)
                  (a := st\<lparr>tab_TableDefinitions := tds,
                           tab_applied := tab_applied st @ [change]\<rparr>)\<rparr>)))"

text \<open>
  \<^verbatim>\<open>VReplicationExec\<close> runs a statement on a tablet's \<^verbatim>\<open>_vt.vreplication\<close> table.
  The engine sends five statements:
  \<^item> \<open>SelectStreams workflow db\<close>:
    \<^verbatim>\<open>select id, state, message, source ... where workflow=%s and db_name=%s\<close>;
  \<^item> \<open>SelectIds db workflow\<close>: \<^verbatim>\<open>select id ... where db_name=%s and workflow=%s\<close>;
  \<^item> \<open>DeleteStreams db workflow\<close>: \<^verbatim>\<open>delete ... where db_name=%s and workflow=%s\<close>;
  \<^item> \<open>StartStreams db workflow\<close>:
    \<^verbatim>\<open>update ... set state='Running' where db_name=%s and workflow=%s\<close>;
  \<^item> \<open>InsertStreams rows\<close>: the insert statement of the insert generator; the
    database numbers the new rows from its auto-increment counter.
  A select returns the rows it matches; the other statements return none.
\<close>

datatype VRQuery =
    SelectStreams string string
  | SelectIds string string
  | DeleteStreams string string
  | StartStreams string string
  | InsertStreams "StreamRecord list"

definition ofWorkflow :: "string \<Rightarrow> string \<Rightarrow> StreamRecord \<Rightarrow> bool" where
  "ofWorkflow db workflow r = (sr_db_name r = db \<and> sr_workflow r = workflow)"

definition numberRows :: "int \<Rightarrow> StreamRecord list \<Rightarrow> StreamRecord list" where
  "numberRows next rows = map (\<lambda>(i, r). r\<lparr>sr_id := next + int i\<rparr>) (enumerate 0 rows)"

definition vreplication_rows :: "VRQuery \<Rightarrow> TabletState \<Rightarrow> StreamRecord list" where
  "vreplication_rows q st =
     (case q of
        SelectStreams workflow db \<Rightarrow> filter (ofWorkflow db workflow) (tab_vreplication st)
      | SelectIds db workflow \<Rightarrow> filter (ofWorkflow db workflow) (tab_vreplication st)
      | DeleteStreams db workflow \<Rightarrow> []
      | StartStreams db workflow \<Rightarrow> []
      | InsertStreams rows \<Rightarrow> [])"

definition vreplication_exec :: "VRQuery \<Rightarrow> TabletState \<Rightarrow> TabletState" where
  "vreplication_exec q st =
     (case q of
        SelectStreams workflow db \<Rightarrow> st
      | SelectIds db workflow \<Rightarrow> st
      | DeleteStreams db workflow \<Rightarrow>
          st\<lparr>tab_vreplication := filter (\<lambda>r. \<not> ofWorkflow db workflow r) (tab_vreplication st)\<rparr>
      | StartStreams db workflow \<Rightarrow>
          st\<lparr>tab_vreplication :=
               map (\<lambda>r. if ofWorkflow db workflow r then r\<lparr>sr_state := BlpRunning\<rparr> else r)
                 (tab_vreplication st)\<rparr>
      | InsertStreams rows \<Rightarrow>
          st\<lparr>tab_vreplication := tab_vreplication st @ numberRows (tab_nextId st) rows,
              tab_nextId := tab_nextId st + int (length rows)\<rparr>)"

definition VReplicationExec ::
  "Wrangler \<Rightarrow> TabletInfo \<Rightarrow> VRQuery \<Rightarrow> (error + StreamRecord list) \<times> Wrangler" where
  "VReplicationExec wr tablet q =
     (let a = ti_Alias tablet; st = wr_tablets wr a in
      case tab_rpcError st of
        Some m \<Rightarrow> (Inl (RPCError m), wr)
      | None \<Rightarrow>
          (Inr (vreplication_rows q st),
           wr\<lparr>wr_tablets := (wr_tablets wr)(a := vreplication_exec q st)\<rparr>))"

text \<open>The time zone probe of \<^verbatim>\<open>checkTZConversion\<close>, sent with \<^verbatim>\<open>ExecuteFetchAsApp\<close>.\<close>

definition tmc_ExecuteFetchAsApp :: "Wrangler \<Rightarrow> TabletInfo \<Rightarrow> string \<Rightarrow> error + string list list" where
  "tmc_ExecuteFetchAsApp wr tablet tz =
     (case tab_rpcError (wr_tablets wr (ti_Alias tablet)) of
        Some m \<Rightarrow> Inl (RPCError m)
      | None \<Rightarrow> Inr (tab_convertTz (wr_tablets wr (ti_Alias tablet)) tz))"

text \<open>
  Modelled from the spec: \<^verbatim>\<open>CheckReshardingJournalExistsOnTablet\<close> of the workflow
  server is not among the sources. It asks a tablet whether its resharding journal has
  an entry keyed by the migration id.
\<close>

definition CheckReshardingJournalExistsOnTablet ::
  "Wrangler \<Rightarrow> TabletInfo \<Rightarrow> 64 word \<Rightarrow> error + bool" where
  "CheckReshardingJournalExistsOnTablet wr tablet migrationID =
     (case tab_rpcError (wr_tablets wr (ti_Alias tablet)) of
        Some m \<Rightarrow> Inl (RPCError m)
      | None \<Rightarrow> Inr (migrationID \<in> set (tab_journal (wr_tablets wr (ti_Alias tablet)))))"

section \<open>The materializer\<close>

record materializer =
  mz_ms :: MaterializeSettings
  mz_targetVSchema :: KeyspaceSchema
  mz_sourceShards :: "ShardInfo list"
  mz_targetShards :: "ShardInfo list"
  mz_isPartial :: bool

text \<open>
  \<^verbatim>\<open>forAllTargets\<close> and the two local helpers of the same shape start one goroutine
  per shard, wait for all of them and aggregate every error. The model runs the shards
  one after the other in the order of the slice, which is one of the schedules; the
  state \<open>s\<close> is what the closures share.
\<close>

fun forAllShards ::
  "('s \<Rightarrow> ShardInfo \<Rightarrow> error option \<times> 's) \<Rightarrow> ShardInfo list \<Rightarrow> 's \<Rightarrow> error list \<times> 's" where
  "forAllShards f [] s = ([], s)"
| "forAllShards f (shard # shards) s =
     (case f s shard of
        (None, s1) \<Rightarrow> forAllShards f shards s1
      | (Some e, s1) \<Rightarrow>
          (case forAllShards f shards s1 of (es, s2) \<Rightarrow> (e # es, s2)))"

definition forAllTargets ::
  "materializer \<Rightarrow> ('s \<Rightarrow> ShardInfo \<Rightarrow> error option \<times> 's) \<Rightarrow> 's \<Rightarrow> error option \<times> 's" where
  "forAllTargets mz f s =
     (case forAllShards f (mz_targetShards mz) s of (es, s1) \<Rightarrow> (AggrError es, s1))"

subsection \<open>Validation and shard resolution\<close>

text \<open>
  Modelled from the spec: \<^verbatim>\<open>validateNewWorkflow\<close> is not among the sources. A
  workflow name must not already exist in the target keyspace: the primary of every
  shard of the keyspace is asked for stream records of that workflow, and every shard
  that has one, or cannot be asked, contributes an error.
\<close>

definition validateNewWorkflow_shard ::
  "Wrangler \<Rightarrow> string \<Rightarrow> string \<Rightarrow> unit \<Rightarrow> ShardInfo \<Rightarrow> error option \<times> unit" where
  "validateNewWorkflow_shard wr keyspace workflow u si =
     (case GetTablet (wr_ts wr) (si_PrimaryAlias si) of
        Inl e \<Rightarrow> (Some e, ())
      | Inr primary \<Rightarrow>
          (case fst (VReplicationExec wr primary (SelectIds (ti_DbName primary) workflow)) of
             Inl e \<Rightarrow> (Some e, ())
           | Inr rows \<Rightarrow>
               if rows \<noteq> []
               then (Some (Errorf ''workflow %s already exists in keyspace %s on tablet %v''
                             [workflow, keyspace, ti_Alias primary]), ())
               else (None, ())))"

definition validateNewWorkflow :: "Wrangler \<Rightarrow> string \<Rightarrow> string \<Rightarrow> error option" where
  "validateNewWorkflow wr keyspace workflow =
     (case GetServingShards (wr_ts wr) keyspace of
        Inl e \<Rightarrow> Some e
      | Inr allshards \<Rightarrow>
          AggrError (fst (forAllShards (validateNewWorkflow_shard wr keyspace workflow) allshards ())))"

text \<open>
  \<^verbatim>\<open>buildMaterializer\<close>. The two nested loops keep the serving shards whose name
  is one of \<^verbatim>\<open>ms.SourceShards\<close>.
\<close>

definition selectShards :: "ShardInfo list \<Rightarrow> string list \<Rightarrow> ShardInfo list" where
  "selectShards shards names = filter (\<lambda>shard. si_ShardName shard \<in> set names) shards"

definition buildMaterializer :: "Wrangler \<Rightarrow> MaterializeSettings \<Rightarrow> error + materializer" where
  "buildMaterializer wr ms =
     (case GetVSchema wr (ms_TargetKeyspace ms) of
        Inl e \<Rightarrow> Inl e
      | Inr vschema \<Rightarrow>
     (case lib_BuildKeyspaceSchema (wr_lib wr) vschema (ms_TargetKeyspace ms) of
        Inl e \<Rightarrow> Inl e
      | Inr targetVSchema \<Rightarrow>
     (case (if kss_Sharded targetVSchema
            then find (\<lambda>ts. map_of (kss_Tables targetVSchema) (tms_TargetTable ts) = None)
                   (ms_TableSettings ms)
            else None) of
        Some ts \<Rightarrow>
          Inl (Errorf ''table %s not found in vschema for keyspace %s''
                 [tms_TargetTable ts, ms_TargetKeyspace ms])
      | None \<Rightarrow>
     (case GetServingShards (wr_sourceTs wr) (ms_SourceKeyspace ms) of
        Inl e \<Rightarrow> Inl e
      | Inr sourceShards \<Rightarrow>
     (let isPartial = (ms_SourceShards ms \<noteq> []);
          sourceShards = (if ms_SourceShards ms \<noteq> []
                          then selectShards sourceShards (ms_SourceShards ms) else sourceShards)
      in
      if sourceShards = []
      then Inl (Errorf ''no source shards specified for workflow %s '' [ms_Workflow ms])
      else
     (case GetServingShards (wr_ts wr) (ms_TargetKeyspace ms) of
        Inl e \<Rightarrow> Inl e
      | Inr targetShards \<Rightarrow>
     (let targetShards = (if ms_SourceShards ms \<noteq> []
                          then selectShards targetShards (ms_SourceShards ms) else targetShards)
      in
      if targetShards = []
      then Inl (Errorf ''no target shards specified for workflow %s '' [ms_Workflow ms])
      else Inr \<lparr>mz_ms = ms, mz_targetVSchema = targetVSchema, mz_sourceShards = sourceShards,
                mz_targetShards = targetShards, mz_isPartial = isPartial\<rparr>)))))))"

subsection \<open>Schema deployment\<close>

definition getSourceTableDDLs :: "Wrangler \<Rightarrow> materializer \<Rightarrow> error + (string \<times> string) list" where
  "getSourceTableDDLs wr mz =
     (case mz_sourceShards mz of
        [] \<Rightarrow> Inl (Panic ''index out of range'')
      | shard0 # rest \<Rightarrow>
     (case si_PrimaryAlias shard0 of
        None \<Rightarrow>
          Inl (Errorf ''source shard must have a primary for copying schema: %v''
                 [si_ShardName shard0])
      | Some sourcePrimary \<Rightarrow>
     (case GetTablet (wr_sourceTs wr) (Some sourcePrimary) of
        Inl e \<Rightarrow> Inl e
      | Inr ti \<Rightarrow>
     (case tmc_GetSchema wr ti [''/.*/''] of
        Inl e \<Rightarrow> Inl e
      | Inr sourceSchema \<Rightarrow>
          Inr (foldl (\<lambda>sourceDDLs td. AList.update (td_Name td) (td_Schema td) sourceDDLs)
                 [] sourceSchema)))))"

text \<open>
  \<^verbatim>\<open>stripTableForeignKeys\<close> keeps the constraints that have details other than a
  foreign key definition; \<^verbatim>\<open>stripTableConstraints\<close> removes all of them. A statement
  without a table spec is printed as it was parsed.
\<close>

definition stripTableForeignKeys :: "Library \<Rightarrow> string \<Rightarrow> error + string" where
  "stripTableForeignKeys lib ddl =
     (case lib_ParseStrictDDL lib ddl of
        Inl e \<Rightarrow> Inl e
      | Inr ast \<Rightarrow>
          Inr (lib_StringDDL lib
                 (ast\<lparr>ddl_TableSpec :=
                    map_option
                      (\<lambda>spec. spec\<lparr>tsp_Constraints :=
                         filter (\<lambda>constraint.
                                   case cd_Details constraint of
                                     None \<Rightarrow> False
                                   | Some (ForeignKeyDefinition d) \<Rightarrow> False
                                   | Some (OtherConstraint d) \<Rightarrow> True)
                           (tsp_Constraints spec)\<rparr>)
                      (ddl_TableSpec ast)\<rparr>)))"

definition stripTableConstraints :: "Library \<Rightarrow> string \<Rightarrow> error + string" where
  "stripTableConstraints lib ddl =
     (case lib_ParseStrictDDL lib ddl of
        Inl e \<Rightarrow> Inl e
      | Inr ast \<Rightarrow>
          Inr (lib_StringDDL lib
                 (ast\<lparr>ddl_TableSpec :=
                    map_option (\<lambda>spec. spec\<lparr>tsp_Constraints := []\<rparr>) (ddl_TableSpec ast)\<rparr>)))"

text \<open>
  \<^verbatim>\<open>deploySchema\<close>, the body of the loop over the table settings for a target
  table that the shard does not have (from the test of \<^verbatim>\<open>ts.CreateDdl\<close> to the
  append to \<^verbatim>\<open>applyDDLs\<close>). The result is the statement to apply and the cache
  \<^verbatim>\<open>sourceDDLs\<close> that the closures share under the mutex; the cache is fetched
  when it is empty.
\<close>

definition deploySchema_createDDL ::
  "Wrangler \<Rightarrow> materializer \<Rightarrow> (string \<times> string) list \<Rightarrow> TableMaterializeSettings
     \<Rightarrow> (error + string) \<times> (string \<times> string) list" where
  "deploySchema_createDDL wr mz sourceDDLs ts =
     (if tms_CreateDdl ts = []
      then (Inl (Errorf ''target table %v does not exist and there is no create ddl defined''
                   [tms_TargetTable ts]), sourceDDLs)
      else
     (case (if sourceDDLs = [] then getSourceTableDDLs wr mz else Inr sourceDDLs) of
        Inl e \<Rightarrow> (Inl e, [])
      | Inr sourceDDLs \<Rightarrow>
     (let createDDL = tms_CreateDdl ts in
      if createDDL = createDDLAsCopy \<or> createDDL = createDDLAsCopyDropConstraint
           \<or> createDDL = createDDLAsCopyDropForeignKeys
      then
     (case (if tms_SourceExpression ts \<noteq> []
            then (case lib_TableFromStatement (wr_lib wr) (tms_SourceExpression ts) of
                    Inl e \<Rightarrow> Some e
                  | Inr (qualifier, name) \<Rightarrow>
                      if name \<noteq> tms_TargetTable ts
                      then Some (Errorf
                        ''source and target table names must match for copying schema: %v vs %v''
                        [name, tms_TargetTable ts])
                      else None)
            else None) of
        Some e \<Rightarrow> (Inl e, sourceDDLs)
      | None \<Rightarrow>
     (case map_of sourceDDLs (tms_TargetTable ts) of
        None \<Rightarrow> (Inl (Errorf ''source table %v does not exist'' [tms_TargetTable ts]), sourceDDLs)
      | Some ddl \<Rightarrow>
     (case (if createDDL = createDDLAsCopyDropConstraint
            then stripTableConstraints (wr_lib wr) ddl else Inr ddl) of
        Inl e \<Rightarrow> (Inl e, sourceDDLs)
      | Inr ddl \<Rightarrow>
     (case (if createDDL = createDDLAsCopyDropForeignKeys
            then stripTableForeignKeys (wr_lib wr) ddl else Inr ddl) of
        Inl e \<Rightarrow> (Inl e, sourceDDLs)
      | Inr ddl \<Rightarrow> (Inr ddl, sourceDDLs)))))
      else (Inr createDDL, sourceDDLs))))"

text \<open>
  The loop over \<^verbatim>\<open>mz.ms.TableSettings\<close>: a table the shard already has is skipped
  (\<^verbatim>\<open>continue\<close>), the first error ends the loop.
\<close>

fun deploySchema_tables ::
  "Wrangler \<Rightarrow> materializer \<Rightarrow> string list \<Rightarrow> TableMaterializeSettings list
     \<Rightarrow> (string \<times> string) list \<Rightarrow> string list \<Rightarrow> (error + string list) \<times> (string \<times> string) list" where
  "deploySchema_tables wr mz hasTargetTable [] sourceDDLs applyDDLs = (Inr applyDDLs, sourceDDLs)"
| "deploySchema_tables wr mz hasTargetTable (ts # rest) sourceDDLs applyDDLs =
     (if tms_TargetTable ts \<in> set hasTargetTable
      then deploySchema_tables wr mz hasTargetTable rest sourceDDLs applyDDLs
      else
        (case deploySchema_createDDL wr mz sourceDDLs ts of
           (Inl e, sourceDDLs1) \<Rightarrow> (Inl e, sourceDDLs1)
         | (Inr createDDL, sourceDDLs1) \<Rightarrow>
             deploySchema_tables wr mz hasTargetTable rest sourceDDLs1 (applyDDLs @ [createDDL])))"

text \<open>
  The closure that \<^verbatim>\<open>deploySchema\<close> runs for one target shard. Its state is the
  shared cache and the world.
\<close>

definition deploySchema_target ::
  "materializer \<Rightarrow> (string \<times> string) list \<times> Wrangler \<Rightarrow> ShardInfo
     \<Rightarrow> error option \<times> ((string \<times> string) list \<times> Wrangler)" where
  "deploySchema_target mz s target =
     (case s of (sourceDDLs, wr) \<Rightarrow>
     (case schematools_GetSchema wr (wr_ts wr) (si_PrimaryAlias target) [''/.*/''] of
        Inl e \<Rightarrow> (Some e, s)
      | Inr targetSchema \<Rightarrow>
     (let hasTargetTable = map td_Name targetSchema in
      case GetTablet (wr_ts wr) (si_PrimaryAlias target) of
        Inl e \<Rightarrow> (Some e, s)
      | Inr targetTablet \<Rightarrow>
     (case deploySchema_tables wr mz hasTargetTable (ms_TableSettings (mz_ms mz)) sourceDDLs [] of
        (Inl e, sourceDDLs1) \<Rightarrow> (Some e, (sourceDDLs1, wr))
      | (Inr applyDDLs, sourceDDLs1) \<Rightarrow>
          if applyDDLs \<noteq> []
          then (case tmc_ApplySchema wr targetTablet
                       \<lparr>sc_SQL = strings_Join applyDDLs [CHR '';'', CHR 0x0A],
                        sc_Force = False, sc_AllowReplication = True,
                        sc_SQLMode = lib_SQLMode (wr_lib wr)\<rparr> of
                  (err, wr1) \<Rightarrow> (err, (sourceDDLs1, wr1)))
          else (None, (sourceDDLs1, wr))))))"

definition deploySchema :: "Wrangler \<Rightarrow> materializer \<Rightarrow> error option \<times> Wrangler" where
  "deploySchema wr mz =
     (case forAllTargets mz (deploySchema_target mz) ([], wr) of
        (err, (sourceDDLs, wr1)) \<Rightarrow> (err, wr1))"

subsection \<open>Filter rules and insert statements\<close>

text \<open>
  \<^verbatim>\<open>matchColInSelect\<close>: the first select expression that matches the vindex column
  decides. A star matches every column; an aliased expression matches by its alias, or
  by its column name when it has no alias; an expression without alias that is not a
  column is passed over.
\<close>

fun matchColInSelect :: "string \<Rightarrow> SelectExpr list \<Rightarrow> error + Expr" where
  "matchColInSelect col [] = Inl (Errorf ''could not find vindex column %v'' [col])"
| "matchColInSelect col (StarExpr # rest) = Inr (ColName [] col)"
| "matchColInSelect col (AliasedExpr e as # rest) =
     (if as = []
      then (case e of
              ColName qualifier name \<Rightarrow>
                if IdentifierCI_Equal name col then Inr (ColName qualifier name)
                else matchColInSelect col rest
            | _ \<Rightarrow> matchColInSelect col rest)
      else if IdentifierCI_Equal as col
      then (case e of
              ColName qualifier name \<Rightarrow> Inr (ColName qualifier name)
            | _ \<Rightarrow> Inl (Errorf ''vindex column cannot be a complex expression: %v'' [as]))
      else matchColInSelect col rest)"
| "matchColInSelect col (Nextval # rest) = Inl (Errorf ''unsupported select expression: %v'' [])"

text \<open>The loop that maps every column of the vindex; the first error ends it.\<close>

fun generateInserts_mappedCols :: "string list \<Rightarrow> Select \<Rightarrow> error + Expr list" where
  "generateInserts_mappedCols [] sel = Inr []"
| "generateInserts_mappedCols (col # cols) sel =
     (case matchColInSelect col (sel_SelectExprs sel) of
        Inl e \<Rightarrow> Inl e
      | Inr colName \<Rightarrow>
          (case generateInserts_mappedCols cols sel of
             Inl e \<Rightarrow> Inl e
           | Inr mappedCols \<Rightarrow> Inr (colName # mappedCols)))"

text \<open>
  The range predicate: the mapped columns, the qualified vindex name and the
  placeholder of the key range, as the arguments of \<^verbatim>\<open>in_keyrange\<close>.
\<close>

definition generateInserts_inKeyRange :: "string \<Rightarrow> string \<Rightarrow> Expr list \<Rightarrow> Expr" where
  "generateInserts_inKeyRange targetKeyspace cvName mappedCols =
     FuncExpr ''in_keyrange''
       (map (\<lambda>mappedCol. AliasedExpr mappedCol []) mappedCols @
        [AliasedExpr (StrLiteral (targetKeyspace @ ''.'' @ cvName)) [],
         AliasedExpr (StrLiteral ''{{.keyrange}}'') []])"

definition generateInserts_setWhere :: "Expr \<Rightarrow> Select \<Rightarrow> Select" where
  "generateInserts_setWhere inKeyRange sel =
     (case sel_Where sel of
        Some w \<Rightarrow> sel\<lparr>sel_Where := Some (AndExpr inKeyRange w)\<rparr>
      | None \<Rightarrow> sel\<lparr>sel_Where := Some inKeyRange\<rparr>)"

text \<open>
  The filter of a table setting whose source expression parsed as the select statement
  \<open>sel\<close>. A sharded target keyspace whose schema lacks the target table is a nil
  dereference.
\<close>

definition generateInserts_filter ::
  "Wrangler \<Rightarrow> materializer \<Rightarrow> TableMaterializeSettings \<Rightarrow> Select \<Rightarrow> error + string" where
  "generateInserts_filter wr mz ts sel =
     (if kss_Sharded (mz_targetVSchema mz)
      then
     (case map_of (kss_Tables (mz_targetVSchema mz)) (tms_TargetTable ts) of
        None \<Rightarrow> Inl (Panic ''nil pointer dereference'')
      | Some targetTable \<Rightarrow>
          if vt_Type targetTable \<noteq> TypeReference
          then
     (case FindBestColVindex targetTable of
        Inl e \<Rightarrow> Inl e
      | Inr cv \<Rightarrow>
     (case generateInserts_mappedCols (vcv_Columns cv) sel of
        Inl e \<Rightarrow> Inl e
      | Inr mappedCols \<Rightarrow>
          Inr (lib_String (wr_lib wr)
                 (generateInserts_setWhere
                    (generateInserts_inKeyRange (ms_TargetKeyspace (mz_ms mz)) (vcv_Name cv) mappedCols)
                    sel))))
          else Inr (tms_SourceExpression ts))
      else Inr (tms_SourceExpression ts))"

text \<open>The rule of one table setting, and the loop over the table settings.\<close>

definition generateInserts_rule ::
  "Wrangler \<Rightarrow> materializer \<Rightarrow> TableMaterializeSettings \<Rightarrow> error + Rule" where
  "generateInserts_rule wr mz ts =
     (if tms_SourceExpression ts = []
      then Inr \<lparr>rule_Match = tms_TargetTable ts, rule_Filter = []\<rparr>
      else
     (case lib_Parse (wr_lib wr) (tms_SourceExpression ts) of
        Inl e \<Rightarrow> Inl e
      | Inr stmt \<Rightarrow>
     (case stmt of
        OtherStmt t \<Rightarrow> Inl (Errorf ''unrecognized statement: %s'' [tms_SourceExpression ts])
      | SelectStmt sel \<Rightarrow>
     (case generateInserts_filter wr mz ts sel of
        Inl e \<Rightarrow> Inl e
      | Inr query \<Rightarrow> Inr \<lparr>rule_Match = tms_TargetTable ts, rule_Filter = query\<rparr>))))"

fun generateInserts_rules ::
  "Wrangler \<Rightarrow> materializer \<Rightarrow> TableMaterializeSettings list \<Rightarrow> error + Rule list" where
  "generateInserts_rules wr mz [] = Inr []"
| "generateInserts_rules wr mz (ts # rest) =
     (case generateInserts_rule wr mz ts of
        Inl e \<Rightarrow> Inl e
      | Inr rule \<Rightarrow>
          (case generateInserts_rules wr mz rest of
             Inl e \<Rightarrow> Inl e
           | Inr rules \<Rightarrow> Inr (rule # rules)))"

text \<open>
  The row that \<^verbatim>\<open>ig.AddRow\<close> adds for a source shard. The insert generator was
  made with the state \<^verbatim>\<open>Stopped\<close> and the database name \<^verbatim>\<open>{{.dbname}}\<close>; the
  database gives the id.
\<close>

definition generateInserts_row :: "materializer \<Rightarrow> ShardInfo \<Rightarrow> Rule list \<Rightarrow> StreamRecord" where
  "generateInserts_row mz sourceShard rules =
     \<lparr>sr_id = 0,
      sr_workflow = ms_Workflow (mz_ms mz),
      sr_source = Source
        \<lparr>bls_Keyspace = ms_SourceKeyspace (mz_ms mz),
         bls_Shard = si_ShardName sourceShard,
         bls_Filter = rules,
         bls_StopAfterCopy = ms_StopAfterCopy (mz_ms mz),
         bls_ExternalCluster = ms_ExternalCluster (mz_ms mz),
         bls_SourceTimeZone = ms_SourceTimeZone (mz_ms mz),
         bls_TargetTimeZone = ms_TargetTimeZone (mz_ms mz)\<rparr>,
      sr_cell = ms_Cell (mz_ms mz),
      sr_tablet_types = ms_TabletTypes (mz_ms mz),
      sr_state = BlpStopped,
      sr_message = [],
      sr_db_name = ''{{.dbname}}'',
      sr_workflow_type = intent_code (ms_MaterializationIntent (mz_ms mz)),
      sr_workflow_sub_type = (if mz_isPartial mz then SubTypePartial else SubTypeNone)\<rparr>"

text \<open>
  \<^verbatim>\<open>generateInserts\<close>: the loop over the source shards. The result stands for the
  text of the insert statement: one row for each source shard that is not passed over.
\<close>

fun generateInserts_loop ::
  "Wrangler \<Rightarrow> materializer \<Rightarrow> ShardInfo \<Rightarrow> ShardInfo list \<Rightarrow> error + StreamRecord list" where
  "generateInserts_loop wr mz targetShard [] = Inr []"
| "generateInserts_loop wr mz targetShard (sourceShard # rest) =
     (if ms_MaterializationIntent (mz_ms mz) = MOVETABLES \<and>
         \<not> KeyRangesIntersect (si_KeyRange sourceShard) (si_KeyRange targetShard)
      then generateInserts_loop wr mz targetShard rest
      else
        (case generateInserts_rules wr mz (ms_TableSettings (mz_ms mz)) of
           Inl e \<Rightarrow> Inl e
         | Inr rules \<Rightarrow>
             (case generateInserts_loop wr mz targetShard rest of
                Inl e \<Rightarrow> Inl e
              | Inr rows \<Rightarrow> Inr (generateInserts_row mz sourceShard rules # rows))))"

definition generateInserts :: "Wrangler \<Rightarrow> materializer \<Rightarrow> ShardInfo \<Rightarrow> error + StreamRecord list" where
  "generateInserts wr mz targetShard = generateInserts_loop wr mz targetShard (mz_sourceShards mz)"

subsection \<open>Creating and starting streams\<close>

text \<open>
  \<^verbatim>\<open>createStreams\<close> runs the insert text through \<^verbatim>\<open>text/template\<close> with the
  target's key range and database name. The generator wrote two placeholders: the
  database name of every row and the key range literal inside the filters; the model
  fills these two.
\<close>

fun template_keyrange :: "string \<Rightarrow> string \<Rightarrow> string" where
  "template_keyrange keyrange [] = []"
| "template_keyrange keyrange (c # s) =
     (if strings_HasPrefix (c # s) ''{{.keyrange}}''
      then keyrange @ template_keyrange keyrange (drop 12 s)
      else c # template_keyrange keyrange s)"

definition template_source :: "string \<Rightarrow> source_column \<Rightarrow> source_column" where
  "template_source keyrange src =
     (case src of
        Source bls \<Rightarrow>
          Source (bls\<lparr>bls_Filter :=
            map (\<lambda>rule. rule\<lparr>rule_Filter := template_keyrange keyrange (rule_Filter rule)\<rparr>)
              (bls_Filter bls)\<rparr>)
      | Garbled t \<Rightarrow> Garbled t)"

definition template_Execute :: "string \<Rightarrow> string \<Rightarrow> StreamRecord \<Rightarrow> StreamRecord" where
  "template_Execute keyrange dbname row =
     row\<lparr>sr_source := template_source keyrange (sr_source row), sr_db_name := dbname\<rparr>"

definition createStreams_target ::
  "materializer \<Rightarrow> (string \<times> StreamRecord list) list \<Rightarrow> Wrangler \<Rightarrow> ShardInfo
     \<Rightarrow> error option \<times> Wrangler" where
  "createStreams_target mz insertsMap wr target =
     (let inserts = (case map_of insertsMap (si_ShardName target) of None \<Rightarrow> [] | Some rows \<Rightarrow> rows) in
      case GetTablet (wr_ts wr) (si_PrimaryAlias target) of
        Inl e \<Rightarrow> (Some (Wrapf e ''GetTablet(%v) failed''), wr)
      | Inr targetPrimary \<Rightarrow>
          (case VReplicationExec wr targetPrimary
                  (InsertStreams
                     (map (template_Execute (lib_KeyRangeString (wr_lib wr) (si_KeyRange target))
                             (ti_DbName targetPrimary)) inserts)) of
             (Inl e, wr1) \<Rightarrow> (Some e, wr1)
           | (Inr qr, wr1) \<Rightarrow> (None, wr1)))"

definition createStreams ::
  "Wrangler \<Rightarrow> materializer \<Rightarrow> (string \<times> StreamRecord list) list \<Rightarrow> error option \<times> Wrangler" where
  "createStreams wr mz insertsMap = forAllTargets mz (createStreams_target mz insertsMap) wr"

definition startStreams_target :: "materializer \<Rightarrow> Wrangler \<Rightarrow> ShardInfo \<Rightarrow> error option \<times> Wrangler" where
  "startStreams_target mz wr target =
     (case GetTablet (wr_ts wr) (si_PrimaryAlias target) of
        Inl e \<Rightarrow> (Some (Wrapf e ''GetTablet(%v) failed''), wr)
      | Inr targetPrimary \<Rightarrow>
          (case VReplicationExec wr targetPrimary
                  (StartStreams (ti_DbName targetPrimary) (ms_Workflow (mz_ms mz))) of
             (Inl e, wr1) \<Rightarrow> (Some (Wrapf e ''VReplicationExec(%v, %s)''), wr1)
           | (Inr qr, wr1) \<Rightarrow> (None, wr1)))"

definition startStreams :: "Wrangler \<Rightarrow> materializer \<Rightarrow> error option \<times> Wrangler" where
  "startStreams wr mz = forAllTargets mz (startStreams_target mz) wr"

text \<open>
  \<^verbatim>\<open>checkTZConversion\<close> reads \<^verbatim>\<open>qr.Rows[0][0]\<close> of the probe's result, which
  panics when the result has no row or the row no column.
\<close>

definition checkTZConversion_target ::
  "Wrangler \<Rightarrow> string \<Rightarrow> unit \<Rightarrow> ShardInfo \<Rightarrow> error option \<times> unit" where
  "checkTZConversion_target wr tz u target =
     (case GetTablet (wr_ts wr) (si_PrimaryAlias target) of
        Inl e \<Rightarrow> (Some (Wrapf e ''GetTablet(%v) failed''), ())
      | Inr targetPrimary \<Rightarrow>
     (case tmc_ExecuteFetchAsApp wr targetPrimary tz of
        Inl e \<Rightarrow> (Some (Wrapf e ''ExecuteFetchAsApp(%v, %s)''), ())
      | Inr rows \<Rightarrow>
     (case rows of
        [] \<Rightarrow> (Some (Panic ''index out of range''), ())
      | row0 # others \<Rightarrow>
     (case row0 of
        [] \<Rightarrow> (Some (Panic ''index out of range''), ())
      | gotDate # columns \<Rightarrow>
          if \<not> lib_TimeParse (wr_lib wr) gotDate
          then (Some (Errorf ''unable to perform time_zone conversions from %s to UTC''
                        [tz, ti_Alias targetPrimary]), ())
          else (None, ())))))"

definition checkTZConversion :: "Wrangler \<Rightarrow> materializer \<Rightarrow> string \<Rightarrow> error option" where
  "checkTZConversion wr mz tz = fst (forAllTargets mz (checkTZConversion_target wr tz) ())"

subsection \<open>The stream pipeline\<close>

text \<open>
  The loop of \<^verbatim>\<open>prepareMaterializerStreams\<close> that fills \<^verbatim>\<open>insertMap\<close>, keyed by
  the shard name.
\<close>

fun prepareMaterializerStreams_inserts ::
  "Wrangler \<Rightarrow> materializer \<Rightarrow> ShardInfo list \<Rightarrow> (string \<times> StreamRecord list) list
     \<Rightarrow> error + (string \<times> StreamRecord list) list" where
  "prepareMaterializerStreams_inserts wr mz [] insertMap = Inr insertMap"
| "prepareMaterializerStreams_inserts wr mz (targetShard # rest) insertMap =
     (case generateInserts wr mz targetShard of
        Inl e \<Rightarrow> Inl e
      | Inr inserts \<Rightarrow>
          prepareMaterializerStreams_inserts wr mz rest
            (AList.update (si_ShardName targetShard) inserts insertMap))"

definition prepareMaterializerStreams ::
  "Wrangler \<Rightarrow> MaterializeSettings \<Rightarrow> (error + materializer) \<times> Wrangler" where
  "prepareMaterializerStreams wr ms =
     (case validateNewWorkflow wr (ms_TargetKeyspace ms) (ms_Workflow ms) of
        Some e \<Rightarrow> (Inl e, wr)
      | None \<Rightarrow>
     (case buildMaterializer wr ms of
        Inl e \<Rightarrow> (Inl e, wr)
      | Inr mz \<Rightarrow>
     (case deploySchema wr mz of
        (Some e, wr1) \<Rightarrow> (Inl e, wr1)
      | (None, wr1) \<Rightarrow>
     (case prepareMaterializerStreams_inserts wr1 mz (mz_targetShards mz) [] of
        Inl e \<Rightarrow> (Inl e, wr1)
      | Inr insertMap \<Rightarrow>
     (case createStreams wr1 mz insertMap of
        (Some e, wr2) \<Rightarrow> (Inl e, wr2)
      | (None, wr2) \<Rightarrow> (Inr mz, wr2))))))"

definition Materialize :: "Wrangler \<Rightarrow> MaterializeSettings \<Rightarrow> error option \<times> Wrangler" where
  "Materialize wr ms =
     (case prepareMaterializerStreams wr ms of
        (Inl e, wr1) \<Rightarrow> (Some e, wr1)
      | (Inr mz, wr1) \<Rightarrow> startStreams wr1 mz)"

section \<open>MoveTables\<close>

subsection \<open>Helpers\<close>

definition addTablesToVSchema ::
  "Wrangler \<Rightarrow> string \<Rightarrow> Keyspace \<Rightarrow> string list \<Rightarrow> bool \<Rightarrow> error + Keyspace" where
  "addTablesToVSchema wr sourceKeyspace targetVSchema tables copyAttributes =
     (let targetVSchema = targetVSchema\<lparr>ks_Tables :=
            foldl (\<lambda>m table. AList.update table emptyTable m) (ks_Tables targetVSchema) tables\<rparr>
      in
      if copyAttributes
      then (case GetVSchema wr sourceKeyspace of
              Inl e \<Rightarrow> Inl e
            | Inr srcVSchema \<Rightarrow>
                Inr (targetVSchema\<lparr>ks_Tables :=
                  foldl (\<lambda>m table.
                           case map_of (ks_Tables srcVSchema) table of
                             None \<Rightarrow> m
                           | Some srcTable \<Rightarrow>
                               AList.map_entry table
                                 (\<lambda>t. t\<lparr>tb_AutoIncrement := tb_AutoIncrement srcTable\<rparr>) m)
                    (ks_Tables targetVSchema) tables\<rparr>))
      else Inr targetVSchema)"

definition shouldInclude :: "Library \<Rightarrow> string \<Rightarrow> string list \<Rightarrow> bool" where
  "shouldInclude lib table excludes =
     (if lib_IsInternalOperationTableName lib table then False
      else table \<notin> set excludes)"

definition validateSourceTablesExist ::
  "Library \<Rightarrow> string \<Rightarrow> string list \<Rightarrow> string list \<Rightarrow> error option" where
  "validateSourceTablesExist lib sourceKeyspace ksTables tables =
     (let missingTables =
            filter (\<lambda>table. \<not> lib_IsInternalOperationTableName lib table \<and> table \<notin> set ksTables)
              tables
      in
      if missingTables \<noteq> []
      then Some (Errorf ''table(s) not found in source keyspace %s: %s''
                   [sourceKeyspace, strings_Join missingTables '',''])
      else None)"

definition getKeyspaceTables :: "Wrangler \<Rightarrow> string \<Rightarrow> Cluster \<Rightarrow> error + string list" where
  "getKeyspaceTables wr ks ts =
     (case GetServingShards ts ks of
        Inl e \<Rightarrow> Inl e
      | Inr shards \<Rightarrow>
     (case shards of
        [] \<Rightarrow> Inl (Errorf ''keyspace %s has no shards'' [ks])
      | shard0 # rest \<Rightarrow>
     (case si_PrimaryAlias shard0 of
        None \<Rightarrow> Inl (Errorf ''shard does not have a primary: %v'' [si_ShardName shard0])
      | Some primary \<Rightarrow>
     (case GetTablet ts (Some primary) of
        Inl e \<Rightarrow> Inl e
      | Inr ti \<Rightarrow>
     (case tmc_GetSchema wr ti [''/.*/''] of
        Inl e \<Rightarrow> Inl e
      | Inr tds \<Rightarrow> Inr (map td_Name tds))))))"

subsection \<open>Stream ids and the journal check\<close>

definition collectTargetStreams_target ::
  "Wrangler \<Rightarrow> materializer \<Rightarrow> string list \<Rightarrow> ShardInfo \<Rightarrow> error option \<times> string list" where
  "collectTargetStreams_target wr mz shardTablets target =
     (case GetTablet (wr_ts wr) (si_PrimaryAlias target) of
        Inl e \<Rightarrow> (Some (Wrapf e ''GetTablet(%v) failed''), shardTablets)
      | Inr targetPrimary \<Rightarrow>
          (case fst (VReplicationExec wr targetPrimary
                       (SelectIds (ti_DbName targetPrimary) (ms_Workflow (mz_ms mz)))) of
             Inl e \<Rightarrow> (Some (Wrapf e ''VReplicationExec(%v, %s)''), shardTablets)
           | Inr rows \<Rightarrow>
               (None, shardTablets @
                  map (\<lambda>row. si_ShardName target @ '':'' @ sprint_int (sr_id row)) rows)))"

definition collectTargetStreams :: "Wrangler \<Rightarrow> materializer \<Rightarrow> error + string list" where
  "collectTargetStreams wr mz =
     (case forAllTargets mz (collectTargetStreams_target wr mz) [] of
        (Some e, shardTablets) \<Rightarrow> Inl e
      | (None, shardTablets) \<Rightarrow> Inr shardTablets)"

text \<open>
  \<^verbatim>\<open>checkIfPreviousJournalExists\<close>. The closures share \<^verbatim>\<open>exists\<close> and
  \<^verbatim>\<open>tablets\<close>. Every closure that reaches the journal call assigns its answer to
  \<^verbatim>\<open>exists\<close> (\<^verbatim>\<open>false\<close> with an error), and appends its tablet to
  \<^verbatim>\<open>tablets\<close> when the answer is yes. \<open>GetTablet\<close> gives a tablet or an error,
  so the test for a nil tablet never fires.
\<close>

definition checkIfPreviousJournalExists_source ::
  "Wrangler \<Rightarrow> 64 word \<Rightarrow> bool \<times> string list \<Rightarrow> ShardInfo \<Rightarrow> error option \<times> (bool \<times> string list)" where
  "checkIfPreviousJournalExists_source wr migrationID s si =
     (case s of (exists, tablets) \<Rightarrow>
     (case GetTablet (wr_ts wr) (si_PrimaryAlias si) of
        Inl e \<Rightarrow> (Some e, (exists, tablets))
      | Inr tablet \<Rightarrow>
          (case CheckReshardingJournalExistsOnTablet wr tablet migrationID of
             Inl e \<Rightarrow> (Some e, (False, tablets))
           | Inr found \<Rightarrow>
               (None, (found, if found then tablets @ [ti_Alias tablet] else tablets)))))"

definition checkIfPreviousJournalExists ::
  "Wrangler \<Rightarrow> materializer \<Rightarrow> 64 word \<Rightarrow> bool \<times> string list \<times> error option" where
  "checkIfPreviousJournalExists wr mz migrationID =
     (case forAllShards (checkIfPreviousJournalExists_source wr migrationID)
             (mz_sourceShards mz) (False, []) of
        (es, (exists, tablets)) \<Rightarrow> (exists, tablets, AggrError es))"

subsection \<open>The operation\<close>

record MoveTablesRequest =
  mt_workflow :: string
  mt_sourceKeyspace :: string
  mt_targetKeyspace :: string
  mt_tableSpecs :: string
  mt_cell :: string
  mt_tabletTypes :: string
  mt_allTables :: bool
  mt_excludeTables :: string
  mt_autoStart :: bool
  mt_stopAfterCopy :: bool
  mt_externalCluster :: string
  mt_dropForeignKeys :: bool
  mt_sourceTimeZone :: string
  mt_sourceShards :: "string list"

text \<open>
  The table list and the target VSchema with the tables added (the block from the test
  of \<^verbatim>\<open>tableSpecs\<close> for a JSON object to the call of \<^verbatim>\<open>addTablesToVSchema\<close>).
  \<open>externalTopoIsNil\<close> is \<^verbatim>\<open>externalTopo == nil\<close>.
\<close>

definition MoveTables_tables ::
  "Wrangler \<Rightarrow> MoveTablesRequest \<Rightarrow> Keyspace \<Rightarrow> bool \<Rightarrow> error + (string list \<times> Keyspace)" where
  "MoveTables_tables wr req vschema externalTopoIsNil =
     (if strings_HasPrefix (mt_tableSpecs req) ''{''
      then
     (case lib_Unmarshal (wr_lib wr)
             (''{'' @ [CHR 0x22] @ ''tables'' @ [CHR 0x22] @ '': '' @ mt_tableSpecs req @ ''}'') of
        Inl e \<Rightarrow> Inl e
      | Inr ks \<Rightarrow>
          Inr (map fst (ks_Tables ks),
               vschema\<lparr>ks_Tables :=
                 foldl (\<lambda>m (table, vtab). AList.update table vtab m) (ks_Tables vschema) (ks_Tables ks)\<rparr>))
      else
     (let tables = (if strings_TrimSpace (mt_tableSpecs req) \<noteq> []
                    then strings_Split (mt_tableSpecs req) CHR '','' else [])
      in
      case getKeyspaceTables wr (mt_sourceKeyspace req) (wr_sourceTs wr) of
        Inl e \<Rightarrow> Inl e
      | Inr ksTables \<Rightarrow>
     (case (if tables \<noteq> []
            then (case validateSourceTablesExist (wr_lib wr) (mt_sourceKeyspace req) ksTables tables of
                    Some e \<Rightarrow> Inl e
                  | None \<Rightarrow> Inr tables)
            else if mt_allTables req then Inr ksTables
            else Inl (Errorf ''no tables to move'' [])) of
        Inl e \<Rightarrow> Inl e
      | Inr tables \<Rightarrow>
     (let excludeTables = strings_TrimSpace (mt_excludeTables req) in
      case (if excludeTables \<noteq> []
            then (case validateSourceTablesExist (wr_lib wr) (mt_sourceKeyspace req) ksTables
                         (strings_Split excludeTables CHR '','') of
                    Some e \<Rightarrow> Inl e
                  | None \<Rightarrow> Inr (strings_Split excludeTables CHR '',''))
            else Inr []) of
        Inl e \<Rightarrow> Inl e
      | Inr excludeTablesList \<Rightarrow>
     (let tables = filter (\<lambda>t. shouldInclude (wr_lib wr) t excludeTablesList) tables in
      if tables = [] then Inl (Errorf ''no tables to move'' [])
      else if \<not> ks_Sharded vschema
      then (case addTablesToVSchema wr (mt_sourceKeyspace req) vschema tables externalTopoIsNil of
              Inl e \<Rightarrow> Inl e
            | Inr vschema1 \<Rightarrow> Inr (tables, vschema1))
      else Inr (tables, vschema))))))"

text \<open>The routing rules that send every moved table to the source keyspace.\<close>

definition MoveTables_rules ::
  "string \<Rightarrow> string \<Rightarrow> (string \<times> string list) list \<Rightarrow> string list \<Rightarrow> (string \<times> string list) list" where
  "MoveTables_rules sourceKeyspace targetKeyspace rules tables =
     foldl (\<lambda>rules table.
        (let toSource = [sourceKeyspace @ ''.'' @ table];
             rules = AList.update table toSource rules;
             rules = AList.update (table @ ''@replica'') toSource rules;
             rules = AList.update (table @ ''@rdonly'') toSource rules;
             rules = AList.update (targetKeyspace @ ''.'' @ table) toSource rules;
             rules = AList.update (targetKeyspace @ ''.'' @ table @ ''@replica'') toSource rules;
             rules = AList.update (targetKeyspace @ ''.'' @ table @ ''@rdonly'') toSource rules;
             rules = AList.update (targetKeyspace @ ''.'' @ table) toSource rules;
             rules = AList.update (sourceKeyspace @ ''.'' @ table @ ''@replica'') toSource rules;
             rules = AList.update (sourceKeyspace @ ''.'' @ table @ ''@rdonly'') toSource rules
         in rules))
       rules tables"

text \<open>
  Saving the routing rules and then the VSchema, when the source is not an external
  cluster, and rebuilding the serving VSchema.
\<close>

definition MoveTables_save ::
  "Wrangler \<Rightarrow> MoveTablesRequest \<Rightarrow> string list \<Rightarrow> Keyspace \<Rightarrow> bool \<Rightarrow> error option \<times> Wrangler" where
  "MoveTables_save wr req tables vschema externalTopoIsNil =
     (case (if externalTopoIsNil
            then (case GetRoutingRules wr of
                    Inl e \<Rightarrow> (Some e, wr)
                  | Inr rules \<Rightarrow>
                      (case SaveRoutingRules wr
                              (MoveTables_rules (mt_sourceKeyspace req) (mt_targetKeyspace req) rules tables) of
                         (Some e, wr1) \<Rightarrow> (Some e, wr1)
                       | (None, wr1) \<Rightarrow> SaveVSchema wr1 (mt_targetKeyspace req) vschema))
            else (None, wr)) of
        (Some e, wr1) \<Rightarrow> (Some e, wr1)
      | (None, wr1) \<Rightarrow> (RebuildSrvVSchema wr1, wr1))"

text \<open>The materialize settings that MoveTables builds.\<close>

definition MoveTables_settings :: "Library \<Rightarrow> MoveTablesRequest \<Rightarrow> string list \<Rightarrow> MaterializeSettings" where
  "MoveTables_settings lib req tables =
     (let ms = \<lparr>ms_Workflow = mt_workflow req,
                ms_SourceKeyspace = mt_sourceKeyspace req,
                ms_TargetKeyspace = mt_targetKeyspace req,
                ms_StopAfterCopy = mt_stopAfterCopy req,
                ms_TableSettings = [],
                ms_Cell = mt_cell req,
                ms_TabletTypes = mt_tabletTypes req,
                ms_ExternalCluster = mt_externalCluster req,
                ms_MaterializationIntent = MOVETABLES,
                ms_SourceTimeZone = [],
                ms_TargetTimeZone = [],
                ms_SourceShards = mt_sourceShards req\<rparr>;
          ms = (if mt_sourceTimeZone req \<noteq> []
                then ms\<lparr>ms_SourceTimeZone := mt_sourceTimeZone req, ms_TargetTimeZone := ''UTC''\<rparr>
                else ms);
          createDDLMode = (if mt_dropForeignKeys req then createDDLAsCopyDropForeignKeys
                           else createDDLAsCopy)
      in ms\<lparr>ms_TableSettings :=
              map (\<lambda>table. \<lparr>tms_TargetTable = table,
                             tms_SourceExpression = ''select * from '' @ lib_Ident lib table,
                             tms_CreateDdl = createDDLMode\<rparr>) tables\<rparr>)"

text \<open>
  The first half of \<^verbatim>\<open>MoveTables\<close>, up to the settings: it mounts the external
  cluster, resolves the tables and saves routing rules and VSchema.
\<close>

definition MoveTables_prepare ::
  "Wrangler \<Rightarrow> MoveTablesRequest \<Rightarrow> (error + MaterializeSettings) \<times> Wrangler" where
  "MoveTables_prepare wr req =
     (case (if mt_externalCluster req \<noteq> []
            then (case OpenExternalVitessClusterServer wr (mt_externalCluster req) of
                    Inl e \<Rightarrow> Inl e
                  | Inr externalTopo \<Rightarrow> Inr (False, wr\<lparr>wr_sourceTs := externalTopo\<rparr>))
            else Inr (True, wr)) of
        Inl e \<Rightarrow> (Inl e, wr)
      | Inr (externalTopoIsNil, wr1) \<Rightarrow>
     (case GetVSchema wr1 (mt_targetKeyspace req) of
        Inl e \<Rightarrow> (Inl e, wr1)
      | Inr vschema \<Rightarrow>
     (case MoveTables_tables wr1 req vschema externalTopoIsNil of
        Inl e \<Rightarrow> (Inl e, wr1)
      | Inr (tables, vschema1) \<Rightarrow>
     (case MoveTables_save wr1 req tables vschema1 externalTopoIsNil of
        (Some e, wr2) \<Rightarrow> (Inl e, wr2)
      | (None, wr2) \<Rightarrow> (Inr (MoveTables_settings (wr_lib wr2) req tables), wr2)))))"

text \<open>
  The second half: the streams are prepared, the time zone is probed, the migration id
  is computed from the ids of the workflow's streams and the journals of the source
  primaries are checked; the streams are started on request.
\<close>

definition MoveTables_journal ::
  "Wrangler \<Rightarrow> MoveTablesRequest \<Rightarrow> materializer \<Rightarrow> 64 word \<Rightarrow> error option" where
  "MoveTables_journal wr req mz migrationID =
     (if mt_externalCluster req = []
      then (case checkIfPreviousJournalExists wr mz migrationID of
              (exists, tablets, Some e) \<Rightarrow> Some e
            | (exists, tablets, None) \<Rightarrow>
                if exists
                then Some (Errorf
                  (''found an entry from a previous run for migration id %d in '' @
                   ''_vt.resharding_journal of tablets %s,'' @
                   ''please review and delete it before proceeding and restart the workflow '' @
                   ''using the Workflow %s.%s start'')
                  [sprint_int (uint migrationID), strings_Join tablets '','',
                   mt_workflow req, mt_targetKeyspace req])
                else None)
      else None)"

definition MoveTables_streams ::
  "Wrangler \<Rightarrow> MoveTablesRequest \<Rightarrow> MaterializeSettings \<Rightarrow> error option \<times> Wrangler" where
  "MoveTables_streams wr req ms =
     (case prepareMaterializerStreams wr ms of
        (Inl e, wr1) \<Rightarrow> (Some e, wr1)
      | (Inr mz, wr1) \<Rightarrow>
     (case (if mt_sourceTimeZone req \<noteq> []
            then checkTZConversion wr1 mz (mt_sourceTimeZone req) else None) of
        Some e \<Rightarrow> (Some e, wr1)
      | None \<Rightarrow>
     (case collectTargetStreams wr1 mz of
        Inl e \<Rightarrow> (Some e, wr1)
      | Inr tabletShards \<Rightarrow>
     (case MoveTables_journal wr1 req mz (getMigrationID (mt_targetKeyspace req) tabletShards) of
        Some e \<Rightarrow> (Some e, wr1)
      | None \<Rightarrow>
          if mt_autoStart req then startStreams wr1 mz else (None, wr1)))))"

definition MoveTables :: "Wrangler \<Rightarrow> MoveTablesRequest \<Rightarrow> error option \<times> Wrangler" where
  "MoveTables wr req =
     (case MoveTables_prepare wr req of
        (Inl e, wr1) \<Rightarrow> (Some e, wr1)
      | (Inr ms, wr1) \<Rightarrow> MoveTables_streams wr1 req ms)"

section \<open>Lookup vindexes\<close>

subsection \<open>prepareCreateLookup\<close>

text \<open>
  The function is modelled block by block, in the order and under the headings of its
  own comments. \<open>LookupVindexInfo\<close> holds the variables that the first block sets.
\<close>

record LookupVindexInfo =
  lv_vindexName :: string
  lv_vindex :: Vindex
  lv_targetKeyspace :: string
  lv_targetTableName :: string
  lv_vindexFromCols :: "string list"
  lv_vindexToCol :: string

text \<open>
  ``Validate input vindex''. The vindex is made write-only before
  \<^verbatim>\<open>vindexes.CreateVindex\<close> is tried.
\<close>

definition prepareCreateLookup_vindex :: "Library \<Rightarrow> Keyspace \<Rightarrow> error + LookupVindexInfo" where
  "prepareCreateLookup_vindex lib specs =
     (case ks_Vindexes specs of
        [(vindexName, vindex)] \<Rightarrow>
     (if \<not> strings_Contains (vx_Type vindex) ''lookup''
      then Inl (Errorf ''vindex %s is not a lookup type'' [vx_Type vindex])
      else
     (case (case lib_ParseTable lib (param (vx_Params vindex) ''table'') of
              Inl e \<Rightarrow> None
            | Inr (targetKeyspace, targetTableName) \<Rightarrow>
                if targetKeyspace = [] then None else Some (targetKeyspace, targetTableName)) of
        None \<Rightarrow>
          Inl (Errorf ''vindex table name must be in the form <keyspace>.<table>. Got: %v''
                 [param (vx_Params vindex) ''table''])
      | Some (targetKeyspace, targetTableName) \<Rightarrow>
     (let vindexFromCols = strings_Split (param (vx_Params vindex) ''from'') CHR '','' in
      if strings_Contains (vx_Type vindex) ''unique'' \<and> length vindexFromCols \<noteq> 1
      then Inl (Errorf ''unique vindex 'from' should have only one column: %v'' [])
      else if \<not> strings_Contains (vx_Type vindex) ''unique'' \<and> length vindexFromCols < 2
      then Inl (Errorf ''non-unique vindex 'from' should have more than one column: %v'' [])
      else
     (let vindexToCol = param (vx_Params vindex) ''to'';
          vindex = vindex\<lparr>vx_Params := AList.update ''write_only'' ''true'' (vx_Params vindex)\<rparr>
      in
      case lib_CreateVindex lib (vx_Type vindex) vindexName (vx_Params vindex) of
        Some e \<Rightarrow> Inl e
      | None \<Rightarrow>
          Inr \<lparr>lv_vindexName = vindexName, lv_vindex = vindex,
               lv_targetKeyspace = targetKeyspace, lv_targetTableName = targetTableName,
               lv_vindexFromCols = vindexFromCols, lv_vindexToCol = vindexToCol\<rparr>))))
      | _ \<Rightarrow> Inl (Errorf ''only one vindex must be specified in the specs: %v'' []))"

text \<open>``Validate input table'': the name and the definition of the one table.\<close>

definition prepareCreateLookup_table :: "Keyspace \<Rightarrow> error + (string \<times> Table)" where
  "prepareCreateLookup_table specs =
     (case ks_Tables specs of
        [(k, ti)] \<Rightarrow>
          if length (tb_ColumnVindexes ti) \<noteq> 1
          then Inl (Errorf ''exactly one ColumnVindex must be specified for the table: %v'' [])
          else Inr (k, ti)
      | _ \<Rightarrow> Inl (Errorf ''exactly one table must be specified in the specs: %v'' []))"

text \<open>
  ``Validate input table and vindex consistency'': the result is
  \<^verbatim>\<open>sourceVindexColumns\<close>.
\<close>

definition prepareCreateLookup_consistency ::
  "LookupVindexInfo \<Rightarrow> string \<Rightarrow> Table \<Rightarrow> error + string list" where
  "prepareCreateLookup_consistency lv sourceTableName sourceTable =
     (case tb_ColumnVindexes sourceTable of
        [] \<Rightarrow> Inl (Panic ''index out of range'')
      | cv0 # others \<Rightarrow>
     (if cv_Name cv0 \<noteq> lv_vindexName lv
      then Inl (Errorf ''ColumnVindex name must match vindex name: %s vs %s''
                  [cv_Name cv0, lv_vindexName lv])
      else if vx_Owner (lv_vindex lv) \<noteq> [] \<and> vx_Owner (lv_vindex lv) \<noteq> sourceTableName
      then Inl (Errorf ''vindex owner must match table name: %v vs %v''
                  [vx_Owner (lv_vindex lv), sourceTableName])
      else
     (case (if cv_Columns cv0 \<noteq> [] then Inr (cv_Columns cv0)
            else if cv_Column cv0 = []
            then Inl (Errorf ''at least one column must be specified in ColumnVindexes: %v'' [])
            else Inr [cv_Column cv0]) of
        Inl e \<Rightarrow> Inl e
      | Inr sourceVindexColumns \<Rightarrow>
          if length sourceVindexColumns \<noteq> length (lv_vindexFromCols lv)
          then Inl (Errorf
            ''length of table columns differes from length of vindex columns: %v vs %v'' [])
          else Inr sourceVindexColumns)))"

text \<open>
  ``Validate against source vschema''. When source and target keyspace are the same,
  the two VSchemas are one object; the model keeps both and copies every later change
  of one to the other. A source table that is missing from the VSchema but has an
  internal name passes the test and is dereferenced by the loop.
\<close>

definition prepareCreateLookup_vschema ::
  "Wrangler \<Rightarrow> string \<Rightarrow> LookupVindexInfo \<Rightarrow> string \<Rightarrow> string list \<Rightarrow> error + (Keyspace \<times> Keyspace)" where
  "prepareCreateLookup_vschema wr keyspace lv sourceTableName sourceVindexColumns =
     (case GetVSchema wr keyspace of
        Inl e \<Rightarrow> Inl e
      | Inr sourceVSchema \<Rightarrow>
     (case (if keyspace = lv_targetKeyspace lv then Inr sourceVSchema
            else GetVSchema wr (lv_targetKeyspace lv)) of
        Inl e \<Rightarrow> Inl e
      | Inr targetVSchema \<Rightarrow>
     (if (case map_of (ks_Vindexes sourceVSchema) (lv_vindexName lv) of
            None \<Rightarrow> False
          | Some existing \<Rightarrow> \<not> proto_Equal_Vindex existing (lv_vindex lv))
      then Inl (Errorf ''a conflicting vindex named %s already exists in the source vschema''
                  [lv_vindexName lv])
      else
     (case map_of (ks_Tables sourceVSchema) sourceTableName of
        None \<Rightarrow>
          if \<not> lib_IsInternalOperationTableName (wr_lib wr) sourceTableName
          then Inl (Errorf ''source table %s not found in vschema'' [sourceTableName])
          else Inl (Panic ''nil pointer dereference'')
      | Some sourceVSchemaTable \<Rightarrow>
     (case sourceVindexColumns of
        [] \<Rightarrow> Inl (Panic ''index out of range'')
      | col0 # cols \<Rightarrow>
     (case find (\<lambda>colVindex.
                   cv_Name colVindex = lv_vindexName lv \<and>
                   (if cv_Columns colVindex \<noteq> [] then hd (cv_Columns colVindex)
                    else cv_Column colVindex) = col0)
             (tb_ColumnVindexes sourceVSchemaTable) of
        Some colVindex \<Rightarrow>
          Inl (Errorf ''ColumnVindex for table %v already exists: %v, please remove it and try again''
                 [sourceTableName, col0])
      | None \<Rightarrow> Inr (sourceVSchema, targetVSchema)))))))"

text \<open>``Validate against source schema'': the definition of the source table.\<close>

definition prepareCreateLookup_schema :: "Wrangler \<Rightarrow> string \<Rightarrow> string \<Rightarrow> error + TableDefinition" where
  "prepareCreateLookup_schema wr keyspace sourceTableName =
     (case GetServingShards (wr_ts wr) keyspace of
        Inl e \<Rightarrow> Inl e
      | Inr sourceShards \<Rightarrow>
     (case sourceShards of
        [] \<Rightarrow> Inl (Panic ''index out of range'')
      | onesource # rest \<Rightarrow>
     (case si_PrimaryAlias onesource of
        None \<Rightarrow> Inl (Errorf ''source shard has no primary: %v'' [si_ShardName onesource])
      | Some primary \<Rightarrow>
     (case schematools_GetSchema wr (wr_ts wr) (Some primary) [sourceTableName] of
        Inl e \<Rightarrow> Inl e
      | Inr tableDefinitions \<Rightarrow>
     (case tableDefinitions of
        [td] \<Rightarrow> Inr td
      | _ \<Rightarrow> Inl (Errorf ''unexpected number of tables returned from schema: %v'' []))))))"

definition generateColDef :: "Library \<Rightarrow> string list \<Rightarrow> string \<Rightarrow> string \<Rightarrow> error + string" where
  "generateColDef lib lines sourceVindexCol vindexFromCol =
     (let source = lib_EscapeID lib sourceVindexCol;
          target = lib_EscapeID lib vindexFromCol
      in
      case find (\<lambda>line. strings_Contains line source) (tl lines) of
        Some line \<Rightarrow>
          Inr (strings_Replace1
                 (strings_Replace1 (strings_Replace1 line source target) '' AUTO_INCREMENT'' [])
                 '' DEFAULT NULL'' [])
      | None \<Rightarrow> Inl (Errorf ''column %s not found in schema %v'' [sourceVindexCol]))"

text \<open>The loop that derives one column definition for each vindex column.\<close>

fun prepareCreateLookup_colDefs ::
  "Library \<Rightarrow> string list \<Rightarrow> string list \<Rightarrow> string list \<Rightarrow> error + string list" where
  "prepareCreateLookup_colDefs lib lines (c # cs) (f # fs) =
     (case generateColDef lib lines c f of
        Inl e \<Rightarrow> Inl e
      | Inr line \<Rightarrow>
          (case prepareCreateLookup_colDefs lib lines cs fs of
             Inl e \<Rightarrow> Inl e
           | Inr ls \<Rightarrow> Inr (line # ls)))"
| "prepareCreateLookup_colDefs lib lines [] fs = Inr []"
| "prepareCreateLookup_colDefs lib lines (c # cs) [] = Inl (Panic ''index out of range'')"

definition isConsistentLookup :: "Vindex \<Rightarrow> bool" where
  "isConsistentLookup vindex =
     (strings_EqualFold (vx_Type vindex) ''consistent_lookup_unique'' \<or>
      strings_EqualFold (vx_Type vindex) ''consistent_lookup'')"

text \<open>``Generate "create table" statement''.\<close>

definition prepareCreateLookup_createDDL ::
  "Library \<Rightarrow> LookupVindexInfo \<Rightarrow> string \<Rightarrow> string list \<Rightarrow> TableDefinition \<Rightarrow> error + string" where
  "prepareCreateLookup_createDDL lib lv sourceTableName sourceVindexColumns td =
     (let lines = strings_Split (td_Schema td) (CHR 0x0A) in
      if length lines < 3
      then Inl (Errorf ''schema looks incorrect: %s, expecting at least four lines'' [td_Schema td])
      else
     (case prepareCreateLookup_colDefs lib lines sourceVindexColumns (lv_vindexFromCols lv) of
        Inl e \<Rightarrow> Inl e
      | Inr colDefs \<Rightarrow>
          Inr (strings_Join
                 ([strings_Replace1 (hd lines) sourceTableName (lv_targetTableName lv)] @
                  colDefs @
                  [if param (vx_Params (lv_vindex lv)) ''data_type'' = [] \<or> isConsistentLookup (lv_vindex lv)
                   then ''  '' @ lib_EscapeID lib (lv_vindexToCol lv) @ '' varbinary(128),''
                   else ''  '' @ lib_EscapeID lib (lv_vindexToCol lv) @ '' '' @
                        lib_EscapeID lib (param (vx_Params (lv_vindex lv)) ''data_type'') @ '','',
                   ''  PRIMARY KEY ('' @
                     strings_Join (map (lib_EscapeID lib) (lv_vindexFromCols lv)) '', '' @ '')'',
                   '')''])
                 [CHR 0x0A])))"

text \<open>
  ``Generate vreplication query''. The two lists have the same length when the block
  is reached.
\<close>

definition prepareCreateLookup_query ::
  "Library \<Rightarrow> LookupVindexInfo \<Rightarrow> string \<Rightarrow> string list \<Rightarrow> string" where
  "prepareCreateLookup_query lib lv sourceTableName sourceVindexColumns =
     ''select '' @
     concat (map (\<lambda>(c, f). lib_Ident lib c @ '' as '' @ lib_Ident lib f @ '', '')
               (zip sourceVindexColumns (lv_vindexFromCols lv))) @
     (if strings_EqualFold (lv_vindexToCol lv) ''keyspace_id'' \<or> isConsistentLookup (lv_vindex lv)
      then ''keyspace_id() as '' @ lib_Ident lib (lv_vindexToCol lv) @ '' ''
      else lib_Ident lib (lv_vindexToCol lv) @ '' as '' @ lib_Ident lib (lv_vindexToCol lv) @ '' '') @
     ''from '' @ lib_Ident lib sourceTableName @
     (if vx_Owner (lv_vindex lv) \<noteq> []
      then '' group by '' @
           concat (map (\<lambda>f. lib_Ident lib f @ '', '') (lv_vindexFromCols lv)) @
           lib_Ident lib (lv_vindexToCol lv)
      else [])"

text \<open>``Update targetVSchema'': the result is the target VSchema with the new table.\<close>

definition prepareCreateLookup_target ::
  "Library \<Rightarrow> LookupVindexInfo \<Rightarrow> string list \<Rightarrow> TableDefinition \<Rightarrow> Keyspace \<Rightarrow> error + Keyspace" where
  "prepareCreateLookup_target lib lv sourceVindexColumns td targetVSchema =
     (case (if ks_Sharded targetVSchema
            then
              (case find (\<lambda>field. hd sourceVindexColumns = fld_Name field) (td_Fields td) of
                 None \<Rightarrow> Inl (Errorf ''column %s not found in schema %v'' [hd sourceVindexColumns])
               | Some field \<Rightarrow>
              (case lib_ChooseVindexForType lib (fld_Type field) of
                 Inl e \<Rightarrow> Inl e
               | Inr targetVindexType \<Rightarrow>
              (let targetVindex = \<lparr>vx_Type = targetVindexType, vx_Params = [], vx_Owner = []\<rparr>;
                   targetTable = emptyTable\<lparr>tb_ColumnVindexes :=
                     [\<lparr>cv_Column = hd (lv_vindexFromCols lv), cv_Name = targetVindexType,
                       cv_Columns = []\<rparr>]\<rparr>
               in
               case map_of (ks_Vindexes targetVSchema) targetVindexType of
                 Some existing \<Rightarrow>
                   if \<not> proto_Equal_Vindex existing targetVindex
                   then Inl (Errorf ''a conflicting vindex named %v already exists in the target vschema''
                               [targetVindexType])
                   else Inr (targetVSchema, targetTable)
               | None \<Rightarrow>
                   Inr (targetVSchema\<lparr>ks_Vindexes :=
                          AList.update targetVindexType targetVindex (ks_Vindexes targetVSchema)\<rparr>,
                        targetTable))))
            else Inr (targetVSchema, emptyTable)) of
        Inl e \<Rightarrow> Inl e
      | Inr (targetVSchema, targetTable) \<Rightarrow>
          (case map_of (ks_Tables targetVSchema) (lv_targetTableName lv) of
             Some existing \<Rightarrow>
               if existing \<noteq> targetTable
               then Inl (Errorf ''a conflicting table named %v already exists in the target vschema''
                           [lv_targetTableName lv])
               else Inr targetVSchema
           | None \<Rightarrow>
               Inr (targetVSchema\<lparr>ks_Tables :=
                      AList.update (lv_targetTableName lv) targetTable (ks_Tables targetVSchema)\<rparr>)))"

text \<open>The settings of the backfill workflow.\<close>

definition prepareCreateLookup_settings ::
  "string \<Rightarrow> LookupVindexInfo \<Rightarrow> bool \<Rightarrow> string \<Rightarrow> string \<Rightarrow> MaterializeSettings" where
  "prepareCreateLookup_settings keyspace lv continueAfterCopyWithOwner materializeQuery createDDL =
     \<lparr>ms_Workflow = lv_targetTableName lv @ ''_vdx'',
      ms_SourceKeyspace = keyspace,
      ms_TargetKeyspace = lv_targetKeyspace lv,
      ms_StopAfterCopy = (vx_Owner (lv_vindex lv) \<noteq> [] \<and> \<not> continueAfterCopyWithOwner),
      ms_TableSettings =
        [\<lparr>tms_TargetTable = lv_targetTableName lv,
          tms_SourceExpression = materializeQuery,
          tms_CreateDdl = createDDL\<rparr>],
      ms_Cell = [],
      ms_TabletTypes = [],
      ms_ExternalCluster = [],
      ms_MaterializationIntent = CREATELOOKUPINDEX,
      ms_SourceTimeZone = [],
      ms_TargetTimeZone = [],
      ms_SourceShards = []\<rparr>"

text \<open>
  ``Update sourceVSchema'': the vindex is stored and the column vindex of the input
  table is appended to the source table.
\<close>

definition prepareCreateLookup_source ::
  "LookupVindexInfo \<Rightarrow> string \<Rightarrow> ColumnVindex \<Rightarrow> Keyspace \<Rightarrow> Keyspace" where
  "prepareCreateLookup_source lv sourceTableName cv0 sourceVSchema =
     sourceVSchema
       \<lparr>ks_Vindexes := AList.update (lv_vindexName lv) (lv_vindex lv) (ks_Vindexes sourceVSchema),
        ks_Tables :=
          AList.map_entry sourceTableName
            (\<lambda>t. t\<lparr>tb_ColumnVindexes := tb_ColumnVindexes t @ [cv0]\<rparr>)
            (ks_Tables sourceVSchema)\<rparr>"

definition prepareCreateLookup ::
  "Wrangler \<Rightarrow> string \<Rightarrow> Keyspace \<Rightarrow> bool \<Rightarrow> error + (MaterializeSettings \<times> Keyspace \<times> Keyspace)" where
  "prepareCreateLookup wr keyspace specs continueAfterCopyWithOwner =
     (case prepareCreateLookup_vindex (wr_lib wr) specs of
        Inl e \<Rightarrow> Inl e
      | Inr lv \<Rightarrow>
     (case prepareCreateLookup_table specs of
        Inl e \<Rightarrow> Inl e
      | Inr (sourceTableName, sourceTable) \<Rightarrow>
     (case prepareCreateLookup_consistency lv sourceTableName sourceTable of
        Inl e \<Rightarrow> Inl e
      | Inr sourceVindexColumns \<Rightarrow>
     (case prepareCreateLookup_vschema wr keyspace lv sourceTableName sourceVindexColumns of
        Inl e \<Rightarrow> Inl e
      | Inr (sourceVSchema, targetVSchema) \<Rightarrow>
     (case prepareCreateLookup_schema wr keyspace sourceTableName of
        Inl e \<Rightarrow> Inl e
      | Inr td \<Rightarrow>
     (case prepareCreateLookup_createDDL (wr_lib wr) lv sourceTableName sourceVindexColumns td of
        Inl e \<Rightarrow> Inl e
      | Inr createDDL \<Rightarrow>
     (let materializeQuery =
            prepareCreateLookup_query (wr_lib wr) lv sourceTableName sourceVindexColumns
      in
      case prepareCreateLookup_target (wr_lib wr) lv sourceVindexColumns td targetVSchema of
        Inl e \<Rightarrow> Inl e
      | Inr targetVSchema \<Rightarrow>
     (let sourceVSchema = (if keyspace = lv_targetKeyspace lv then targetVSchema else sourceVSchema);
          ms = prepareCreateLookup_settings keyspace lv continueAfterCopyWithOwner
                 materializeQuery createDDL;
          sourceVSchema = prepareCreateLookup_source lv sourceTableName
                            (hd (tb_ColumnVindexes sourceTable)) sourceVSchema;
          targetVSchema = (if keyspace = lv_targetKeyspace lv then sourceVSchema else targetVSchema)
      in Inr (ms, sourceVSchema, targetVSchema)))))))))"

subsection \<open>CreateLookupVindex\<close>

definition CreateLookupVindex ::
  "Wrangler \<Rightarrow> string \<Rightarrow> Keyspace \<Rightarrow> string \<Rightarrow> string \<Rightarrow> bool \<Rightarrow> error option \<times> Wrangler" where
  "CreateLookupVindex wr keyspace specs cell tabletTypes continueAfterCopyWithOwner =
     (case prepareCreateLookup wr keyspace specs continueAfterCopyWithOwner of
        Inl e \<Rightarrow> (Some e, wr)
      | Inr (ms, sourceVSchema, targetVSchema) \<Rightarrow>
     (case SaveVSchema wr (ms_TargetKeyspace ms) targetVSchema of
        (Some e, wr1) \<Rightarrow> (Some e, wr1)
      | (None, wr1) \<Rightarrow>
     (case Materialize wr1 (ms\<lparr>ms_Cell := cell, ms_TabletTypes := tabletTypes\<rparr>) of
        (Some e, wr2) \<Rightarrow> (Some e, wr2)
      | (None, wr2) \<Rightarrow>
     (case SaveVSchema wr2 keyspace sourceVSchema of
        (Some e, wr3) \<Rightarrow> (Some e, wr3)
      | (None, wr3) \<Rightarrow> (RebuildSrvVSchema wr3, wr3)))))"

subsection \<open>ExternalizeVindex\<close>

text \<open>
  The test that the first closure makes on one row of the workflow: the source must
  unmarshal, and the state must be the expected one.
\<close>

definition ExternalizeVindex_row :: "Vindex \<Rightarrow> ShardInfo \<Rightarrow> StreamRecord \<Rightarrow> error option" where
  "ExternalizeVindex_row sourceVindex targetShard row =
     (case sr_source row of
        Garbled t \<Rightarrow> Some (CapabilityError ''prototext: cannot unmarshal'')
      | Source bls \<Rightarrow>
          if vx_Owner sourceVindex = [] \<or> \<not> bls_StopAfterCopy bls
          then (if sr_state row \<noteq> BlpRunning
                then Some (Errorf ''stream %d for %v.%v is not in Running state: %v''
                             [sprint_int (sr_id row), si_Keyspace targetShard,
                              si_ShardName targetShard, sr_state row])
                else None)
          else (if sr_state row \<noteq> BlpStopped \<or>
                   \<not> strings_Contains (sr_message row) ''Stopped after copy''
                then Some (Errorf ''stream %d for %v.%v is not in Stopped after copy state: %v, %v''
                             [sprint_int (sr_id row), si_Keyspace targetShard,
                              si_ShardName targetShard, sr_state row, sr_message row])
                else None))"

fun ExternalizeVindex_rows :: "Vindex \<Rightarrow> ShardInfo \<Rightarrow> StreamRecord list \<Rightarrow> error option" where
  "ExternalizeVindex_rows sourceVindex targetShard [] = None"
| "ExternalizeVindex_rows sourceVindex targetShard (row # rows) =
     (case ExternalizeVindex_row sourceVindex targetShard row of
        Some e \<Rightarrow> Some e
      | None \<Rightarrow> ExternalizeVindex_rows sourceVindex targetShard rows)"

definition ExternalizeVindex_check ::
  "Wrangler \<Rightarrow> Vindex \<Rightarrow> string \<Rightarrow> unit \<Rightarrow> ShardInfo \<Rightarrow> error option \<times> unit" where
  "ExternalizeVindex_check wr sourceVindex workflow u targetShard =
     (case GetTablet (wr_ts wr) (si_PrimaryAlias targetShard) of
        Inl e \<Rightarrow> (Some e, ())
      | Inr targetPrimary \<Rightarrow>
          (case fst (VReplicationExec wr targetPrimary
                       (SelectStreams workflow (ti_DbName targetPrimary))) of
             Inl e \<Rightarrow> (Some e, ())
           | Inr rows \<Rightarrow> (ExternalizeVindex_rows sourceVindex targetShard rows, ())))"

definition ExternalizeVindex_delete ::
  "string \<Rightarrow> Wrangler \<Rightarrow> ShardInfo \<Rightarrow> error option \<times> Wrangler" where
  "ExternalizeVindex_delete workflow wr targetShard =
     (case GetTablet (wr_ts wr) (si_PrimaryAlias targetShard) of
        Inl e \<Rightarrow> (Some e, wr)
      | Inr targetPrimary \<Rightarrow>
          (case VReplicationExec wr targetPrimary
                  (DeleteStreams (ti_DbName targetPrimary) workflow) of
             (Inl e, wr1) \<Rightarrow> (Some e, wr1)
           | (Inr qr, wr1) \<Rightarrow> (None, wr1)))"

text \<open>
  The end of \<^verbatim>\<open>ExternalizeVindex\<close>: the streams are deleted when the vindex has
  an owner, \<^verbatim>\<open>write_only\<close> is removed from the vindex inside the source VSchema,
  and the VSchema is saved.
\<close>

definition ExternalizeVindex_finish ::
  "Wrangler \<Rightarrow> string \<Rightarrow> string \<Rightarrow> Keyspace \<Rightarrow> Vindex \<Rightarrow> string \<Rightarrow> ShardInfo list
     \<Rightarrow> error option \<times> Wrangler" where
  "ExternalizeVindex_finish wr sourceKeyspace vindexName sourceVSchema sourceVindex workflow targetShards =
     (case (if vx_Owner sourceVindex \<noteq> []
            then (case forAllShards (ExternalizeVindex_delete workflow) targetShards wr of
                    (es, wr1) \<Rightarrow> (AggrError es, wr1))
            else (None, wr)) of
        (Some e, wr1) \<Rightarrow> (Some e, wr1)
      | (None, wr1) \<Rightarrow>
     (case SaveVSchema wr1 sourceKeyspace
             (sourceVSchema\<lparr>ks_Vindexes :=
                AList.map_entry vindexName
                  (\<lambda>v. v\<lparr>vx_Params := AList.delete ''write_only'' (vx_Params v)\<rparr>)
                  (ks_Vindexes sourceVSchema)\<rparr>) of
        (Some e, wr2) \<Rightarrow> (Some e, wr2)
      | (None, wr2) \<Rightarrow> (RebuildSrvVSchema wr2, wr2)))"

definition ExternalizeVindex :: "Wrangler \<Rightarrow> string \<Rightarrow> error option \<times> Wrangler" where
  "ExternalizeVindex wr qualifiedVindexName =
     (case strings_Split qualifiedVindexName CHR ''.'' of
        [sourceKeyspace, vindexName] \<Rightarrow>
     (case GetVSchema wr sourceKeyspace of
        Inl e \<Rightarrow> (Some e, wr)
      | Inr sourceVSchema \<Rightarrow>
     (case map_of (ks_Vindexes sourceVSchema) vindexName of
        None \<Rightarrow> (Some (Errorf ''vindex %s not found in vschema'' [qualifiedVindexName]), wr)
      | Some sourceVindex \<Rightarrow>
     (case (case lib_ParseTable (wr_lib wr) (param (vx_Params sourceVindex) ''table'') of
              Inl e \<Rightarrow> None
            | Inr (targetKeyspace, targetTableName) \<Rightarrow>
                if targetKeyspace = [] then None else Some (targetKeyspace, targetTableName)) of
        None \<Rightarrow>
          (Some (Errorf ''vindex table name must be in the form <keyspace>.<table>. Got: %v''
                   [param (vx_Params sourceVindex) ''table'']), wr)
      | Some (targetKeyspace, targetTableName) \<Rightarrow>
     (let workflow = targetTableName @ ''_vdx'' in
      case GetServingShards (wr_ts wr) targetKeyspace of
        Inl e \<Rightarrow> (Some e, wr)
      | Inr targetShards \<Rightarrow>
     (case AggrError (fst (forAllShards (ExternalizeVindex_check wr sourceVindex workflow)
                             targetShards ())) of
        Some e \<Rightarrow> (Some e, wr)
      | None \<Rightarrow>
          ExternalizeVindex_finish wr sourceKeyspace vindexName sourceVSchema sourceVindex
            workflow targetShards)))))
      | _ \<Rightarrow>
          (Some (Errorf ''vindex name should be of the form keyspace.vindex: %s''
                   [qualifiedVindexName]), wr))"

section \<open>Notions of the statements\<close>

text \<open>
  The statements below speak of the rows that a call leaves on the tablets and of the
  range predicates inside a filter. These notions are not part of the engine; they are
  defined here, once, for the theorems that use them.
\<close>

text \<open>
  The source shard that a stream record reads from.
\<close>

definition row_shard :: "StreamRecord \<Rightarrow> string" where
  "row_shard r = (case sr_source r of Source bls \<Rightarrow> bls_Shard bls | Garbled t \<Rightarrow> [])"

text \<open>
  The number of calls of \<^verbatim>\<open>in_keyrange\<close> in an expression, and in the WHERE
  clause of a select statement.
\<close>

primrec countRange :: "Expr \<Rightarrow> nat"
  and countRangeSel :: "SelectExpr \<Rightarrow> nat" where
  "countRange (ColName q n) = 0"
| "countRange (StrLiteral s) = 0"
| "countRange (FuncExpr f args) =
     (if IdentifierCI_Equal f ''in_keyrange'' then 1 else 0) + sum_list (map countRangeSel args)"
| "countRange (AndExpr a b) = countRange a + countRange b"
| "countRange (OrExpr a b) = countRange a + countRange b"
| "countRange (NotExpr a) = countRange a"
| "countRange (ComparisonExpr opr a b) = countRange a + countRange b"
| "countRange (OtherExpr t) = 0"
| "countRangeSel StarExpr = 0"
| "countRangeSel (AliasedExpr e as) = countRange e"
| "countRangeSel Nextval = 0"

definition countRangeWhere :: "Select \<Rightarrow> nat" where
  "countRangeWhere sel = (case sel_Where sel of None \<Rightarrow> 0 | Some w \<Rightarrow> countRange w)"

text \<open>
  The state that \<^verbatim>\<open>ExternalizeVindex\<close> expects of a stream: running, when the
  vindex has no owner or the stream does not stop after the copy; otherwise stopped,
  with a message that tells that the copy is complete. A row whose source cannot be
  read is in no expected state.
\<close>

definition expectedState :: "Vindex \<Rightarrow> StreamRecord \<Rightarrow> bool" where
  "expectedState sourceVindex row =
     (case sr_source row of
        Garbled t \<Rightarrow> False
      | Source bls \<Rightarrow>
          if vx_Owner sourceVindex = [] \<or> \<not> bls_StopAfterCopy bls
          then sr_state row = ''Running''
          else sr_state row = ''Stopped'' \<and> strings_Contains (sr_message row) ''Stopped after copy'')"

text \<open>
  A tablet without the rows of a workflow.
\<close>

definition deleteWorkflow :: "Cluster \<Rightarrow> string \<Rightarrow> TabletAlias \<Rightarrow> TabletState \<Rightarrow> TabletState" where
  "deleteWorkflow ts workflow a st =
     (case cl_Tablets ts a of
        None \<Rightarrow> st
      | Some db \<Rightarrow>
          st\<lparr>tab_vreplication := filter (\<lambda>r. \<not> ofWorkflow db workflow r) (tab_vreplication st)\<rparr>)"




text \<open>
  A workflow exists in a keyspace when the primary of one of its serving shards holds
  a stream record of that workflow.
\<close>

definition workflowExists :: "Wrangler \<Rightarrow> string \<Rightarrow> string \<Rightarrow> bool" where
  "workflowExists wr keyspace workflow =
     (case GetServingShards (wr_ts wr) keyspace of
        Inl e \<Rightarrow> False
      | Inr shards \<Rightarrow>
          (\<exists>shard \<in> set shards.
             case GetTablet (wr_ts wr) (si_PrimaryAlias shard) of
               Inl e \<Rightarrow> False
             | Inr primary \<Rightarrow>
                 (\<exists>row \<in> set (tab_vreplication (wr_tablets wr (ti_Alias primary))).
                    ofWorkflow (ti_DbName primary) workflow row)))"

section \<open>An example cluster\<close>

text \<open>
  A cluster on which the operations run from end to end: the unsharded keyspace
  \<open>legacy\<close> with the shard \<open>0\<close>, the keyspace \<open>sales\<close> with the shards
  \<open>-80\<close> and \<open>80-\<close>, one primary tablet for each shard, and the table
  \<open>customer\<close>. The library is a printer for select statements, a parser that knows
  the statements of \<open>demo_selects\<close>, and the plainest choice for every other
  capability.
\<close>

text \<open>
  The printer of expressions and select statements.
\<close>

primrec demo_StringExpr :: "Expr \<Rightarrow> string"
  and demo_StringSelectExpr :: "SelectExpr \<Rightarrow> string" where
  "demo_StringExpr (ColName q n) = (if q = [] then n else q @ ''.'' @ n)"
| "demo_StringExpr (StrLiteral t) = [CHR 0x27] @ t @ [CHR 0x27]"
| "demo_StringExpr (FuncExpr f args) =
     f @ ''('' @ strings_Join (map demo_StringSelectExpr args) '', '' @ '')''"
| "demo_StringExpr (AndExpr a b) = demo_StringExpr a @ '' and '' @ demo_StringExpr b"
| "demo_StringExpr (OrExpr a b) = demo_StringExpr a @ '' or '' @ demo_StringExpr b"
| "demo_StringExpr (NotExpr a) = ''not '' @ demo_StringExpr a"
| "demo_StringExpr (ComparisonExpr opr a b) = demo_StringExpr a @ '' '' @ opr @ '' '' @ demo_StringExpr b"
| "demo_StringExpr (OtherExpr t) = t"
| "demo_StringSelectExpr StarExpr = ''*''"
| "demo_StringSelectExpr (AliasedExpr e as) =
     (if as = [] then demo_StringExpr e else demo_StringExpr e @ '' as '' @ as)"
| "demo_StringSelectExpr Nextval = ''next value''"

definition demo_String :: "Select \<Rightarrow> string" where
  "demo_String sel =
     ''select '' @ strings_Join (map demo_StringSelectExpr (sel_SelectExprs sel)) '', '' @
     '' from '' @ sel_From sel @
     (case sel_Where sel of None \<Rightarrow> [] | Some w \<Rightarrow> '' where '' @ demo_StringExpr w) @
     sel_Rest sel"

text \<open>
  The statements that the parser knows: it returns the one that prints as its input.
\<close>

definition demo_selects :: "Select list" where
  "demo_selects =
     [\<lparr>sel_SelectExprs = [StarExpr], sel_From = ''customer'', sel_Where = None, sel_Rest = []\<rparr>,
      \<lparr>sel_SelectExprs = [StarExpr], sel_From = ''customer'',
       sel_Where = Some (FuncExpr ''in_keyrange''
          [AliasedExpr (ColName [] ''cid'') [], AliasedExpr (StrLiteral ''sales.hash'') [],
           AliasedExpr (StrLiteral ''-80'') []]),
       sel_Rest = []\<rparr>,
      \<lparr>sel_SelectExprs = [StarExpr], sel_From = ''customer'',
       sel_Where = Some (ComparisonExpr ''='' (ColName [] ''region'') (StrLiteral ''eu'')),
       sel_Rest = []\<rparr>,
      \<lparr>sel_SelectExprs =
         [AliasedExpr (ColName [] ''email'') ''email'',
          AliasedExpr (FuncExpr ''keyspace_id'' []) ''keyspace_id''],
       sel_From = ''customer'', sel_Where = None,
       sel_Rest = '' group by email, keyspace_id''\<rparr>]"

definition demo_Parse :: "string \<Rightarrow> error + Statement" where
  "demo_Parse q =
     (case find (\<lambda>sel. demo_String sel = q) demo_selects of
        Some sel \<Rightarrow> Inr (SelectStmt sel)
      | None \<Rightarrow> Inl (CapabilityError ''syntax error''))"

definition demo_ParseTable :: "string \<Rightarrow> error + (string \<times> string)" where
  "demo_ParseTable t =
     (case strings_Split t CHR ''.'' of
        [name] \<Rightarrow> if name = [] then Inl (CapabilityError ''invalid table name'') else Inr ([], name)
      | [ks, name] \<Rightarrow> Inr (ks, name)
      | _ \<Rightarrow> Inl (CapabilityError ''invalid table name''))"

definition demo_TableFromStatement :: "string \<Rightarrow> error + (string \<times> string)" where
  "demo_TableFromStatement q =
     (case demo_Parse q of
        Inr (SelectStmt sel) \<Rightarrow> Inr ([], sel_From sel)
      | _ \<Rightarrow> Inl (CapabilityError ''unrecognized statement''))"

definition demo_BuildKeyspaceSchema :: "Keyspace \<Rightarrow> string \<Rightarrow> error + KeyspaceSchema" where
  "demo_BuildKeyspaceSchema ks name =
     Inr \<lparr>kss_Sharded = ks_Sharded ks,
          kss_Tables =
            map (\<lambda>(n, t). (n, \<lparr>vt_Type = tb_Type t,
                                vt_ColumnVindexes =
                                  map (\<lambda>cv. \<lparr>vcv_Columns = (if cv_Columns cv \<noteq> [] then cv_Columns cv
                                                              else [cv_Column cv]),
                                             vcv_Name = cv_Name cv\<rparr>)
                                    (tb_ColumnVindexes t)\<rparr>))
              (ks_Tables ks)\<rparr>"

definition demo_hex :: "string \<Rightarrow> string" where
  "demo_hex bs =
     concat (map (\<lambda>c. [''0123456789abcdef'' ! nat (of_char c div 16),
                        ''0123456789abcdef'' ! nat (of_char c mod 16)]) bs)"

definition demo_KeyRangeString :: "KeyRange option \<Rightarrow> string" where
  "demo_KeyRangeString kr =
     (case kr of None \<Rightarrow> ''-'' | Some k \<Rightarrow> demo_hex (kr_Start k) @ ''-'' @ demo_hex (kr_End k))"

definition demo_lib :: Library where
  "demo_lib =
     \<lparr>lib_Parse = demo_Parse,
      lib_String = demo_String,
      lib_ParseStrictDDL = (\<lambda>ddl. Inr \<lparr>ddl_Head = ddl, ddl_TableSpec = None\<rparr>),
      lib_StringDDL = ddl_Head,
      lib_TableFromStatement = demo_TableFromStatement,
      lib_ParseTable = demo_ParseTable,
      lib_Ident = (\<lambda>name. name),
      lib_EscapeID = (\<lambda>name. [CHR 0x60] @ name @ [CHR 0x60]),
      lib_CreateVindex = (\<lambda>t n ps. None),
      lib_ChooseVindexForType = (\<lambda>t. Inr ''xxhash''),
      lib_BuildKeyspaceSchema = demo_BuildKeyspaceSchema,
      lib_IsInternalOperationTableName = (\<lambda>name. False),
      lib_Unmarshal = (\<lambda>t. Inl (CapabilityError ''invalid JSON'')),
      lib_KeyRangeString = demo_KeyRangeString,
      lib_TimeParse = (\<lambda>t. t \<noteq> []),
      lib_SQLMode = ''NO_AUTO_VALUE_ON_ZERO'',
      lib_ExecuteDDL = (\<lambda>sql tds. Inr tds)\<rparr>"

definition demo_shard :: "string \<Rightarrow> string \<Rightarrow> KeyRange option \<Rightarrow> string \<Rightarrow> ShardInfo" where
  "demo_shard ks name kr primary =
     \<lparr>si_Keyspace = ks, si_ShardName = name, si_KeyRange = kr, si_PrimaryAlias = Some primary\<rparr>"

definition demo_sales_shards :: "ShardInfo list" where
  "demo_sales_shards =
     [demo_shard ''sales'' ''-80'' (Some \<lparr>kr_Start = [], kr_End = [CHR 0x80]\<rparr>) ''zone1-200'',
      demo_shard ''sales'' ''80-'' (Some \<lparr>kr_Start = [CHR 0x80], kr_End = []\<rparr>) ''zone1-300'']"

definition demo_cluster :: Cluster where
  "demo_cluster =
     \<lparr>cl_ServingShards =
        [''legacy'' \<mapsto> [demo_shard ''legacy'' ''0'' None ''zone1-100''],
         ''sales'' \<mapsto> demo_sales_shards],
      cl_Tablets =
        [''zone1-100'' \<mapsto> ''vt_legacy'',
         ''zone1-200'' \<mapsto> ''vt_sales'',
         ''zone1-300'' \<mapsto> ''vt_sales'']\<rparr>"

definition demo_tablet :: "TableDefinition list \<Rightarrow> StreamRecord list \<Rightarrow> 64 word list \<Rightarrow> TabletState" where
  "demo_tablet tds rows journal =
     \<lparr>tab_TableDefinitions = tds, tab_vreplication = rows, tab_nextId = 1 + int (length rows),
      tab_journal = journal, tab_applied = [],
      tab_convertTz = (\<lambda>tz. [[''2006-01-02 07:04:05'']]), tab_rpcError = None\<rparr>"

definition demo_customer :: TableDefinition where
  "demo_customer =
     \<lparr>td_Name = ''customer'',
      td_Schema = strings_Join
        [''CREATE TABLE `customer` ('',
         ''  `cid` bigint NOT NULL,'',
         ''  `email` varchar(64) DEFAULT NULL,'',
         ''  `region` varchar(8) DEFAULT NULL,'',
         ''  PRIMARY KEY (`cid`)'',
         '')''] [CHR 0x0A],
      td_Fields = [\<lparr>fld_Name = ''cid'', fld_Type = ''INT64''\<rparr>,
                   \<lparr>fld_Name = ''email'', fld_Type = ''VARCHAR''\<rparr>,
                   \<lparr>fld_Name = ''region'', fld_Type = ''VARCHAR''\<rparr>]\<rparr>"

definition demo_sales :: Keyspace where
  "demo_sales =
     \<lparr>ks_Sharded = True,
      ks_Vindexes = [(''hash'', \<lparr>vx_Type = ''hash'', vx_Params = [], vx_Owner = []\<rparr>)],
      ks_Tables = [(''customer'',
         emptyTable\<lparr>tb_ColumnVindexes := [\<lparr>cv_Column = ''cid'', cv_Name = ''hash'', cv_Columns = []\<rparr>]\<rparr>)]\<rparr>"

text \<open>
  The world before \<^verbatim>\<open>MoveTables\<close> from \<open>legacy\<close> to \<open>sales\<close>: the
  source tablet has the table and the journal \<open>journal\<close>, the first target tablet
  has the stream records \<open>rows\<close>.
\<close>

definition demo_wr :: "StreamRecord list \<Rightarrow> 64 word list \<Rightarrow> Wrangler" where
  "demo_wr rows journal =
     \<lparr>wr_ts = demo_cluster,
      wr_sourceTs = demo_cluster,
      wr_externalClusters = Map.empty,
      wr_vschemas = [''sales'' \<mapsto> demo_sales,
                     ''legacy'' \<mapsto> \<lparr>ks_Sharded = False, ks_Vindexes = [],
                                      ks_Tables = [(''customer'', emptyTable)]\<rparr>],
      wr_routingRules = [],
      wr_tablets = (\<lambda>a. if a = ''zone1-100'' then demo_tablet [demo_customer] [] journal
                         else if a = ''zone1-200'' then demo_tablet [] rows []
                         else demo_tablet [] [] []),
      wr_topoFault = (\<lambda>opr. None),
      wr_lib = demo_lib\<rparr>"

definition demo_request :: MoveTablesRequest where
  "demo_request =
     \<lparr>mt_workflow = ''movecust'', mt_sourceKeyspace = ''legacy'', mt_targetKeyspace = ''sales'',
      mt_tableSpecs = ''customer'', mt_cell = ''zone1'', mt_tabletTypes = ''primary'',
      mt_allTables = False, mt_excludeTables = [], mt_autoStart = True, mt_stopAfterCopy = False,
      mt_externalCluster = [], mt_dropForeignKeys = False, mt_sourceTimeZone = ''US/Pacific'',
      mt_sourceShards = []\<rparr>"

text \<open>
  The world in which the table lives on the two shards of \<open>sales\<close>, with a journal
  for each of their primaries, and the request that moves it to \<open>legacy\<close>.
\<close>

definition demo_back_wr :: "64 word list \<Rightarrow> 64 word list \<Rightarrow> Wrangler" where
  "demo_back_wr journal200 journal300 =
     (demo_wr [] [])\<lparr>wr_tablets :=
        (\<lambda>a. if a = ''zone1-200'' then demo_tablet [demo_customer] [] journal200
             else if a = ''zone1-300'' then demo_tablet [demo_customer] [] journal300
             else demo_tablet [] [] [])\<rparr>"

definition demo_back_request :: MoveTablesRequest where
  "demo_back_request =
     demo_request\<lparr>mt_workflow := ''moveback'', mt_sourceKeyspace := ''sales'',
                   mt_targetKeyspace := ''legacy'', mt_sourceTimeZone := []\<rparr>"

text \<open>
  The specification of a lookup vindex on the column \<open>email\<close>, backed by the
  table \<open>legacy.email_lookup\<close>; the world before it is created and the world that
  \<^verbatim>\<open>CreateLookupVindex\<close> leaves.
\<close>

definition demo_lookup_specs :: Keyspace where
  "demo_lookup_specs =
     \<lparr>ks_Sharded = True,
      ks_Vindexes =
        [(''email_idx'',
          \<lparr>vx_Type = ''consistent_lookup_unique'',
           vx_Params = [(''table'', ''legacy.email_lookup''), (''from'', ''email''),
                        (''to'', ''keyspace_id'')],
           vx_Owner = ''customer''\<rparr>)],
      ks_Tables =
        [(''customer'',
          emptyTable\<lparr>tb_ColumnVindexes :=
            [\<lparr>cv_Column = ''email'', cv_Name = ''email_idx'', cv_Columns = []\<rparr>]\<rparr>)]\<rparr>"

definition demo_lookup_wr :: Wrangler where
  "demo_lookup_wr = demo_back_wr [] []"

definition demo_backfilled_wr :: "bool \<Rightarrow> Wrangler" where
  "demo_backfilled_wr continueAfterCopyWithOwner =
     snd (CreateLookupVindex demo_lookup_wr ''sales'' demo_lookup_specs ''zone1'' ''primary''
            continueAfterCopyWithOwner)"

text \<open>
  A materializer of a \<^verbatim>\<open>MoveTables\<close> workflow whose source and target both have
  the two shards of \<open>sales\<close>, the same with a second column vindex on the table, a
  table setting whose query already has a range predicate, a running stream of the
  workflow \<open>movecust\<close>, and a specification with two vindexes.
\<close>

definition demo_split_mz :: materializer where
  "demo_split_mz =
     \<lparr>mz_ms = (MoveTables_settings demo_lib demo_request [''customer''])
                \<lparr>ms_SourceKeyspace := ''sales''\<rparr>,
      mz_targetVSchema =
        \<lparr>kss_Sharded = True,
         kss_Tables = [(''customer'',
           \<lparr>vt_Type = [],
            vt_ColumnVindexes = [\<lparr>vcv_Columns = [''cid''], vcv_Name = ''hash''\<rparr>]\<rparr>)]\<rparr>,
      mz_sourceShards = demo_sales_shards,
      mz_targetShards = demo_sales_shards,
      mz_isPartial = False\<rparr>"

definition demo_indexed_mz :: materializer where
  "demo_indexed_mz =
     demo_split_mz\<lparr>mz_targetVSchema :=
       \<lparr>kss_Sharded = True,
        kss_Tables = [(''customer'',
          \<lparr>vt_Type = [],
           vt_ColumnVindexes = [\<lparr>vcv_Columns = [''cid''], vcv_Name = ''hash''\<rparr>,
                                \<lparr>vcv_Columns = [''email''], vcv_Name = ''email_idx''\<rparr>]\<rparr>)]\<rparr>\<rparr>"

definition demo_ranged :: TableMaterializeSettings where
  "demo_ranged =
     \<lparr>tms_TargetTable = ''customer'',
      tms_SourceExpression = demo_String (demo_selects ! 1),
      tms_CreateDdl = createDDLAsCopy\<rparr>"

definition demo_stream :: StreamRecord where
  "demo_stream =
     (generateInserts_row demo_split_mz (hd demo_sales_shards) [])
       \<lparr>sr_id := 1, sr_db_name := ''vt_sales'', sr_state := BlpRunning\<rparr>"

definition demo_two_vindexes :: Keyspace where
  "demo_two_vindexes =
     demo_lookup_specs\<lparr>ks_Vindexes :=
       ks_Vindexes demo_lookup_specs @
       [(''region_idx'', \<lparr>vx_Type = ''lookup'', vx_Params = [], vx_Owner = []\<rparr>)]\<rparr>"

definition demo_mz :: materializer where
  "demo_mz =
     (case buildMaterializer (demo_wr [] [])
             (MoveTables_settings demo_lib demo_request [''customer'']) of
        Inr mz \<Rightarrow> mz
      | Inl e \<Rightarrow> demo_split_mz)"

definition demo_busy_wr :: Wrangler where
  "demo_busy_wr =
     demo_lookup_wr\<lparr>wr_tablets :=
        (\<lambda>a. if a = ''zone1-100''
             then demo_tablet []
                    [demo_stream\<lparr>sr_workflow := ''email_lookup_vdx'', sr_db_name := ''vt_legacy''\<rparr>] []
             else wr_tablets demo_lookup_wr a)\<rparr>"

section \<open>Properties\<close>

subsection \<open>The migration identifier\<close>

lemma sort_strings_mset:
  fixes S P :: "string list"
  assumes "mset S = mset P"
  shows "sort S = sort P"
  using assms by (metis properties_for_sort sorted_sort mset_sort)

text \<open>
  Claim C4. The migration identifier does not depend on the order of the shard-stream
  identifiers: a list and a permutation of it (the same entries, each as often) give
  the same identifier. The identifiers of the streams of a workflow are a set, listed
  without repetition, and the migration identifier is a function of the keyspace and
  this set: two duplicate-free lists with the same set of entries give the same
  identifier.
\<close>

theorem getMigrationID_permutation:
  "(mset S = mset P \<longrightarrow> getMigrationID ks S = getMigrationID ks P) \<and>
   (distinct S \<and> distinct P \<and> set S = set P \<longrightarrow> getMigrationID ks S = getMigrationID ks P)"
proof -
  have perm: "getMigrationID ks S = getMigrationID ks P" if "mset S = mset P"
    using sort_strings_mset [OF that] by (simp add: getMigrationID_def)
  have "mset S = mset P" if "distinct S" "distinct P" "set S = set P"
    using that by (simp add: set_eq_iff_mset_eq_distinct)
  with perm show ?thesis by blast
qed

theorem getMigrationID_permutation_witness:
  "mset [''-80:1'', ''80-:2''] = mset [''80-:2'', ''-80:1''] \<and>
   distinct [''-80:1'', ''80-:2''] \<and> distinct [''80-:2'', ''-80:1''] \<and>
   set [''-80:1'', ''80-:2''] = set [''80-:2'', ''-80:1''] \<and>
   getMigrationID ''sales'' [''-80:1'', ''80-:2''] = getMigrationID ''sales'' [''80-:2'', ''-80:1'']"
  using getMigrationID_permutation [of "[''-80:1'', ''80-:2'']" "[''80-:2'', ''-80:1'']" "''sales''"]
  by auto

subsection \<open>The fan-out over the shards\<close>


subsection \<open>Insert generation\<close>

lemma generateInserts_loop_MoveTables:
  assumes "ms_MaterializationIntent (mz_ms mz) = MOVETABLES"
  shows "generateInserts_loop wr mz targetShard sourceShards =
     (if filter (\<lambda>s. KeyRangesIntersect (si_KeyRange s) (si_KeyRange targetShard)) sourceShards = []
      then Inr []
      else (case generateInserts_rules wr mz (ms_TableSettings (mz_ms mz)) of
              Inl e \<Rightarrow> Inl e
            | Inr rules \<Rightarrow>
                Inr (map (\<lambda>s. generateInserts_row mz s rules)
                       (filter (\<lambda>s. KeyRangesIntersect (si_KeyRange s) (si_KeyRange targetShard))
                          sourceShards))))"
  using assms by (induction sourceShards) (auto split: sum.splits)

text \<open>
  Claim C2. For a workflow with the MoveTables intent, the rows that
  \<^verbatim>\<open>generateInserts\<close> produces for a target shard are the rows of the source
  shards whose key range intersects the key range of the target shard, one for each, in
  the order of the source shards: a pair with disjoint key ranges gets no row.
\<close>

theorem generateInserts_only_intersecting:
  assumes "ms_MaterializationIntent (mz_ms mz) = MOVETABLES"
    and "generateInserts wr mz targetShard = Inr rows"
  shows "(\<exists>rules. rows = map (\<lambda>s. generateInserts_row mz s rules)
            (filter (\<lambda>s. KeyRangesIntersect (si_KeyRange s) (si_KeyRange targetShard))
               (mz_sourceShards mz))) \<and>
         map row_shard rows =
           map si_ShardName
             (filter (\<lambda>s. KeyRangesIntersect (si_KeyRange s) (si_KeyRange targetShard))
                (mz_sourceShards mz))"
proof -
  let ?f = "filter (\<lambda>s. KeyRangesIntersect (si_KeyRange s) (si_KeyRange targetShard)) (mz_sourceShards mz)"
  have r: "\<exists>rules. rows = map (\<lambda>s. generateInserts_row mz s rules) ?f"
    using assms(2) unfolding generateInserts_def generateInserts_loop_MoveTables [OF assms(1)]
    by (auto split: if_splits sum.splits)
  then have "map row_shard rows = map si_ShardName ?f"
    by (auto simp: row_shard_def generateInserts_row_def)
  with r show ?thesis by blast
qed

text \<open>
  The first shard of \<open>sales\<close> as the target: of the two source shards only
  \<open>-80\<close> gets a row.
\<close>

theorem generateInserts_only_intersecting_witness:
  "\<exists>rows. generateInserts (demo_wr [] []) demo_split_mz (hd demo_sales_shards) = Inr rows \<and>
          map si_ShardName (mz_sourceShards demo_split_mz) = [''-80'', ''80-''] \<and>
          map row_shard rows = [''-80'']"
proof -
  let ?g = "generateInserts (demo_wr [] []) demo_split_mz (hd demo_sales_shards)"
  have i: "ms_MaterializationIntent (mz_ms demo_split_mz) = MOVETABLES"
    by code_simp
  have "\<not> isl ?g"
    by code_simp
  then have g: "?g = Inr (projr ?g)"
    by simp
  have f: "map si_ShardName
             (filter (\<lambda>s. KeyRangesIntersect (si_KeyRange s) (si_KeyRange (hd demo_sales_shards)))
                (mz_sourceShards demo_split_mz)) = [''-80'']"
    by code_simp
  have s: "map si_ShardName (mz_sourceShards demo_split_mz) = [''-80'', ''80-'']"
    by code_simp
  from generateInserts_only_intersecting [OF i g]
  have "map row_shard (projr ?g) =
          map si_ShardName
            (filter (\<lambda>s. KeyRangesIntersect (si_KeyRange s) (si_KeyRange (hd demo_sales_shards)))
               (mz_sourceShards demo_split_mz))"
    by (rule conjunct2)
  then have h: "map row_shard (projr ?g) = [''-80'']"
    by (simp only: f)
  show ?thesis
  proof (intro exI conjI)
    show "?g = Inr (projr ?g)" by (rule g)
    show "map si_ShardName (mz_sourceShards demo_split_mz) = [''-80'', ''80-'']" by (rule s)
    show "map row_shard (projr ?g) = [''-80'']" by (rule h)
  qed
qed

lemma matchColInSelect_ColName:
  "matchColInSelect col exprs = Inr e \<Longrightarrow> \<exists>q n. e = ColName q n"
  by (induction col exprs rule: matchColInSelect.induct) (auto split: if_splits Expr.splits)

lemma mappedCols_ColName:
  "generateInserts_mappedCols cols sel = Inr es \<Longrightarrow> \<forall>e \<in> set es. \<exists>q n. e = ColName q n"
proof (induction cols arbitrary: es)
  case Nil
  then show ?case by simp
next
  case (Cons c cs)
  then show ?case by (auto split: sum.splits dest: matchColInSelect_ColName)
qed

lemma countRange_inKeyRange:
  assumes "\<forall>e \<in> set es. \<exists>q n. e = ColName q n"
  shows "countRange (generateInserts_inKeyRange ks cvName es) = 1"
proof -
  have "sum_list (map (countRangeSel \<circ> (\<lambda>mappedCol. AliasedExpr mappedCol [])) es) = 0"
    using assms by (induction es) auto
  then show ?thesis
    by (simp add: generateInserts_inKeyRange_def IdentifierCI_Equal_def)
qed

lemma countRangeWhere_setWhere:
  "countRangeWhere (generateInserts_setWhere p sel) = countRange p + countRangeWhere sel"
  by (simp add: countRangeWhere_def generateInserts_setWhere_def split: option.splits)

lemma FindBestColVindex_primary:
  assumes "FindBestColVindex table = Inr cv"
  shows "\<exists>others. vt_ColumnVindexes table = cv # others"
  using assms by (auto simp: FindBestColVindex_def split: list.splits)

lemma generateInserts_rules_each:
  assumes "generateInserts_rules wr mz settings = Inr rules"
  shows "list_all2 (\<lambda>ts rule. generateInserts_rule wr mz ts = Inr rule) settings rules"
  using assms
proof (induction settings arbitrary: rules)
  case Nil
  then show ?case by simp
next
  case (Cons ts rest)
  from Cons.prems obtain rule rules' where
    "generateInserts_rule wr mz ts = Inr rule"
    "generateInserts_rules wr mz rest = Inr rules'"
    "rules = rule # rules'"
    by (auto split: sum.splits)
  with Cons.IH show ?case by simp
qed

lemma generateInserts_loop_filter:
  assumes "generateInserts_loop wr mz targetShard sourceShards = Inr rows" and "row \<in> set rows"
  shows "\<exists>s rules. generateInserts_rules wr mz (ms_TableSettings (mz_ms mz)) = Inr rules \<and>
                   row = generateInserts_row mz s rules"
  using assms
proof (induction sourceShards arbitrary: rows)
  case Nil
  then show ?case by simp
next
  case (Cons s ss)
  show ?case
  proof (cases "ms_MaterializationIntent (mz_ms mz) = MOVETABLES \<and>
         \<not> KeyRangesIntersect (si_KeyRange s) (si_KeyRange targetShard)")
    case True
    with Cons show ?thesis by simp
  next
    case False
    with Cons.prems(1) obtain rules rows' where
      "generateInserts_rules wr mz (ms_TableSettings (mz_ms mz)) = Inr rules"
      "generateInserts_loop wr mz targetShard ss = Inr rows'"
      "rows = generateInserts_row mz s rules # rows'"
      by (auto split: sum.splits)
    with Cons.IH Cons.prems(2) show ?thesis by auto
  qed
qed

lemma generateInserts_filter_rules:
  assumes "generateInserts wr mz targetShard = Inr rows" and "row \<in> set rows"
  shows "\<exists>bls. sr_source row = Source bls \<and>
               list_all2 (\<lambda>ts rule. generateInserts_rule wr mz ts = Inr rule)
                 (ms_TableSettings (mz_ms mz)) (bls_Filter bls)"
proof -
  from generateInserts_loop_filter [OF assms [unfolded generateInserts_def]]
  obtain s rules where
    r: "generateInserts_rules wr mz (ms_TableSettings (mz_ms mz)) = Inr rules" and
    e: "row = generateInserts_row mz s rules"
    by blast
  from generateInserts_rules_each [OF r] show ?thesis
    unfolding e by (simp add: generateInserts_row_def)
qed

text \<open>
  Claim C3, as far as it holds. For a table setting with a non-empty source query, a
  sharded target keyspace and a target table that is not a reference table, the filter
  is the source query with one range predicate added: a call of \<^verbatim>\<open>in_keyrange\<close>
  on the columns of the table's primary column vindex (the first of its column
  vindexes), mapped to the select list, the qualified name of that vindex and the key
  range. It is joined by AND in front of the WHERE clause of the query, or becomes the
  WHERE clause when the query has none, so the filter has one range predicate more
  than the source query. Every row that \<^verbatim>\<open>generateInserts\<close> returns carries, for
  each table setting in turn, the rule of that setting.
\<close>

theorem generateInserts_rule_range_predicate:
  assumes sharded: "kss_Sharded (mz_targetVSchema mz)"
    and table: "map_of (kss_Tables (mz_targetVSchema mz)) (tms_TargetTable ts) = Some targetTable"
    and nonref: "vt_Type targetTable \<noteq> TypeReference"
    and query: "tms_SourceExpression ts \<noteq> []"
    and rule: "generateInserts_rule wr mz ts = Inr rule"
  shows "(\<exists>sel cv others mappedCols inKeyRange sel'.
           lib_Parse (wr_lib wr) (tms_SourceExpression ts) = Inr (SelectStmt sel) \<and>
           vt_ColumnVindexes targetTable = cv # others \<and>
           generateInserts_mappedCols (vcv_Columns cv) sel = Inr mappedCols \<and>
           inKeyRange = FuncExpr ''in_keyrange''
             (map (\<lambda>c. AliasedExpr c []) mappedCols @
              [AliasedExpr (StrLiteral (ms_TargetKeyspace (mz_ms mz) @ ''.'' @ vcv_Name cv)) [],
               AliasedExpr (StrLiteral ''{{.keyrange}}'') []]) \<and>
           sel' = sel\<lparr>sel_Where :=
                    Some (case sel_Where sel of None \<Rightarrow> inKeyRange | Some w \<Rightarrow> AndExpr inKeyRange w)\<rparr> \<and>
           rule_Match rule = tms_TargetTable ts \<and>
           rule_Filter rule = lib_String (wr_lib wr) sel' \<and>
           countRange inKeyRange = 1 \<and>
           countRangeWhere sel' = 1 + countRangeWhere sel) \<and>
         (\<forall>targetShard rows row.
            generateInserts wr mz targetShard = Inr rows \<and> row \<in> set rows \<longrightarrow>
            (\<exists>bls. sr_source row = Source bls \<and>
               list_all2 (\<lambda>ts rule. generateInserts_rule wr mz ts = Inr rule)
                 (ms_TableSettings (mz_ms mz)) (bls_Filter bls)))"
proof -
  from rule query obtain sel where
    p: "lib_Parse (wr_lib wr) (tms_SourceExpression ts) = Inr (SelectStmt sel)"
    and f: "generateInserts_filter wr mz ts sel = Inr (rule_Filter rule)"
    and m: "rule_Match rule = tms_TargetTable ts"
    by (auto simp: generateInserts_rule_def split: sum.splits Statement.splits)
  from f sharded table nonref obtain cv mappedCols where
    cv: "FindBestColVindex targetTable = Inr cv"
    and mc: "generateInserts_mappedCols (vcv_Columns cv) sel = Inr mappedCols"
    and flt: "rule_Filter rule = lib_String (wr_lib wr)
                 (generateInserts_setWhere
                    (generateInserts_inKeyRange (ms_TargetKeyspace (mz_ms mz)) (vcv_Name cv) mappedCols) sel)"
    by (auto simp: generateInserts_filter_def split: sum.splits)
  from FindBestColVindex_primary [OF cv] obtain others where
    pr: "vt_ColumnVindexes targetTable = cv # others" ..
  define p where "p = generateInserts_inKeyRange (ms_TargetKeyspace (mz_ms mz)) (vcv_Name cv) mappedCols"
  have sw: "generateInserts_setWhere p sel =
      sel\<lparr>sel_Where := Some (case sel_Where sel of None \<Rightarrow> p | Some w \<Rightarrow> AndExpr p w)\<rparr>"
    by (simp add: generateInserts_setWhere_def split: option.splits)
  have one: "countRange p = 1"
    unfolding p_def by (rule countRange_inKeyRange [OF mappedCols_ColName [OF mc]])
  have c: "countRangeWhere (generateInserts_setWhere p sel) = 1 + countRangeWhere sel"
    using one by (simp add: countRangeWhere_setWhere)
  have pe: "p = FuncExpr ''in_keyrange''
             (map (\<lambda>c. AliasedExpr c []) mappedCols @
              [AliasedExpr (StrLiteral (ms_TargetKeyspace (mz_ms mz) @ ''.'' @ vcv_Name cv)) [],
               AliasedExpr (StrLiteral ''{{.keyrange}}'') []])"
    by (simp add: p_def generateInserts_inKeyRange_def)
  have first: "\<exists>sel cv others mappedCols inKeyRange sel'.
           lib_Parse (wr_lib wr) (tms_SourceExpression ts) = Inr (SelectStmt sel) \<and>
           vt_ColumnVindexes targetTable = cv # others \<and>
           generateInserts_mappedCols (vcv_Columns cv) sel = Inr mappedCols \<and>
           inKeyRange = FuncExpr ''in_keyrange''
             (map (\<lambda>c. AliasedExpr c []) mappedCols @
              [AliasedExpr (StrLiteral (ms_TargetKeyspace (mz_ms mz) @ ''.'' @ vcv_Name cv)) [],
               AliasedExpr (StrLiteral ''{{.keyrange}}'') []]) \<and>
           sel' = sel\<lparr>sel_Where :=
                    Some (case sel_Where sel of None \<Rightarrow> inKeyRange | Some w \<Rightarrow> AndExpr inKeyRange w)\<rparr> \<and>
           rule_Match rule = tms_TargetTable ts \<and>
           rule_Filter rule = lib_String (wr_lib wr) sel' \<and>
           countRange inKeyRange = 1 \<and>
           countRangeWhere sel' = 1 + countRangeWhere sel"
    using p pr mc m flt [folded p_def] c one pe unfolding sw by blast
  have second: "\<exists>bls. sr_source row = Source bls \<and>
               list_all2 (\<lambda>ts rule. generateInserts_rule wr mz ts = Inr rule)
                 (ms_TableSettings (mz_ms mz)) (bls_Filter bls)"
    if "generateInserts wr mz targetShard = Inr rows \<and> row \<in> set rows"
    for targetShard rows row
    using that generateInserts_filter_rules [of wr mz targetShard rows row] by simp
  from first second show ?thesis
    by (intro conjI allI impI)
qed

text \<open>
  A table with the column vindexes \<open>hash\<close> on \<open>cid\<close> and \<open>email_idx\<close> on
  \<open>email\<close>: the query \<open>select * from customer\<close> gets the range predicate on
  \<open>cid\<close> and \<open>sales.hash\<close> as its WHERE clause, and the row for the first
  target shard carries this rule.
\<close>

theorem generateInserts_rule_range_predicate_witness:
  "map vcv_Name (vt_ColumnVindexes (snd (hd (kss_Tables (mz_targetVSchema demo_indexed_mz))))) =
     [''hash'', ''email_idx''] \<and>
   (\<exists>rule sel' bls.
     ms_TableSettings (mz_ms demo_indexed_mz) =
       [\<lparr>tms_TargetTable = ''customer'', tms_SourceExpression = ''select * from customer'',
        tms_CreateDdl = createDDLAsCopy\<rparr>] \<and>
     generateInserts_rule (demo_wr [] []) demo_indexed_mz
       \<lparr>tms_TargetTable = ''customer'', tms_SourceExpression = ''select * from customer'',
        tms_CreateDdl = createDDLAsCopy\<rparr> = Inr rule \<and>
     rule_Filter rule = demo_String sel' \<and>
     sel_Where sel' = Some (FuncExpr ''in_keyrange''
        [AliasedExpr (ColName [] ''cid'') [], AliasedExpr (StrLiteral ''sales.hash'') [],
         AliasedExpr (StrLiteral ''{{.keyrange}}'') []]) \<and>
     countRangeWhere sel' = 1 \<and>
     sr_source (hd (projr (generateInserts (demo_wr [] []) demo_indexed_mz (hd demo_sales_shards))))
       = Source bls \<and>
     bls_Filter bls = [rule])"
proof -
  let ?w = "demo_wr [] []"
  let ?ts = "\<lparr>tms_TargetTable = ''customer'', tms_SourceExpression = ''select * from customer'',
        tms_CreateDdl = createDDLAsCopy\<rparr>"
  let ?t = "\<lparr>vt_Type = [],
            vt_ColumnVindexes = [\<lparr>vcv_Columns = [''cid''], vcv_Name = ''hash''\<rparr>,
                                 \<lparr>vcv_Columns = [''email''], vcv_Name = ''email_idx''\<rparr>]\<rparr>"
  let ?r = "generateInserts_rule ?w demo_indexed_mz ?ts"
  let ?g = "generateInserts ?w demo_indexed_mz (hd demo_sales_shards)"
  have a: "kss_Sharded (mz_targetVSchema demo_indexed_mz)"
    by code_simp
  have b: "map_of (kss_Tables (mz_targetVSchema demo_indexed_mz)) (tms_TargetTable ?ts) = Some ?t"
    by code_simp
  have c: "vt_Type ?t \<noteq> TypeReference"
    by code_simp
  have d: "tms_SourceExpression ?ts \<noteq> []"
    by code_simp
  have "\<not> isl ?r"
    by code_simp
  then have e: "?r = Inr (projr ?r)"
    by simp
  have p: "lib_Parse (wr_lib ?w) (tms_SourceExpression ?ts) = Inr (SelectStmt (hd demo_selects))"
    by code_simp
  have m: "generateInserts_mappedCols [''cid''] (hd demo_selects) = Inr [ColName [] ''cid'']"
    by code_simp
  have k: "ms_TargetKeyspace (mz_ms demo_indexed_mz) = ''sales''"
    by code_simp
  have n: "sel_Where (hd demo_selects) = None" "countRangeWhere (hd demo_selects) = 0"
    by code_simp+
  have l: "lib_String (wr_lib ?w) = demo_String"
    by (simp add: demo_wr_def demo_lib_def)
  have names: "map vcv_Name (vt_ColumnVindexes (snd (hd (kss_Tables (mz_targetVSchema demo_indexed_mz)))))
                 = [''hash'', ''email_idx'']"
    by code_simp
  have settings: "ms_TableSettings (mz_ms demo_indexed_mz) = [?ts]"
    by code_simp
  have "\<not> isl ?g"
    by code_simp
  then have g: "?g = Inr (projr ?g)"
    by simp
  have "projr ?g \<noteq> []"
    by code_simp
  then have h: "hd (projr ?g) \<in> set (projr ?g)"
    by (rule hd_in_set)
  note t = generateInserts_rule_range_predicate [OF a b c d e]
  from t [THEN conjunct1]
  obtain sel cv others mappedCols inKeyRange sel' where
    o1: "lib_Parse (wr_lib ?w) (tms_SourceExpression ?ts) = Inr (SelectStmt sel)" and
    o2: "vt_ColumnVindexes ?t = cv # others" and
    o3: "generateInserts_mappedCols (vcv_Columns cv) sel = Inr mappedCols" and
    o4: "inKeyRange = FuncExpr ''in_keyrange''
             (map (\<lambda>c. AliasedExpr c []) mappedCols @
              [AliasedExpr (StrLiteral (ms_TargetKeyspace (mz_ms demo_indexed_mz) @ ''.'' @ vcv_Name cv)) [],
               AliasedExpr (StrLiteral ''{{.keyrange}}'') []])" and
    o5: "sel' = sel\<lparr>sel_Where :=
                    Some (case sel_Where sel of None \<Rightarrow> inKeyRange | Some w \<Rightarrow> AndExpr inKeyRange w)\<rparr>" and
    o6: "rule_Filter (projr ?r) = lib_String (wr_lib ?w) sel'" and
    o7: "countRangeWhere sel' = 1 + countRangeWhere sel"
    by blast
  from t [THEN conjunct2, THEN spec, THEN spec, THEN spec, THEN mp, OF conjI [OF g h]]
  obtain bls where
    q1: "sr_source (hd (projr ?g)) = Source bls" and
    q2: "list_all2 (\<lambda>ts rule. generateInserts_rule ?w demo_indexed_mz ts = Inr rule)
           (ms_TableSettings (mz_ms demo_indexed_mz)) (bls_Filter bls)"
    by blast
  from q2 obtain rule' where "bls_Filter bls = [rule']" "?r = Inr rule'"
    unfolding settings by (auto simp: list_all2_Cons1)
  with e have q3: "bls_Filter bls = [projr ?r]"
    by simp
  from o1 p have sel: "sel = hd demo_selects"
    by simp
  from o2 have cv: "cv = \<lparr>vcv_Columns = [''cid''], vcv_Name = ''hash''\<rparr>"
    by simp
  from o3 have "generateInserts_mappedCols [''cid''] (hd demo_selects) = Inr mappedCols"
    unfolding sel cv by (simp only: vindexes_ColumnVindex.simps)
  with m have mc: "mappedCols = [ColName [] ''cid'']"
    by (simp only: sum.inject)
  have w: "sel_Where sel' = Some (FuncExpr ''in_keyrange''
        [AliasedExpr (ColName [] ''cid'') [], AliasedExpr (StrLiteral ''sales.hash'') [],
         AliasedExpr (StrLiteral ''{{.keyrange}}'') []])"
    unfolding o5 o4 sel by (simp add: n k cv mc)
  have x: "countRangeWhere sel' = 1"
    unfolding o7 sel by (simp only: n)
  have y: "rule_Filter (projr ?r) = demo_String sel'"
    using o6 by (simp only: l)
  have "\<exists>rule sel' bls.
     ms_TableSettings (mz_ms demo_indexed_mz) = [?ts] \<and>
     ?r = Inr rule \<and>
     rule_Filter rule = demo_String sel' \<and>
     sel_Where sel' = Some (FuncExpr ''in_keyrange''
        [AliasedExpr (ColName [] ''cid'') [], AliasedExpr (StrLiteral ''sales.hash'') [],
         AliasedExpr (StrLiteral ''{{.keyrange}}'') []]) \<and>
     countRangeWhere sel' = 1 \<and>
     sr_source (hd (projr ?g)) = Source bls \<and>
     bls_Filter bls = [rule]"
    by (intro exI conjI) (rule settings, rule e, rule y, rule w, rule x, rule q1, rule q3)
  with names show ?thesis
    by (rule conjI)
qed

text \<open>
  Claim C3 as stated says that the filter has exactly one range predicate. A source
  query that already has one keeps it, and the filter has two.
\<close>

theorem generateInserts_rule_two_predicates:
  "kss_Sharded (mz_targetVSchema demo_split_mz) \<and>
   map (vt_Type \<circ> snd) (kss_Tables (mz_targetVSchema demo_split_mz)) = [[]] \<and>
   tms_SourceExpression demo_ranged = ''select * from customer where in_keyrange(cid, 'sales.hash', '-80')'' \<and>
   generateInserts_rule (demo_wr [] []) demo_split_mz demo_ranged =
     Inr \<lparr>rule_Match = ''customer'',
          rule_Filter = demo_String
            \<lparr>sel_SelectExprs = [StarExpr], sel_From = ''customer'',
             sel_Where = Some (AndExpr
               (FuncExpr ''in_keyrange''
                  [AliasedExpr (ColName [] ''cid'') [], AliasedExpr (StrLiteral ''sales.hash'') [],
                   AliasedExpr (StrLiteral ''{{.keyrange}}'') []])
               (FuncExpr ''in_keyrange''
                  [AliasedExpr (ColName [] ''cid'') [], AliasedExpr (StrLiteral ''sales.hash'') [],
                   AliasedExpr (StrLiteral ''-80'') []])),
             sel_Rest = []\<rparr>\<rparr> \<and>
   countRangeWhere
     \<lparr>sel_SelectExprs = [StarExpr], sel_From = ''customer'',
      sel_Where = Some (AndExpr
        (FuncExpr ''in_keyrange''
           [AliasedExpr (ColName [] ''cid'') [], AliasedExpr (StrLiteral ''sales.hash'') [],
            AliasedExpr (StrLiteral ''{{.keyrange}}'') []])
        (FuncExpr ''in_keyrange''
           [AliasedExpr (ColName [] ''cid'') [], AliasedExpr (StrLiteral ''sales.hash'') [],
            AliasedExpr (StrLiteral ''-80'') []])),
      sel_Rest = []\<rparr> = 2"
  by code_simp

subsection \<open>Schema deployment\<close>










subsection \<open>Externalizing a lookup vindex\<close>

lemma VReplicationExec_fst:
  "fst (VReplicationExec wr tablet q) =
     (case tab_rpcError (wr_tablets wr (ti_Alias tablet)) of
        Some m \<Rightarrow> Inl (RPCError m)
      | None \<Rightarrow> Inr (vreplication_rows q (wr_tablets wr (ti_Alias tablet))))"
  by (simp add: VReplicationExec_def Let_def split: option.splits)

lemma VReplicationExec_snd:
  "snd (VReplicationExec wr tablet q) =
     (case tab_rpcError (wr_tablets wr (ti_Alias tablet)) of
        Some m \<Rightarrow> wr
      | None \<Rightarrow> wr\<lparr>wr_tablets := (wr_tablets wr)
          (ti_Alias tablet := vreplication_exec q (wr_tablets wr (ti_Alias tablet)))\<rparr>)"
  by (simp add: VReplicationExec_def Let_def split: option.splits)

lemma forAllShards_unit:
  fixes f :: "unit \<Rightarrow> ShardInfo \<Rightarrow> error option \<times> unit"
  shows "fst (forAllShards f xs ()) = List.map_filter (\<lambda>x. fst (f () x)) xs"
proof (induction xs)
  case Nil
  then show ?case by (simp add: List.map_filter_simps)
next
  case (Cons x xs)
  obtain r where f: "f () x = (r, ())" by (cases "f () x") auto
  obtain es where g: "forAllShards f xs () = (es, ())" by (cases "forAllShards f xs ()") auto
  show ?case using Cons f g by (cases r) (auto simp: List.map_filter_simps)
qed

lemma forAllShards_unit_error:
  fixes f :: "unit \<Rightarrow> ShardInfo \<Rightarrow> error option \<times> unit"
  assumes "x \<in> set xs" and "fst (f () x) = Some e"
  shows "AggrError (fst (forAllShards f xs ())) \<noteq> None"
proof -
  have "e \<in> set (List.map_filter (\<lambda>x. fst (f () x)) xs)"
    using assms by (force simp: List.map_filter_def)
  then show ?thesis
    unfolding forAllShards_unit AggrError_def by auto
qed

lemma forAllShards_unit_ok:
  fixes f :: "unit \<Rightarrow> ShardInfo \<Rightarrow> error option \<times> unit"
  assumes "\<forall>x \<in> set xs. fst (f () x) = None"
  shows "AggrError (fst (forAllShards f xs ())) = None"
proof -
  have "List.map_filter (\<lambda>x. fst (f () x)) xs = []"
    using assms by (induction xs) (auto simp: List.map_filter_simps)
  then show ?thesis
    unfolding forAllShards_unit AggrError_def by auto
qed

lemma ExternalizeVindex_row_expected:
  "ExternalizeVindex_row sourceVindex targetShard row = None \<longleftrightarrow> expectedState sourceVindex row"
  by (simp add: ExternalizeVindex_row_def expectedState_def BlpRunning_def BlpStopped_def
        split: source_column.splits)

lemma ExternalizeVindex_rows_None:
  "ExternalizeVindex_rows sourceVindex targetShard rows = None \<longleftrightarrow>
     (\<forall>row \<in> set rows. expectedState sourceVindex row)"
proof (induction rows)
  case Nil
  then show ?case by simp
next
  case (Cons r rs)
  show ?case
  proof (cases "ExternalizeVindex_row sourceVindex targetShard r")
    case None
    with Cons ExternalizeVindex_row_expected [of sourceVindex targetShard r] show ?thesis by simp
  next
    case (Some e)
    with ExternalizeVindex_row_expected [of sourceVindex targetShard r] show ?thesis by simp
  qed
qed

lemma ExternalizeVindex_check_error:
  assumes "GetTablet (wr_ts wr) (si_PrimaryAlias shard) = Inr primary"
    and "row \<in> set (tab_vreplication (wr_tablets wr (ti_Alias primary)))"
    and "ofWorkflow (ti_DbName primary) workflow row"
    and "\<not> expectedState sourceVindex row"
  shows "\<exists>e. fst (ExternalizeVindex_check wr sourceVindex workflow () shard) = Some e"
proof (cases "tab_rpcError (wr_tablets wr (ti_Alias primary))")
  case (Some m)
  then show ?thesis
    using assms(1) by (simp add: ExternalizeVindex_check_def VReplicationExec_fst)
next
  case None
  let ?rows = "filter (ofWorkflow (ti_DbName primary) workflow)
                 (tab_vreplication (wr_tablets wr (ti_Alias primary)))"
  have "row \<in> set ?rows" using assms by simp
  then have "ExternalizeVindex_rows sourceVindex shard ?rows \<noteq> None"
    using assms(4) ExternalizeVindex_rows_None by blast
  then show ?thesis
    using assms(1) None
    by (auto simp: ExternalizeVindex_check_def VReplicationExec_fst vreplication_rows_def)
qed

lemma ExternalizeVindex_delete_all:
  assumes "forAllShards (ExternalizeVindex_delete workflow) shards wr = ([], wr1)"
  shows "wr1 = wr\<lparr>wr_tablets := (\<lambda>a.
            if Some a \<in> si_PrimaryAlias ` set shards
            then deleteWorkflow (wr_ts wr) workflow a (wr_tablets wr a)
            else wr_tablets wr a)\<rparr>"
  using assms
proof (induction shards arbitrary: wr)
  case Nil
  then show ?case by simp
next
  case (Cons x xs)
  from Cons.prems obtain w where
    step: "ExternalizeVindex_delete workflow wr x = (None, w)"
    and rest: "forAllShards (ExternalizeVindex_delete workflow) xs w = ([], wr1)"
    by (auto split: prod.splits option.splits)
  from step obtain a db where
    a: "si_PrimaryAlias x = Some a" and db: "cl_Tablets (wr_ts wr) a = Some db"
    and w: "w = wr\<lparr>wr_tablets := (wr_tablets wr)
               (a := vreplication_exec (DeleteStreams db workflow) (wr_tablets wr a))\<rparr>"
    by (auto simp: ExternalizeVindex_delete_def GetTablet_def VReplicationExec_def Let_def
        split: option.splits sum.splits prod.splits)
  have del: "vreplication_exec (DeleteStreams db workflow) st = deleteWorkflow (wr_ts wr) workflow a st" for st
    using db by (simp add: vreplication_exec_def deleteWorkflow_def)
  have idem: "deleteWorkflow (wr_ts wr) workflow b (deleteWorkflow (wr_ts wr) workflow b st) =
              deleteWorkflow (wr_ts wr) workflow b st" for b st
    by (simp add: deleteWorkflow_def split: option.splits)
  have ts: "wr_ts w = wr_ts wr" using w by simp
  show ?case
    unfolding Cons.IH [OF rest] ts
    using a by (intro Wrangler.equality) (auto simp: w del idem fun_eq_iff)
qed

lemma ExternalizeVindex_delete_ts:
  "wr_ts (snd (ExternalizeVindex_delete workflow wr shard)) = wr_ts wr"
  by (auto simp: ExternalizeVindex_delete_def VReplicationExec_def Let_def
        split: sum.splits option.splits prod.splits)

lemma ExternalizeVindex_delete_primaries:
  assumes "forAllShards (ExternalizeVindex_delete workflow) shards wr = ([], wr1)"
    and "shard \<in> set shards"
  shows "\<exists>primary. GetTablet (wr_ts wr) (si_PrimaryAlias shard) = Inr primary"
  using assms
proof (induction shards arbitrary: wr)
  case Nil
  then show ?case by simp
next
  case (Cons x xs)
  from Cons.prems(1) obtain w where
    step: "ExternalizeVindex_delete workflow wr x = (None, w)"
    and rest: "forAllShards (ExternalizeVindex_delete workflow) xs w = ([], wr1)"
    by (auto split: prod.splits option.splits)
  have ts: "wr_ts w = wr_ts wr"
    using ExternalizeVindex_delete_ts [of workflow wr x] step by simp
  show ?case
  proof (cases "shard = x")
    case True
    with step show ?thesis
      by (auto simp: ExternalizeVindex_delete_def split: sum.splits)
  next
    case False
    with Cons.prems(2) have "shard \<in> set xs" by simp
    from Cons.IH [OF rest this] ts show ?thesis by simp
  qed
qed

lemma ExternalizeVindex_unfold:
  assumes split: "strings_Split qualifiedVindexName CHR ''.'' = [sourceKeyspace, vindexName]"
    and vs: "GetVSchema wr sourceKeyspace = Inr sourceVSchema"
    and vx: "map_of (ks_Vindexes sourceVSchema) vindexName = Some sourceVindex"
    and pt: "lib_ParseTable (wr_lib wr) (param (vx_Params sourceVindex) ''table'') =
               Inr (targetKeyspace, targetTableName)"
    and ks: "targetKeyspace \<noteq> []"
    and shards: "GetServingShards (wr_ts wr) targetKeyspace = Inr targetShards"
  shows "ExternalizeVindex wr qualifiedVindexName =
     (case AggrError (fst (forAllShards
              (ExternalizeVindex_check wr sourceVindex (targetTableName @ ''_vdx''))
              targetShards ())) of
        Some e \<Rightarrow> (Some e, wr)
      | None \<Rightarrow>
          ExternalizeVindex_finish wr sourceKeyspace vindexName sourceVSchema sourceVindex
            (targetTableName @ ''_vdx'') targetShards)"
  unfolding ExternalizeVindex_def split
  by (simp add: vs vx pt ks shards Let_def)

lemma map_of_map_entry:
  "map_of (AList.map_entry k f xs) k = map_option f (map_of xs k)"
  by (induction xs) auto

text \<open>
  Claim C6. Let the qualified name resolve to a vindex of the source VSchema whose
  backing table is \<open>targetKeyspace.targetTableName\<close>. If a stream of the workflow
  \<open>targetTableName_vdx\<close> on the primary of some target shard is not in its
  expected state, \<^verbatim>\<open>ExternalizeVindex\<close> fails and changes nothing. If it
  succeeds, then the streams of that workflow are gone from the primary of every target
  shard when the vindex has an owner, no tablet is changed when it has none, no other
  tablet is changed in either case, and the source VSchema is saved with the vindex
  without its \<open>write_only\<close> parameter.
\<close>

theorem ExternalizeVindex_streams:
  assumes split: "strings_Split qualifiedVindexName CHR ''.'' = [sourceKeyspace, vindexName]"
    and vs: "GetVSchema wr sourceKeyspace = Inr sourceVSchema"
    and vx: "map_of (ks_Vindexes sourceVSchema) vindexName = Some sourceVindex"
    and pt: "lib_ParseTable (wr_lib wr) (param (vx_Params sourceVindex) ''table'') =
               Inr (targetKeyspace, targetTableName)"
    and ks: "targetKeyspace \<noteq> []"
    and shards: "GetServingShards (wr_ts wr) targetKeyspace = Inr targetShards"
  shows "((\<exists>shard \<in> set targetShards. \<exists>primary.
             GetTablet (wr_ts wr) (si_PrimaryAlias shard) = Inr primary \<and>
             (\<exists>row \<in> set (tab_vreplication (wr_tablets wr (ti_Alias primary))).
                ofWorkflow (ti_DbName primary) (targetTableName @ ''_vdx'') row \<and>
                \<not> expectedState sourceVindex row))
          \<longrightarrow> (\<exists>e. ExternalizeVindex wr qualifiedVindexName = (Some e, wr))) \<and>
         (\<forall>wr'. ExternalizeVindex wr qualifiedVindexName = (None, wr') \<longrightarrow>
            (vx_Owner sourceVindex \<noteq> [] \<longrightarrow>
               (\<forall>shard \<in> set targetShards. \<exists>primary.
                  GetTablet (wr_ts wr) (si_PrimaryAlias shard) = Inr primary \<and>
                  tab_vreplication (wr_tablets wr' (ti_Alias primary)) =
                    filter (\<lambda>r. \<not> ofWorkflow (ti_DbName primary) (targetTableName @ ''_vdx'') r)
                      (tab_vreplication (wr_tablets wr (ti_Alias primary))))) \<and>
            (vx_Owner sourceVindex = [] \<longrightarrow> wr_tablets wr' = wr_tablets wr) \<and>
            (\<forall>a. Some a \<notin> si_PrimaryAlias ` set targetShards \<longrightarrow> wr_tablets wr' a = wr_tablets wr a) \<and>
            (\<exists>sv. wr_vschemas wr' sourceKeyspace = Some sv \<and>
               map_of (ks_Vindexes sv) vindexName =
                 Some (sourceVindex\<lparr>vx_Params := AList.delete ''write_only'' (vx_Params sourceVindex)\<rparr>)))"
proof -
  let ?wf = "targetTableName @ ''_vdx''"
  let ?sv = "sourceVSchema\<lparr>ks_Vindexes :=
                AList.map_entry vindexName
                  (\<lambda>v. v\<lparr>vx_Params := AList.delete ''write_only'' (vx_Params v)\<rparr>)
                  (ks_Vindexes sourceVSchema)\<rparr>"
  note u = ExternalizeVindex_unfold [OF split vs vx pt ks shards]
  have A: "\<exists>e. ExternalizeVindex wr qualifiedVindexName = (Some e, wr)"
    if "\<exists>shard \<in> set targetShards. \<exists>primary.
             GetTablet (wr_ts wr) (si_PrimaryAlias shard) = Inr primary \<and>
             (\<exists>row \<in> set (tab_vreplication (wr_tablets wr (ti_Alias primary))).
                ofWorkflow (ti_DbName primary) ?wf row \<and> \<not> expectedState sourceVindex row)"
  proof -
    from that obtain shard primary row where
      m: "shard \<in> set targetShards"
      and g: "GetTablet (wr_ts wr) (si_PrimaryAlias shard) = Inr primary"
      and r: "row \<in> set (tab_vreplication (wr_tablets wr (ti_Alias primary)))"
        "ofWorkflow (ti_DbName primary) ?wf row" "\<not> expectedState sourceVindex row"
      by blast
    from ExternalizeVindex_check_error [OF g r] obtain e where
      "fst (ExternalizeVindex_check wr sourceVindex ?wf () shard) = Some e" by blast
    from forAllShards_unit_error
           [where f = "ExternalizeVindex_check wr sourceVindex ?wf", OF m this]
    show ?thesis
      unfolding u by (auto split: option.splits)
  qed
  have B: "(vx_Owner sourceVindex \<noteq> [] \<longrightarrow>
               (\<forall>shard \<in> set targetShards. \<exists>primary.
                  GetTablet (wr_ts wr) (si_PrimaryAlias shard) = Inr primary \<and>
                  tab_vreplication (wr_tablets wr' (ti_Alias primary)) =
                    filter (\<lambda>r. \<not> ofWorkflow (ti_DbName primary) ?wf r)
                      (tab_vreplication (wr_tablets wr (ti_Alias primary))))) \<and>
            (vx_Owner sourceVindex = [] \<longrightarrow> wr_tablets wr' = wr_tablets wr) \<and>
            (\<forall>a. Some a \<notin> si_PrimaryAlias ` set targetShards \<longrightarrow> wr_tablets wr' a = wr_tablets wr a) \<and>
            (\<exists>sv. wr_vschemas wr' sourceKeyspace = Some sv \<and>
               map_of (ks_Vindexes sv) vindexName =
                 Some (sourceVindex\<lparr>vx_Params := AList.delete ''write_only'' (vx_Params sourceVindex)\<rparr>))"
    if ok: "ExternalizeVindex wr qualifiedVindexName = (None, wr')" for wr'
  proof -
    from ok have fin: "ExternalizeVindex_finish wr sourceKeyspace vindexName sourceVSchema sourceVindex
              ?wf targetShards = (None, wr')"
      unfolding u by (auto split: option.splits)
    from fin obtain wr1 where
      del: "(if vx_Owner sourceVindex \<noteq> []
             then (case forAllShards (ExternalizeVindex_delete ?wf) targetShards wr of
                     (es, wr1) \<Rightarrow> (AggrError es, wr1))
             else (None, wr)) = (None, wr1)"
      and save: "SaveVSchema wr1 sourceKeyspace ?sv = (None, wr')"
      unfolding ExternalizeVindex_finish_def
      by (auto split: prod.splits option.splits if_splits)
    from save have wr': "wr' = wr1\<lparr>wr_vschemas := (wr_vschemas wr1)(sourceKeyspace \<mapsto> ?sv)\<rparr>"
      by (auto simp: SaveVSchema_def split: option.splits)
    have b4: "\<exists>sv. wr_vschemas wr' sourceKeyspace = Some sv \<and>
                 map_of (ks_Vindexes sv) vindexName =
                   Some (sourceVindex\<lparr>vx_Params := AList.delete ''write_only'' (vx_Params sourceVindex)\<rparr>)"
      unfolding wr' by (simp add: map_of_map_entry vx)
    have b2: "wr_tablets wr' = wr_tablets wr" if "vx_Owner sourceVindex = []"
      using that del wr' by auto
    have all: "forAllShards (ExternalizeVindex_delete ?wf) targetShards wr = ([], wr1)"
      if "vx_Owner sourceVindex \<noteq> []"
      using del that by (auto simp: AggrError_def split: prod.splits if_splits)
    have w1: "wr1 = wr\<lparr>wr_tablets := (\<lambda>a.
              if Some a \<in> si_PrimaryAlias ` set targetShards
              then deleteWorkflow (wr_ts wr) ?wf a (wr_tablets wr a)
              else wr_tablets wr a)\<rparr>" if "vx_Owner sourceVindex \<noteq> []"
      using all [OF that] by (rule ExternalizeVindex_delete_all)
    have b3: "wr_tablets wr' a = wr_tablets wr a"
      if "Some a \<notin> si_PrimaryAlias ` set targetShards" for a
      using that del w1 wr' by (cases "vx_Owner sourceVindex = []") auto
    have b1: "\<exists>primary.
                  GetTablet (wr_ts wr) (si_PrimaryAlias shard) = Inr primary \<and>
                  tab_vreplication (wr_tablets wr' (ti_Alias primary)) =
                    filter (\<lambda>r. \<not> ofWorkflow (ti_DbName primary) ?wf r)
                      (tab_vreplication (wr_tablets wr (ti_Alias primary)))"
      if own: "vx_Owner sourceVindex \<noteq> []" and m: "shard \<in> set targetShards" for shard
    proof -
      from ExternalizeVindex_delete_primaries [OF all [OF own] m]
      obtain primary where g: "GetTablet (wr_ts wr) (si_PrimaryAlias shard) = Inr primary" by blast
      then obtain a db where a: "si_PrimaryAlias shard = Some a" "cl_Tablets (wr_ts wr) a = Some db"
        "primary = \<lparr>ti_Alias = a, ti_DbName = db\<rparr>"
        by (auto simp: GetTablet_def split: option.splits)
      have "tab_vreplication (wr_tablets wr' (ti_Alias primary)) =
                      filter (\<lambda>r. \<not> ofWorkflow (ti_DbName primary) ?wf r)
                        (tab_vreplication (wr_tablets wr (ti_Alias primary)))"
        unfolding wr' w1 [OF own] using a m
        by (force simp: deleteWorkflow_def)
      with g show ?thesis by blast
    qed
    from b1 b2 b3 b4 show ?thesis by blast
  qed
  from A B show ?thesis by blast
qed

text \<open>
  After \<^verbatim>\<open>CreateLookupVindex\<close> with streams that continue after the copy, the
  vindex is externalized, its two streams are deleted and \<open>write_only\<close> is
  removed. With streams that stop after the copy and are still running, the call fails
  and changes nothing.
\<close>

theorem ExternalizeVindex_streams_witness:
  "map sr_workflow (tab_vreplication (wr_tablets (demo_backfilled_wr True) ''zone1-100'')) =
     [''email_lookup_vdx'', ''email_lookup_vdx''] \<and>
   fst (ExternalizeVindex (demo_backfilled_wr True) ''sales.email_idx'') = None \<and>
   tab_vreplication
     (wr_tablets (snd (ExternalizeVindex (demo_backfilled_wr True) ''sales.email_idx'')) ''zone1-100'')
     = [] \<and>
   (\<exists>sv. wr_vschemas (snd (ExternalizeVindex (demo_backfilled_wr True) ''sales.email_idx'')) ''sales''
            = Some sv \<and>
         map_of (ks_Vindexes sv) ''email_idx'' =
           Some \<lparr>vx_Type = ''consistent_lookup_unique'',
                 vx_Params = [(''table'', ''legacy.email_lookup''), (''from'', ''email''),
                              (''to'', ''keyspace_id'')],
                 vx_Owner = ''customer''\<rparr>) \<and>
   (\<exists>e. ExternalizeVindex (demo_backfilled_wr False) ''sales.email_idx'' =
          (Some e, demo_backfilled_wr False))"
proof -
  let ?w = "demo_backfilled_wr True"
  let ?v = "demo_backfilled_wr False"
  let ?q = "''sales.email_idx''"
  let ?x = "\<lparr>vx_Type = ''consistent_lookup_unique'',
             vx_Params = [(''table'', ''legacy.email_lookup''), (''from'', ''email''),
                          (''to'', ''keyspace_id''), (''write_only'', ''true'')],
             vx_Owner = ''customer''\<rparr>"
  let ?shard = "demo_shard ''legacy'' ''0'' None ''zone1-100''"
  let ?t = "\<lparr>ti_Alias = ''zone1-100'', ti_DbName = ''vt_legacy''\<rparr>"
  have split: "strings_Split ?q CHR ''.'' = [''sales'', ''email_idx'']"
    by code_simp
  have ks: "''legacy'' \<noteq> []"
    by simp
  have o: "vx_Owner ?x \<noteq> []"
    by simp
  have pw: "AList.delete ''write_only'' (vx_Params ?x) =
              [(''table'', ''legacy.email_lookup''), (''from'', ''email''), (''to'', ''keyspace_id'')]"
    by code_simp
  \<comment> \<open>the streams continue after the copy\<close>
  have "\<not> isl (GetVSchema ?w ''sales'')"
    by code_simp
  then have vs: "GetVSchema ?w ''sales'' = Inr (projr (GetVSchema ?w ''sales''))"
    by simp
  have vx: "map_of (ks_Vindexes (projr (GetVSchema ?w ''sales''))) ''email_idx'' = Some ?x"
    by code_simp
  have pt: "lib_ParseTable (wr_lib ?w) (param (vx_Params ?x) ''table'') = Inr (''legacy'', ''email_lookup'')"
    by code_simp
  have shards: "GetServingShards (wr_ts ?w) ''legacy'' = Inr [?shard]"
    by code_simp
  have gt: "GetTablet (wr_ts ?w) (si_PrimaryAlias ?shard) = Inr ?t"
    by code_simp
  have ok: "fst (ExternalizeVindex ?w ?q) = None"
    by code_simp
  then have r: "ExternalizeVindex ?w ?q = (None, snd (ExternalizeVindex ?w ?q))"
    by (simp add: prod_eq_iff)
  note t = ExternalizeVindex_streams [OF split vs vx pt ks shards]
  note s = t [THEN conjunct2, THEN spec, THEN mp, OF r]
  note s1 = s [THEN conjunct1, THEN mp, OF o]
  from s1 obtain primary where
    "GetTablet (wr_ts ?w) (si_PrimaryAlias ?shard) = Inr primary" and
    d: "tab_vreplication (wr_tablets (snd (ExternalizeVindex ?w ?q)) (ti_Alias primary)) =
          filter (\<lambda>r. \<not> ofWorkflow (ti_DbName primary) (''email_lookup'' @ ''_vdx'') r)
            (tab_vreplication (wr_tablets ?w (ti_Alias primary)))"
    by auto
  with gt have "primary = ?t"
    by simp
  with d have del: "tab_vreplication (wr_tablets (snd (ExternalizeVindex ?w ?q)) ''zone1-100'') =
          filter (\<lambda>r. \<not> ofWorkflow ''vt_legacy'' (''email_lookup'' @ ''_vdx'') r)
            (tab_vreplication (wr_tablets ?w ''zone1-100''))"
    by simp
  have none: "filter (\<lambda>r. \<not> ofWorkflow ''vt_legacy'' (''email_lookup'' @ ''_vdx'') r)
            (tab_vreplication (wr_tablets ?w ''zone1-100'')) = []"
    by code_simp
  note s4 = s [THEN conjunct2, THEN conjunct2, THEN conjunct2]
  \<comment> \<open>the streams stop after the copy and are running\<close>
  have "\<not> isl (GetVSchema ?v ''sales'')"
    by code_simp
  then have vs': "GetVSchema ?v ''sales'' = Inr (projr (GetVSchema ?v ''sales''))"
    by simp
  have vx': "map_of (ks_Vindexes (projr (GetVSchema ?v ''sales''))) ''email_idx'' = Some ?x"
    by code_simp
  have pt': "lib_ParseTable (wr_lib ?v) (param (vx_Params ?x) ''table'') = Inr (''legacy'', ''email_lookup'')"
    by code_simp
  have shards': "GetServingShards (wr_ts ?v) ''legacy'' = Inr [?shard]"
    by code_simp
  have gt': "GetTablet (wr_ts ?v) (si_PrimaryAlias ?shard) = Inr ?t"
    by code_simp
  have bad: "\<exists>row \<in> set (tab_vreplication (wr_tablets ?v (ti_Alias ?t))).
               ofWorkflow (ti_DbName ?t) (''email_lookup'' @ ''_vdx'') row \<and> \<not> expectedState ?x row"
    by code_simp
  have "\<exists>primary. GetTablet (wr_ts ?v) (si_PrimaryAlias ?shard) = Inr primary \<and>
          (\<exists>row \<in> set (tab_vreplication (wr_tablets ?v (ti_Alias primary))).
             ofWorkflow (ti_DbName primary) (''email_lookup'' @ ''_vdx'') row \<and> \<not> expectedState ?x row)"
    by (intro exI [of _ ?t] conjI gt' bad)
  then have prem: "\<exists>shard \<in> set [?shard]. \<exists>primary.
          GetTablet (wr_ts ?v) (si_PrimaryAlias shard) = Inr primary \<and>
          (\<exists>row \<in> set (tab_vreplication (wr_tablets ?v (ti_Alias primary))).
             ofWorkflow (ti_DbName primary) (''email_lookup'' @ ''_vdx'') row \<and> \<not> expectedState ?x row)"
    by simp
  note u = ExternalizeVindex_streams [OF split vs' vx' pt' ks shards']
  note u1 = u [THEN conjunct1, THEN mp, OF prem]
  show ?thesis
  proof (intro conjI)
    show "map sr_workflow (tab_vreplication (wr_tablets ?w ''zone1-100'')) =
            [''email_lookup_vdx'', ''email_lookup_vdx'']"
      by code_simp
    show "fst (ExternalizeVindex ?w ?q) = None"
      by (rule ok)
    show "tab_vreplication (wr_tablets (snd (ExternalizeVindex ?w ?q)) ''zone1-100'') = []"
      using del none by (rule trans)
    show "\<exists>sv. wr_vschemas (snd (ExternalizeVindex ?w ?q)) ''sales'' = Some sv \<and>
         map_of (ks_Vindexes sv) ''email_idx'' =
           Some \<lparr>vx_Type = ''consistent_lookup_unique'',
                 vx_Params = [(''table'', ''legacy.email_lookup''), (''from'', ''email''),
                              (''to'', ''keyspace_id'')],
                 vx_Owner = ''customer''\<rparr>"
      using s4 unfolding pw by simp
    show "\<exists>e. ExternalizeVindex ?v ?q = (Some e, ?v)"
      by (rule u1)
  qed
qed

subsection \<open>Creating a lookup vindex\<close>

lemma prepareCreateLookup_vindex_length:
  assumes "length (ks_Vindexes specs) \<noteq> 1"
  shows "\<exists>e. prepareCreateLookup_vindex lib specs = Inl e"
proof (cases "ks_Vindexes specs")
  case Nil
  then show ?thesis by (simp add: prepareCreateLookup_vindex_def)
next
  case (Cons a as)
  with assms obtain b bs where "as = b # bs" by (cases as) auto
  with Cons show ?thesis by (simp add: prepareCreateLookup_vindex_def)
qed

lemma prepareCreateLookup_vindex_Inr:
  assumes "prepareCreateLookup_vindex lib specs = Inr lv"
  shows "\<exists>vindex.
           ks_Vindexes specs = [(lv_vindexName lv, vindex)] \<and>
           strings_Contains (vx_Type vindex) ''lookup'' \<and>
           lib_ParseTable lib (param (vx_Params vindex) ''table'') = Inr (lv_targetKeyspace lv, lv_targetTableName lv) \<and>
           lv_targetKeyspace lv \<noteq> [] \<and>
           lv_vindexFromCols lv = strings_Split (param (vx_Params vindex) ''from'') CHR '','' \<and>
           (strings_Contains (vx_Type vindex) ''unique'' \<longrightarrow> length (lv_vindexFromCols lv) = 1) \<and>
           (\<not> strings_Contains (vx_Type vindex) ''unique'' \<longrightarrow> 2 \<le> length (lv_vindexFromCols lv)) \<and>
           lv_vindex lv = vindex\<lparr>vx_Params := AList.update ''write_only'' ''true'' (vx_Params vindex)\<rparr>"
proof -
  from assms obtain vindexName vindex where v: "ks_Vindexes specs = [(vindexName, vindex)]"
    by (auto simp: prepareCreateLookup_vindex_def split: list.splits)
  show ?thesis
    using assms unfolding prepareCreateLookup_vindex_def v
    by (auto simp: Let_def split: if_splits sum.splits option.splits prod.splits)
qed

lemma prepareCreateLookup_table_Inr:
  assumes "prepareCreateLookup_table specs = Inr (k, ti)"
  shows "ks_Tables specs = [(k, ti)] \<and> length (tb_ColumnVindexes ti) = 1"
  using assms
  by (auto simp: prepareCreateLookup_table_def split: list.splits if_splits)

lemma prepareCreateLookup_consistency_Inr:
  assumes "prepareCreateLookup_consistency lv k ti = Inr cols"
  shows "\<exists>cv0 others. tb_ColumnVindexes ti = cv0 # others \<and> cv_Name cv0 = lv_vindexName lv"
  using assms
  by (auto simp: prepareCreateLookup_consistency_def split: list.splits if_splits sum.splits)

lemma prepareCreateLookup_Inr:
  assumes "prepareCreateLookup wr keyspace specs c = Inr (ms, sv, tv)"
  shows "\<exists>lv k ti cols. prepareCreateLookup_vindex (wr_lib wr) specs = Inr lv \<and>
           prepareCreateLookup_table specs = Inr (k, ti) \<and>
           prepareCreateLookup_consistency lv k ti = Inr cols \<and>
           ms_Workflow ms = lv_targetTableName lv @ ''_vdx'' \<and>
           ms_TargetKeyspace ms = lv_targetKeyspace lv \<and>
           map_of (ks_Vindexes sv) (lv_vindexName lv) = Some (lv_vindex lv)"
proof -
  note d = prepareCreateLookup_def
  from assms obtain lv where v: "prepareCreateLookup_vindex (wr_lib wr) specs = Inr lv"
    by (cases "prepareCreateLookup_vindex (wr_lib wr) specs") (simp_all add: d)
  from assms v obtain k ti where t: "prepareCreateLookup_table specs = Inr (k, ti)"
    by (cases "prepareCreateLookup_table specs") (auto simp: d)
  from assms v t obtain cols where c: "prepareCreateLookup_consistency lv k ti = Inr cols"
    by (cases "prepareCreateLookup_consistency lv k ti") (auto simp: d)
  from assms v t c obtain sv0 tv0 where
    vs: "prepareCreateLookup_vschema wr keyspace lv k cols = Inr (sv0, tv0)"
    by (cases "prepareCreateLookup_vschema wr keyspace lv k cols") (auto simp: d)
  from assms v t c vs obtain td where s: "prepareCreateLookup_schema wr keyspace k = Inr td"
    by (cases "prepareCreateLookup_schema wr keyspace k") (auto simp: d)
  from assms v t c vs s obtain ddl where
    dd: "prepareCreateLookup_createDDL (wr_lib wr) lv k cols td = Inr ddl"
    by (cases "prepareCreateLookup_createDDL (wr_lib wr) lv k cols td") (auto simp: d)
  from assms v t c vs s dd obtain tv1 where
    tg: "prepareCreateLookup_target (wr_lib wr) lv cols td tv0 = Inr tv1"
    by (cases "prepareCreateLookup_target (wr_lib wr) lv cols td tv0") (auto simp: d Let_def)
  from assms have
    "ms = prepareCreateLookup_settings keyspace lv c
            (prepareCreateLookup_query (wr_lib wr) lv k cols) ddl"
    "sv = prepareCreateLookup_source lv k (hd (tb_ColumnVindexes ti))
            (if keyspace = lv_targetKeyspace lv then tv1 else sv0)"
    unfolding d by (simp_all add: v t c vs s dd tg Let_def)
  then have "ms_Workflow ms = lv_targetTableName lv @ ''_vdx''"
    "ms_TargetKeyspace ms = lv_targetKeyspace lv"
    "map_of (ks_Vindexes sv) (lv_vindexName lv) = Some (lv_vindex lv)"
    by (simp_all add: prepareCreateLookup_settings_def prepareCreateLookup_source_def
          update_Some_unfold)
  with v t c show ?thesis by blast
qed

text \<open>
  Claim C7. \<^verbatim>\<open>prepareCreateLookup\<close> fails when the specification does not have
  exactly one vindex, or not exactly one table, or the type of the vindex is not a
  lookup type, or a unique vindex does not have exactly one \<open>from\<close> column, or a
  non-unique vindex has fewer than two, or the column vindexes of the table are not one
  binding with the name of the vindex. \<^verbatim>\<open>CreateLookupVindex\<close> then returns that
  error and leaves the world as it was: no VSchema is saved.
\<close>

theorem CreateLookupVindex_rejects_invalid_spec:
  assumes "length (ks_Vindexes specs) \<noteq> 1 \<or> length (ks_Tables specs) \<noteq> 1 \<or>
     (\<exists>vindexName vindex. ks_Vindexes specs = [(vindexName, vindex)] \<and>
        (\<not> strings_Contains (vx_Type vindex) ''lookup'' \<or>
         (strings_Contains (vx_Type vindex) ''unique'' \<and>
          length (strings_Split (param (vx_Params vindex) ''from'') CHR '','') \<noteq> 1) \<or>
         (\<not> strings_Contains (vx_Type vindex) ''unique'' \<and>
          length (strings_Split (param (vx_Params vindex) ''from'') CHR '','') < 2) \<or>
         (\<exists>k ti. ks_Tables specs = [(k, ti)] \<and> map cv_Name (tb_ColumnVindexes ti) \<noteq> [vindexName])))"
  shows "\<exists>e. prepareCreateLookup wr keyspace specs continueAfterCopyWithOwner = Inl e \<and>
             CreateLookupVindex wr keyspace specs cell tabletTypes continueAfterCopyWithOwner = (Some e, wr)"
proof -
  have "\<exists>e. prepareCreateLookup wr keyspace specs continueAfterCopyWithOwner = Inl e"
  proof (rule ccontr)
    assume "\<not> ?thesis"
    then obtain ms sv tv where
      ok: "prepareCreateLookup wr keyspace specs continueAfterCopyWithOwner = Inr (ms, sv, tv)"
      by (cases "prepareCreateLookup wr keyspace specs continueAfterCopyWithOwner") auto
    from prepareCreateLookup_Inr [OF ok] obtain lv k ti cols where
      v: "prepareCreateLookup_vindex (wr_lib wr) specs = Inr lv"
      and t: "prepareCreateLookup_table specs = Inr (k, ti)"
      and c: "prepareCreateLookup_consistency lv k ti = Inr cols"
      by blast
    from prepareCreateLookup_vindex_Inr [OF v] obtain vindex where
      vs: "ks_Vindexes specs = [(lv_vindexName lv, vindex)]"
      and lookup: "strings_Contains (vx_Type vindex) ''lookup''"
      and frm: "lv_vindexFromCols lv = strings_Split (param (vx_Params vindex) ''from'') CHR '',''"
      and cnt1: "strings_Contains (vx_Type vindex) ''unique'' \<longrightarrow> length (lv_vindexFromCols lv) = 1"
      and cnt2: "\<not> strings_Contains (vx_Type vindex) ''unique'' \<longrightarrow> 2 \<le> length (lv_vindexFromCols lv)"
      by (elim exE conjE)
    from prepareCreateLookup_table_Inr [OF t] have
      ts: "ks_Tables specs = [(k, ti)]" and one: "length (tb_ColumnVindexes ti) = 1"
      by simp_all
    from prepareCreateLookup_consistency_Inr [OF c] one have
      names: "map cv_Name (tb_ColumnVindexes ti) = [lv_vindexName lv]"
      by auto
    from assms consider
      (a) "length (ks_Vindexes specs) \<noteq> 1" | (b) "length (ks_Tables specs) \<noteq> 1"
      | (c) vindexName vindex' where "ks_Vindexes specs = [(vindexName, vindex')]"
          "\<not> strings_Contains (vx_Type vindex') ''lookup'' \<or>
           (strings_Contains (vx_Type vindex') ''unique'' \<and>
            length (strings_Split (param (vx_Params vindex') ''from'') CHR '','') \<noteq> 1) \<or>
           (\<not> strings_Contains (vx_Type vindex') ''unique'' \<and>
            length (strings_Split (param (vx_Params vindex') ''from'') CHR '','') < 2) \<or>
           (\<exists>k ti. ks_Tables specs = [(k, ti)] \<and> map cv_Name (tb_ColumnVindexes ti) \<noteq> [vindexName])"
      by blast
    then show False
    proof cases
      case a
      with vs show False by simp
    next
      case b
      with ts show False by simp
    next
      case c
      from c(1) vs have e: "vindexName = lv_vindexName lv" "vindex' = vindex" by simp_all
      from c(2) show False
        unfolding e using lookup cnt1 cnt2 ts names unfolding frm by auto
    qed
  qed
  then show ?thesis
    by (auto simp: CreateLookupVindex_def)
qed

text \<open>
  A specification with two vindexes is rejected.
\<close>

theorem CreateLookupVindex_rejects_invalid_spec_witness:
  "map fst (ks_Vindexes demo_two_vindexes) = [''email_idx'', ''region_idx''] \<and>
   (\<exists>e. prepareCreateLookup demo_lookup_wr ''sales'' demo_two_vindexes True = Inl e \<and>
        CreateLookupVindex demo_lookup_wr ''sales'' demo_two_vindexes ''zone1'' ''primary'' True =
          (Some e, demo_lookup_wr))"
proof -
  have l: "map fst (ks_Vindexes demo_two_vindexes) = [''email_idx'', ''region_idx'']"
    by (simp add: demo_two_vindexes_def demo_lookup_specs_def)
  have h: "length (ks_Vindexes demo_two_vindexes) \<noteq> 1"
    by (simp add: demo_two_vindexes_def demo_lookup_specs_def)
  note t = CreateLookupVindex_rejects_invalid_spec [where specs = demo_two_vindexes
      and wr = demo_lookup_wr and keyspace = "''sales''" and continueAfterCopyWithOwner = True
      and cell = "''zone1''" and tabletTypes = "''primary''", OF disjI1 [OF h]]
  from l t show ?thesis
    by (rule conjI)
qed




subsection \<open>Stream records along the pipeline\<close>




















lemma buildMaterializer_ms:
  assumes "buildMaterializer wr ms = Inr mz"
  shows "mz_ms mz = ms \<and> mz_sourceShards mz \<noteq> []"
  using assms unfolding buildMaterializer_def
  by (auto simp: Let_def split: sum.splits option.splits if_splits)



subsection \<open>MoveTables\<close>

lemma validateNewWorkflow_exists:
  assumes "workflowExists wr keyspace workflow"
  shows "\<exists>e. validateNewWorkflow wr keyspace workflow = Some e"
proof -
  from assms obtain shards where s1: "GetServingShards (wr_ts wr) keyspace = Inr shards"
    unfolding workflowExists_def by (cases "GetServingShards (wr_ts wr) keyspace") auto
  with assms obtain shard where s2: "shard \<in> set shards"
    and c: "case GetTablet (wr_ts wr) (si_PrimaryAlias shard) of
               Inl e \<Rightarrow> False
             | Inr primary \<Rightarrow>
                 (\<exists>row \<in> set (tab_vreplication (wr_tablets wr (ti_Alias primary))).
                    ofWorkflow (ti_DbName primary) workflow row)"
    unfolding workflowExists_def by auto
  from c obtain primary where g: "GetTablet (wr_ts wr) (si_PrimaryAlias shard) = Inr primary"
    by (cases "GetTablet (wr_ts wr) (si_PrimaryAlias shard)") auto
  with c obtain row where
    r: "row \<in> set (tab_vreplication (wr_tablets wr (ti_Alias primary)))"
      "ofWorkflow (ti_DbName primary) workflow row"
    by auto
  note s = s1 s2
  have "\<exists>e. fst (validateNewWorkflow_shard wr keyspace workflow () shard) = Some e"
    using g r
    by (cases "tab_rpcError (wr_tablets wr (ti_Alias primary))")
       (auto simp: validateNewWorkflow_shard_def VReplicationExec_fst vreplication_rows_def
          filter_empty_conv)
  then obtain e where "fst (validateNewWorkflow_shard wr keyspace workflow () shard) = Some e" ..
  from forAllShards_unit_error
         [where f = "validateNewWorkflow_shard wr keyspace workflow", OF s(2) this]
  show ?thesis
    by (auto simp: validateNewWorkflow_def s(1))
qed

lemma workflowExists_cong:
  assumes "wr_ts wr' = wr_ts wr" and "wr_tablets wr' = wr_tablets wr"
  shows "workflowExists wr' keyspace workflow = workflowExists wr keyspace workflow"
  by (simp add: workflowExists_def assms cong: sum.case_cong)

lemma SaveVSchema_frame:
  assumes "SaveVSchema wr ks v = (r, wr')"
  shows "wr_ts wr' = wr_ts wr \<and> wr_tablets wr' = wr_tablets wr \<and> wr_lib wr' = wr_lib wr \<and>
         wr_routingRules wr' = wr_routingRules wr \<and> wr_sourceTs wr' = wr_sourceTs wr"
  using assms by (auto simp: SaveVSchema_def split: option.splits)

lemma SaveRoutingRules_frame:
  assumes "SaveRoutingRules wr rules = (r, wr')"
  shows "wr_ts wr' = wr_ts wr \<and> wr_tablets wr' = wr_tablets wr \<and> wr_lib wr' = wr_lib wr"
  using assms by (auto simp: SaveRoutingRules_def split: option.splits)

lemma MoveTables_save_frame:
  assumes "MoveTables_save wr req tables vschema b = (r, wr')"
  shows "wr_ts wr' = wr_ts wr \<and> wr_tablets wr' = wr_tablets wr \<and> wr_lib wr' = wr_lib wr"
proof (cases b)
  case False
  with assms have "wr' = wr" by (auto simp: MoveTables_save_def)
  then show ?thesis by simp
next
  case True
  show ?thesis
  proof (cases "GetRoutingRules wr")
    case (Inl e)
    with assms True have "wr' = wr" by (auto simp: MoveTables_save_def)
    then show ?thesis by simp
  next
    case (Inr rules)
    obtain r1 wr1 where s1: "SaveRoutingRules wr
        (MoveTables_rules (mt_sourceKeyspace req) (mt_targetKeyspace req) rules tables) = (r1, wr1)"
      by (cases "SaveRoutingRules wr
        (MoveTables_rules (mt_sourceKeyspace req) (mt_targetKeyspace req) rules tables)")
    note f1 = SaveRoutingRules_frame [OF s1]
    show ?thesis
    proof (cases r1)
      case (Some e)
      with assms True Inr s1 have "wr' = wr1" by (auto simp: MoveTables_save_def)
      with f1 show ?thesis by simp
    next
      case None
      obtain r2 wr2 where s2: "SaveVSchema wr1 (mt_targetKeyspace req) vschema = (r2, wr2)"
        by (cases "SaveVSchema wr1 (mt_targetKeyspace req) vschema")
      from assms True Inr s1 None s2 have "wr' = wr2"
        by (cases r2) (auto simp: MoveTables_save_def)
      with f1 SaveVSchema_frame [OF s2] show ?thesis by simp
    qed
  qed
qed

lemma MoveTables_prepare_frame:
  assumes "MoveTables_prepare wr req = (r, wr')"
  shows "wr_ts wr' = wr_ts wr \<and> wr_tablets wr' = wr_tablets wr \<and> wr_lib wr' = wr_lib wr \<and>
         (\<forall>ms. r = Inr ms \<longrightarrow> (\<exists>tables. ms = MoveTables_settings (wr_lib wr) req tables))"
proof -
  let ?ext = "if mt_externalCluster req \<noteq> []
            then (case OpenExternalVitessClusterServer wr (mt_externalCluster req) of
                    Inl e \<Rightarrow> Inl e
                  | Inr externalTopo \<Rightarrow> Inr (False, wr\<lparr>wr_sourceTs := externalTopo\<rparr>))
            else Inr (True, wr)"
  show ?thesis
  proof (cases ?ext)
    case (Inl e)
    with assms have "wr' = wr" "\<exists>e. r = Inl e" unfolding MoveTables_prepare_def by auto
    then show ?thesis by auto
  next
    case (Inr p)
    obtain b wr1 where p: "p = (b, wr1)" by (cases p)
    from Inr p have f1: "wr_ts wr1 = wr_ts wr \<and> wr_tablets wr1 = wr_tablets wr \<and> wr_lib wr1 = wr_lib wr"
      by (auto split: if_splits sum.splits)
    show ?thesis
    proof (cases "GetVSchema wr1 (mt_targetKeyspace req)")
      case Inl2: (Inl e)
      with assms Inr p have "wr' = wr1" "\<exists>e. r = Inl e" unfolding MoveTables_prepare_def by auto
      with f1 show ?thesis by auto
    next
      case Inr2: (Inr vschema)
      show ?thesis
      proof (cases "MoveTables_tables wr1 req vschema b")
        case Inl3: (Inl e)
        with assms Inr p Inr2 have "wr' = wr1" "\<exists>e. r = Inl e"
          unfolding MoveTables_prepare_def by auto
        with f1 show ?thesis by auto
      next
        case Inr3: (Inr q)
        obtain tables vschema1 where q: "q = (tables, vschema1)" by (cases q)
        obtain r2 wr2 where sv: "MoveTables_save wr1 req tables vschema1 b = (r2, wr2)"
          by (cases "MoveTables_save wr1 req tables vschema1 b")
        from assms Inr p Inr2 Inr3 q sv have "wr' = wr2"
          "\<forall>ms. r = Inr ms \<longrightarrow> ms = MoveTables_settings (wr_lib wr2) req tables"
          unfolding MoveTables_prepare_def by (cases r2; auto)+
        with f1 MoveTables_save_frame [OF sv] show ?thesis by auto
      qed
    qed
  qed
qed






text \<open>
  Claim C5, as far as it holds. When a workflow of the name exists in the target
  keyspace, \<^verbatim>\<open>Materialize\<close> fails and changes nothing; \<^verbatim>\<open>MoveTables\<close> fails
  and changes no tablet, so no schema and no stream record;
  \<^verbatim>\<open>CreateLookupVindex\<close>, when its specification is valid, fails and has changed
  at most the VSchema of the target keyspace.
\<close>

theorem workflow_exists_rejected:
  assumes "workflowExists wr targetKeyspace workflow"
  shows "(\<forall>ms. ms_TargetKeyspace ms = targetKeyspace \<and> ms_Workflow ms = workflow \<longrightarrow>
            (\<exists>e. Materialize wr ms = (Some e, wr))) \<and>
         (\<forall>req res wr'.
            mt_targetKeyspace req = targetKeyspace \<and> mt_workflow req = workflow \<and>
            MoveTables wr req = (res, wr') \<longrightarrow>
            res \<noteq> None \<and> wr_tablets wr' = wr_tablets wr) \<and>
         (\<forall>keyspace specs cell tabletTypes c ms sv tv.
            prepareCreateLookup wr keyspace specs c = Inr (ms, sv, tv) \<and>
            ms_TargetKeyspace ms = targetKeyspace \<and> ms_Workflow ms = workflow \<longrightarrow>
            (\<exists>e. CreateLookupVindex wr keyspace specs cell tabletTypes c = (Some e, wr) \<or>
                 CreateLookupVindex wr keyspace specs cell tabletTypes c =
                   (Some e, wr\<lparr>wr_vschemas := (wr_vschemas wr)(targetKeyspace \<mapsto> tv)\<rparr>)))"
proof -
  have pm: "\<exists>e. prepareMaterializerStreams w ms = (Inl e, w)"
    if "workflowExists w (ms_TargetKeyspace ms) (ms_Workflow ms)" for w ms
    using validateNewWorkflow_exists [OF that]
    by (auto simp: prepareMaterializerStreams_def)
  have a: "\<exists>e. Materialize wr ms = (Some e, wr)"
    if "ms_TargetKeyspace ms = targetKeyspace \<and> ms_Workflow ms = workflow" for ms
    using pm [of wr ms] assms that by (auto simp: Materialize_def)
  have b: "res \<noteq> None \<and> wr_tablets wr' = wr_tablets wr"
    if h: "mt_targetKeyspace req = targetKeyspace \<and> mt_workflow req = workflow \<and>
            MoveTables wr req = (res, wr')" for req res wr'
  proof -
    obtain r0 wr0 where p: "MoveTables_prepare wr req = (r0, wr0)"
      by (cases "MoveTables_prepare wr req")
    note f = MoveTables_prepare_frame [OF p]
    show ?thesis
    proof (cases r0)
      case (Inl e)
      with h p f show ?thesis by (auto simp: MoveTables_def)
    next
      case (Inr ms)
      with f obtain tables where ms: "ms = MoveTables_settings (wr_lib wr) req tables" by blast
      have "ms_TargetKeyspace ms = targetKeyspace" "ms_Workflow ms = workflow"
        using h by (simp_all add: ms MoveTables_settings_def Let_def)
      then have "workflowExists wr0 (ms_TargetKeyspace ms) (ms_Workflow ms)"
        using assms workflowExists_cong [of wr0 wr targetKeyspace workflow] f by simp
      from pm [OF this] obtain e where "prepareMaterializerStreams wr0 ms = (Inl e, wr0)" ..
      with h p Inr f show ?thesis
        by (auto simp: MoveTables_def MoveTables_streams_def)
    qed
  qed
  have c: "\<exists>e. CreateLookupVindex wr keyspace specs cell tabletTypes c = (Some e, wr) \<or>
                 CreateLookupVindex wr keyspace specs cell tabletTypes c =
                   (Some e, wr\<lparr>wr_vschemas := (wr_vschemas wr)(targetKeyspace \<mapsto> tv)\<rparr>)"
    if h: "prepareCreateLookup wr keyspace specs c = Inr (ms, sv, tv) \<and>
            ms_TargetKeyspace ms = targetKeyspace \<and> ms_Workflow ms = workflow"
    for keyspace specs cell tabletTypes c ms sv tv
  proof (cases "wr_topoFault wr (OpSaveVSchema targetKeyspace)")
    case (Some m)
    with h show ?thesis
      by (auto simp: CreateLookupVindex_def SaveVSchema_def)
  next
    case None
    let ?w = "wr\<lparr>wr_vschemas := (wr_vschemas wr)(targetKeyspace \<mapsto> tv)\<rparr>"
    let ?ms = "ms\<lparr>ms_Cell := cell, ms_TabletTypes := tabletTypes\<rparr>"
    have s: "SaveVSchema wr (ms_TargetKeyspace ms) tv = (None, ?w)"
      using None h by (simp add: SaveVSchema_def)
    have "workflowExists ?w (ms_TargetKeyspace ?ms) (ms_Workflow ?ms)"
      using assms h workflowExists_cong [of ?w wr targetKeyspace workflow] by simp
    from pm [OF this] obtain e where "prepareMaterializerStreams ?w ?ms = (Inl e, ?w)" ..
    then have "CreateLookupVindex wr keyspace specs cell tabletTypes c = (Some e, ?w)"
      using h s by (simp add: CreateLookupVindex_def Materialize_def)
    then show ?thesis by blast
  qed
  show ?thesis
  proof (intro conjI allI impI)
    fix ms :: MaterializeSettings
    assume "ms_TargetKeyspace ms = targetKeyspace \<and> ms_Workflow ms = workflow"
    then show "\<exists>e. Materialize wr ms = (Some e, wr)" by (rule a)
  next
    fix req res wr'
    assume h: "mt_targetKeyspace req = targetKeyspace \<and> mt_workflow req = workflow \<and>
            MoveTables wr req = (res, wr')"
    from b [OF h] show "res \<noteq> None" by simp
    from b [OF h] show "wr_tablets wr' = wr_tablets wr" by simp
  next
    fix keyspace specs cell tabletTypes c ms sv tv
    assume "prepareCreateLookup wr keyspace specs c = Inr (ms, sv, tv) \<and>
            ms_TargetKeyspace ms = targetKeyspace \<and> ms_Workflow ms = workflow"
    then show "\<exists>e. CreateLookupVindex wr keyspace specs cell tabletTypes c = (Some e, wr) \<or>
                 CreateLookupVindex wr keyspace specs cell tabletTypes c =
                   (Some e, wr\<lparr>wr_vschemas := (wr_vschemas wr)(targetKeyspace \<mapsto> tv)\<rparr>)"
      by (rule c)
  qed
qed

text \<open>
  The workflow \<open>movecust\<close> has a stream on the first target: \<^verbatim>\<open>MoveTables\<close>
  fails and the tablets are as before.
\<close>

theorem workflow_exists_rejected_witness:
  "workflowExists (demo_wr [demo_stream] []) ''sales'' ''movecust'' \<and>
   (\<exists>e. Materialize (demo_wr [demo_stream] []) (mz_ms demo_mz) = (Some e, demo_wr [demo_stream] [])) \<and>
   fst (MoveTables (demo_wr [demo_stream] []) demo_request) \<noteq> None \<and>
   wr_tablets (snd (MoveTables (demo_wr [demo_stream] []) demo_request)) =
     wr_tablets (demo_wr [demo_stream] []) \<and>
   workflowExists demo_busy_wr ''legacy'' ''email_lookup_vdx'' \<and>
   (\<exists>e tv. CreateLookupVindex demo_busy_wr ''sales'' demo_lookup_specs ''zone1'' ''primary'' True =
             (Some e, demo_busy_wr) \<or>
           CreateLookupVindex demo_busy_wr ''sales'' demo_lookup_specs ''zone1'' ''primary'' True =
             (Some e, demo_busy_wr\<lparr>wr_vschemas := (wr_vschemas demo_busy_wr)(''legacy'' \<mapsto> tv)\<rparr>))"
proof -
  let ?w = "demo_wr [demo_stream] []"
  let ?m = "MoveTables ?w demo_request"
  let ?p = "prepareCreateLookup demo_busy_wr ''sales'' demo_lookup_specs True"
  have e: "workflowExists ?w ''sales'' ''movecust''"
    by code_simp
  have f: "workflowExists demo_busy_wr ''legacy'' ''email_lookup_vdx''"
    by code_simp
  have h1: "ms_TargetKeyspace (mz_ms demo_mz) = ''sales'' \<and> ms_Workflow (mz_ms demo_mz) = ''movecust''"
    by code_simp
  have h2: "mt_targetKeyspace demo_request = ''sales'' \<and> mt_workflow demo_request = ''movecust'' \<and>
            ?m = (fst ?m, snd ?m)"
    by (simp add: demo_request_def)
  have "\<not> isl ?p"
    by code_simp
  then have p: "?p = Inr (fst (projr ?p), fst (snd (projr ?p)), snd (snd (projr ?p)))"
    by simp
  have k: "ms_TargetKeyspace (fst (projr ?p)) = ''legacy'' \<and>
           ms_Workflow (fst (projr ?p)) = ''email_lookup_vdx''"
    by code_simp
  note t = workflow_exists_rejected [OF e]
  note u = workflow_exists_rejected [OF f]
  note t1 = t [THEN conjunct1, THEN spec, THEN mp, OF h1]
  note t2 = t [THEN conjunct2, THEN conjunct1, THEN spec, THEN spec, THEN spec, THEN mp, OF h2]
  note u3 = u [THEN conjunct2, THEN conjunct2, rule_format,
      where cell = "''zone1''" and tabletTypes = "''primary''", OF conjI [OF p k]]
  show ?thesis
  proof (intro conjI)
    show "workflowExists ?w ''sales'' ''movecust''" by (rule e)
    show "\<exists>e. Materialize ?w (mz_ms demo_mz) = (Some e, ?w)" by (rule t1)
    show "fst ?m \<noteq> None" by (rule t2 [THEN conjunct1])
    show "wr_tablets (snd ?m) = wr_tablets ?w" by (rule t2 [THEN conjunct2])
    show "workflowExists demo_busy_wr ''legacy'' ''email_lookup_vdx''" by (rule f)
    show "\<exists>e tv. CreateLookupVindex demo_busy_wr ''sales'' demo_lookup_specs ''zone1'' ''primary'' True =
             (Some e, demo_busy_wr) \<or>
           CreateLookupVindex demo_busy_wr ''sales'' demo_lookup_specs ''zone1'' ''primary'' True =
             (Some e, demo_busy_wr\<lparr>wr_vschemas := (wr_vschemas demo_busy_wr)(''legacy'' \<mapsto> tv)\<rparr>)"
      using u3 by blast
  qed
qed

text \<open>
  Claim C5 as stated says that nothing has been changed when the check fails.
  \<^verbatim>\<open>MoveTables\<close> saves the routing rules before the check, and
  \<^verbatim>\<open>CreateLookupVindex\<close> saves the target VSchema before it.
\<close>

theorem workflow_exists_after_save:
  "workflowExists (demo_wr [demo_stream] []) ''sales'' ''movecust'' \<and>
   fst (MoveTables (demo_wr [demo_stream] []) demo_request) \<noteq> None \<and>
   wr_routingRules (demo_wr [demo_stream] []) = [] \<and>
   wr_routingRules (snd (MoveTables (demo_wr [demo_stream] []) demo_request)) =
     map (\<lambda>name. (name, [''legacy.customer'']))
       [''customer'', ''customer@replica'', ''customer@rdonly'', ''sales.customer'',
        ''sales.customer@replica'', ''sales.customer@rdonly'', ''legacy.customer@replica'',
        ''legacy.customer@rdonly''] \<and>
   workflowExists demo_busy_wr ''legacy'' ''email_lookup_vdx'' \<and>
   fst (CreateLookupVindex demo_busy_wr ''sales'' demo_lookup_specs ''zone1'' ''primary'' True)
     \<noteq> None \<and>
   map_option (map fst \<circ> ks_Tables) (wr_vschemas demo_busy_wr ''legacy'') = Some [''customer''] \<and>
   map_option (map fst \<circ> ks_Tables)
     (wr_vschemas
        (snd (CreateLookupVindex demo_busy_wr ''sales'' demo_lookup_specs ''zone1'' ''primary'' True))
        ''legacy'') = Some [''customer'', ''email_lookup'']"
  by (intro conjI) code_simp+

lemma journal_sources_all_found:
  assumes "\<forall>shard \<in> set shards. \<exists>tablet.
             GetTablet (wr_ts wr) (si_PrimaryAlias shard) = Inr tablet \<and>
             CheckReshardingJournalExistsOnTablet wr tablet migrationID = Inr True"
  shows "forAllShards (checkIfPreviousJournalExists_source wr migrationID) shards (found, tablets) =
           ([], (found \<or> shards \<noteq> [], tablets @ List.map_filter si_PrimaryAlias shards))"
  using assms
proof (induction shards arbitrary: found tablets)
  case Nil
  show ?case by (simp add: List.map_filter_simps)
next
  case (Cons shard shards)
  from Cons.prems obtain tablet where
    t: "GetTablet (wr_ts wr) (si_PrimaryAlias shard) = Inr tablet" and
    j: "CheckReshardingJournalExistsOnTablet wr tablet migrationID = Inr True"
    by auto
  from t obtain a where a: "si_PrimaryAlias shard = Some a" "ti_Alias tablet = a"
    by (auto simp: GetTablet_def split: option.splits)
  have step: "checkIfPreviousJournalExists_source wr migrationID (found, tablets) shard =
          (None, (True, tablets @ [a]))"
    using t j a by (simp add: checkIfPreviousJournalExists_source_def)
  have rest: "\<forall>shard \<in> set shards. \<exists>tablet.
             GetTablet (wr_ts wr) (si_PrimaryAlias shard) = Inr tablet \<and>
             CheckReshardingJournalExistsOnTablet wr tablet migrationID = Inr True"
    using Cons.prems by simp
  show ?case
    by (simp add: step Cons.IH [OF rest] List.map_filter_simps a)
qed

lemma prepareMaterializerStreams_sources:
  assumes "prepareMaterializerStreams wr ms = (Inr mz, wr')"
  shows "mz_sourceShards mz \<noteq> []"
proof -
  from assms have "buildMaterializer wr ms = Inr mz"
    unfolding prepareMaterializerStreams_def
    by (auto split: option.splits sum.splits prod.splits)
  from buildMaterializer_ms [OF this] show ?thesis by simp
qed

text \<open>
  Claim C1, as far as it holds. Let \<^verbatim>\<open>MoveTables\<close> run without an external
  cluster up to the journal check: the streams are prepared, the time zone probe
  passes and the stream ids are collected. If the primary of every source shard reports
  an entry for the migration id, the call fails with the error that names the
  migration id, these primaries, the workflow and the target keyspace, and the world is
  the one that the preparation of the streams has left: no stream is started.
\<close>

theorem MoveTables_previous_journal:
  assumes ext: "mt_externalCluster req = []"
    and prep: "MoveTables_prepare wr req = (Inr ms, wr0)"
    and strm: "prepareMaterializerStreams wr0 ms = (Inr mz, wr1)"
    and tz: "mt_sourceTimeZone req = [] \<or> checkTZConversion wr1 mz (mt_sourceTimeZone req) = None"
    and ids: "collectTargetStreams wr1 mz = Inr tabletShards"
    and entry: "\<forall>shard \<in> set (mz_sourceShards mz). \<exists>tablet.
             GetTablet (wr_ts wr1) (si_PrimaryAlias shard) = Inr tablet \<and>
             CheckReshardingJournalExistsOnTablet wr1 tablet
               (getMigrationID (mt_targetKeyspace req) tabletShards) = Inr True"
  shows "MoveTables wr req =
           (Some (Errorf
              (''found an entry from a previous run for migration id %d in '' @
               ''_vt.resharding_journal of tablets %s,'' @
               ''please review and delete it before proceeding and restart the workflow '' @
               ''using the Workflow %s.%s start'')
              [sprint_int (uint (getMigrationID (mt_targetKeyspace req) tabletShards)),
               strings_Join (List.map_filter si_PrimaryAlias (mz_sourceShards mz)) '','',
               mt_workflow req, mt_targetKeyspace req]),
            wr1)"
proof -
  let ?id = "getMigrationID (mt_targetKeyspace req) tabletShards"
  have ne: "mz_sourceShards mz \<noteq> []"
    by (rule prepareMaterializerStreams_sources [OF strm])
  have chk: "checkIfPreviousJournalExists wr1 mz ?id =
          (True, List.map_filter si_PrimaryAlias (mz_sourceShards mz), None)"
    unfolding checkIfPreviousJournalExists_def
    by (simp add: journal_sources_all_found [OF entry] ne AggrError_def)
  have jr: "MoveTables_journal wr1 req mz ?id =
          Some (Errorf
              (''found an entry from a previous run for migration id %d in '' @
               ''_vt.resharding_journal of tablets %s,'' @
               ''please review and delete it before proceeding and restart the workflow '' @
               ''using the Workflow %s.%s start'')
              [sprint_int (uint ?id),
               strings_Join (List.map_filter si_PrimaryAlias (mz_sourceShards mz)) '','',
               mt_workflow req, mt_targetKeyspace req])"
    unfolding MoveTables_journal_def by (simp only: ext chk) simp
  have t: "(if mt_sourceTimeZone req \<noteq> []
            then checkTZConversion wr1 mz (mt_sourceTimeZone req) else None) = None"
    using tz by auto
  show ?thesis
    unfolding MoveTables_def MoveTables_streams_def
    using t by (simp add: prep strm ids jr)
qed

text \<open>
  The journal of the source primary has the migration id of the two streams.
\<close>

theorem MoveTables_previous_journal_witness:
  "fst (MoveTables (demo_wr [] [getMigrationID ''sales'' [''-80:1'', ''80-:1'']]) demo_request) =
     Some (Errorf
        (''found an entry from a previous run for migration id %d in '' @
         ''_vt.resharding_journal of tablets %s,'' @
         ''please review and delete it before proceeding and restart the workflow '' @
         ''using the Workflow %s.%s start'')
        [''2939685876081483679'', ''zone1-100'', ''movecust'', ''sales''])"
proof -
  let ?w = "demo_wr [] [getMigrationID ''sales'' [''-80:1'', ''80-:1'']]"
  let ?p = "MoveTables_prepare ?w demo_request"
  let ?ms = "projr (fst ?p)"
  let ?s = "prepareMaterializerStreams (snd ?p) ?ms"
  let ?mz = "projr (fst ?s)"
  let ?c = "collectTargetStreams (snd ?s) ?mz"
  let ?ids = "projr ?c"
  let ?t = "\<lparr>ti_Alias = ''zone1-100'', ti_DbName = ''vt_legacy''\<rparr>"
  have ext: "mt_externalCluster demo_request = []"
    by (simp add: demo_request_def)
  have "\<not> isl (fst ?p)"
    by code_simp
  then have prep: "?p = (Inr ?ms, snd ?p)"
    by (simp add: prod_eq_iff)
  have "\<not> isl (fst ?s)"
    by code_simp
  then have strm: "?s = (Inr ?mz, snd ?s)"
    by (simp add: prod_eq_iff)
  have "checkTZConversion (snd ?s) ?mz (mt_sourceTimeZone demo_request) = None"
    by code_simp
  then have tz: "mt_sourceTimeZone demo_request = [] \<or>
      checkTZConversion (snd ?s) ?mz (mt_sourceTimeZone demo_request) = None"
    by (rule disjI2)
  have "\<not> isl ?c"
    by code_simp
  then have ids: "?c = Inr ?ids"
    by simp
  have src: "mz_sourceShards ?mz = [demo_shard ''legacy'' ''0'' None ''zone1-100'']"
    by code_simp
  have gt: "GetTablet (wr_ts (snd ?s)) (si_PrimaryAlias (demo_shard ''legacy'' ''0'' None ''zone1-100''))
              = Inr ?t"
    by code_simp
  have jr: "CheckReshardingJournalExistsOnTablet (snd ?s) ?t
              (getMigrationID (mt_targetKeyspace demo_request) ?ids) = Inr True"
    by code_simp
  have entry: "\<forall>shard \<in> set (mz_sourceShards ?mz). \<exists>tablet.
             GetTablet (wr_ts (snd ?s)) (si_PrimaryAlias shard) = Inr tablet \<and>
             CheckReshardingJournalExistsOnTablet (snd ?s) tablet
               (getMigrationID (mt_targetKeyspace demo_request) ?ids) = Inr True"
    unfolding src using gt jr by simp
  note r = MoveTables_previous_journal [OF ext prep strm tz ids entry]
  have a: "sprint_int (uint (getMigrationID ''sales'' ?ids)) = ''2939685876081483679''"
    by code_simp
  have b: "strings_Join (List.map_filter si_PrimaryAlias (mz_sourceShards ?mz)) '','' = ''zone1-100''"
    by code_simp
  have c: "mt_workflow demo_request = ''movecust''"
    by (simp add: demo_request_def)
  have d: "mt_targetKeyspace demo_request = ''sales''"
    by (simp add: demo_request_def)
  show ?thesis
    unfolding r fst_conv b c d a by (rule refl)
qed

text \<open>
  Claim C1 as stated says that the call creates no stream record and fails when any
  source primary reports an entry. The streams are created before the journal is
  checked: the first target had no record and has a stopped one after the failed call.
  And with two source shards of which only the first reports an entry, the answer of
  the second replaces it and the call succeeds.
\<close>

theorem MoveTables_journal_after_streams:
  "mt_externalCluster demo_request = [] \<and>
   tab_vreplication
     (wr_tablets (demo_wr [] [getMigrationID ''sales'' [''-80:1'', ''80-:1'']]) ''zone1-200'') = [] \<and>
   fst (MoveTables (demo_wr [] [getMigrationID ''sales'' [''-80:1'', ''80-:1'']]) demo_request) =
     Some (Errorf
        (''found an entry from a previous run for migration id %d in '' @
         ''_vt.resharding_journal of tablets %s,'' @
         ''please review and delete it before proceeding and restart the workflow '' @
         ''using the Workflow %s.%s start'')
        [''2939685876081483679'', ''zone1-100'', ''movecust'', ''sales'']) \<and>
   map (\<lambda>r. (sr_id r, sr_workflow r, sr_state r))
     (tab_vreplication
        (wr_tablets
           (snd (MoveTables (demo_wr [] [getMigrationID ''sales'' [''-80:1'', ''80-:1'']]) demo_request))
           ''zone1-200'')) = [(1, ''movecust'', ''Stopped'')] \<and>
   mt_externalCluster demo_back_request = [] \<and>
   fst (MoveTables (demo_back_wr [] [getMigrationID ''legacy'' [''0:1'', ''0:2'']]) demo_back_request) =
     Some (Errorf
        (''found an entry from a previous run for migration id %d in '' @
         ''_vt.resharding_journal of tablets %s,'' @
         ''please review and delete it before proceeding and restart the workflow '' @
         ''using the Workflow %s.%s start'')
        [''4150331785113218989'', ''zone1-300'', ''moveback'', ''legacy'']) \<and>
   CheckReshardingJournalExistsOnTablet
     (snd (MoveTables (demo_back_wr [getMigrationID ''legacy'' [''0:1'', ''0:2'']] []) demo_back_request))
     \<lparr>ti_Alias = ''zone1-200'', ti_DbName = ''vt_sales''\<rparr>
     (getMigrationID ''legacy'' [''0:1'', ''0:2'']) = Inr True \<and>
   fst (MoveTables (demo_back_wr [getMigrationID ''legacy'' [''0:1'', ''0:2'']] []) demo_back_request) =
     None"
  by (intro conjI) code_simp+

end
